theory Spec2Isabelle
  imports Complex_Main "HOL-Library.AList"
begin

section \<open>altair_nx: drawing NetworkX graphs with Altair (draw_altair.py)\<close>

text \<open>
  A shallow embedding of \<^verbatim>\<open>src/altair_nx/draw_altair.py\<close>.  Python values that the
  code inspects at run time (\<^verbatim>\<open>isinstance\<close>, \<^verbatim>\<open>is None\<close>, truthiness) are values of
  \<open>pyval\<close>; every \<^verbatim>\<open>raise\<close> is a result \<open>Inl e\<close>; the objects the code mutates in place
  (graphs, charts, layered charts) live in an explicit store and are passed by reference.
  Python floats are modelled by the reals: rounding is not part of the model.
\<close>

subsection \<open>Python values and errors\<close>

datatype pyval =
    PNone
  | PBool bool
  | PInt int
  | PFloat real
  | PStr string
  | PList "pyval list"
  | PTuple "pyval list"

datatype error =
    ValueError string
  | TypeError string
  | KeyError
  | IndexError
  | AttributeError
  | ZeroDivisionError

text \<open>\<^verbatim>\<open>isinstance(v, str)\<close>, \<^verbatim>\<open>isinstance(v, int)\<close> (a Python bool is an int),
  \<^verbatim>\<open>isinstance(v, (float, int))\<close>, \<^verbatim>\<open>isinstance(v, list)\<close> and truthiness.\<close>

fun is_str :: "pyval \<Rightarrow> bool" where
  "is_str (PStr _) = True"
| "is_str _ = False"

fun is_int :: "pyval \<Rightarrow> bool" where
  "is_int (PInt _) = True"
| "is_int (PBool _) = True"
| "is_int _ = False"

fun is_float_or_int :: "pyval \<Rightarrow> bool" where
  "is_float_or_int (PFloat _) = True"
| "is_float_or_int v = is_int v"

fun is_list :: "pyval \<Rightarrow> bool" where
  "is_list (PList _) = True"
| "is_list _ = False"

fun truthy :: "pyval \<Rightarrow> bool" where
  "truthy PNone = False"
| "truthy (PBool b) = b"
| "truthy (PInt i) = (i \<noteq> 0)"
| "truthy (PFloat r) = (r \<noteq> 0)"
| "truthy (PStr s) = (s \<noteq> [])"
| "truthy (PList vs) = (vs \<noteq> [])"
| "truthy (PTuple vs) = (vs \<noteq> [])"

subsection \<open>Positions and the coordinate scaling of draw_networkx\<close>

type_synonym node = string
type_synonym coord = "real \<times> real"
type_synonym pos = "(node \<times> coord) list"

definition pos_xs :: "pos \<Rightarrow> real list" where
  "pos_xs p = map (\<lambda>(n, xy). fst xy) p"

definition pos_ys :: "pos \<Rightarrow> real list" where
  "pos_ys p = map (\<lambda>(n, xy). snd xy) p"

text \<open>Python's \<^verbatim>\<open>max\<close> and \<^verbatim>\<open>min\<close> of a non-empty tuple (the code reaches them only after
  the unpacking of \<^verbatim>\<open>zip(*pos.values())\<close> has succeeded, which needs a non-empty \<^verbatim>\<open>pos\<close>).\<close>

definition py_max :: "real list \<Rightarrow> real" where
  "py_max xs = fold max (tl xs) (hd xs)"

definition py_min :: "real list \<Rightarrow> real" where
  "py_min xs = fold min (tl xs) (hd xs)"

definition x_range :: "pos \<Rightarrow> real" where
  "x_range p = py_max (pos_xs p) - py_min (pos_xs p)"

definition y_range :: "pos \<Rightarrow> real" where
  "y_range p = py_max (pos_ys p) - py_min (pos_ys p)"

text \<open>Lines 539-540: a size left as \<^verbatim>\<open>None\<close> is derived from the other one and the data's
  own aspect ratio; the division raises on a zero range.\<close>

definition resolve_width :: "real option \<Rightarrow> real option \<Rightarrow> real \<Rightarrow> real \<Rightarrow> error + real" where
  "resolve_width chart_width chart_height xr yr =
     (case chart_width of
        Some w \<Rightarrow> Inr w
      | None \<Rightarrow> if yr = 0 then Inl ZeroDivisionError else Inr (the chart_height * xr / yr))"

definition resolve_height :: "real \<Rightarrow> real option \<Rightarrow> real \<Rightarrow> real \<Rightarrow> error + real" where
  "resolve_height w chart_height xr yr =
     (case chart_height of
        Some h \<Rightarrow> Inr h
      | None \<Rightarrow> if xr = 0 then Inl ZeroDivisionError else Inr (w * yr / xr))"

text \<open>Line 543: both axes are scaled to the unit interval.\<close>

definition unit_scale :: "pos \<Rightarrow> pos" where
  "unit_scale p =
     map (\<lambda>(n, xy).
            (n, (if x_range p = 0 then 0 else (fst xy - py_min (pos_xs p)) / x_range p,
                 if y_range p = 0 then 0 else (snd xy - py_min (pos_ys p)) / y_range p))) p"

text \<open>Lines 544-545: the coordinate of the larger chart side is stretched.\<close>

definition stretch :: "real \<Rightarrow> real \<Rightarrow> pos \<Rightarrow> error + pos" where
  "stretch w h p =
     (if w \<noteq> h then
        (if w \<ge> h
         then (if h = 0 then Inl ZeroDivisionError
               else Inr (map (\<lambda>(n, xy). (n, (fst xy * w / h, snd xy))) p))
         else (if w = 0 then Inl ZeroDivisionError
               else Inr (map (\<lambda>(n, xy). (n, (fst xy, snd xy * h / w))) p)))
      else Inr p)"

text \<open>Lines 535-545 of \<^verbatim>\<open>draw_networkx\<close>: the result is the scaled positions with the
  resolved chart width and height.\<close>

definition scale_coordinates :: "pos \<Rightarrow> real option \<Rightarrow> real option \<Rightarrow> error + (pos \<times> real \<times> real)" where
  "scale_coordinates p chart_width chart_height =
     (if chart_width = None \<and> chart_height = None
      then Inl (ValueError ''chart_width and chart_height cannot both be None'')
      else if p = [] then Inl (ValueError ''not enough values to unpack'')
      else
        (case resolve_width chart_width chart_height (x_range p) (y_range p) of
           Inl e \<Rightarrow> Inl e
         | Inr w \<Rightarrow>
            (case resolve_height w chart_height (x_range p) (y_range p) of
               Inl e \<Rightarrow> Inl e
             | Inr h \<Rightarrow>
                (case stretch w h (unit_scale p) of
                   Inl e \<Rightarrow> Inl e
                 | Inr p' \<Rightarrow> Inr (p', w, h)))))"

subsection \<open>Graphs (the part of the networkx interface that the code uses)\<close>

type_synonym attrs = "(string \<times> pyval) list"

record graph =
  nodes :: "(node \<times> attrs) list"
  edges :: "(node \<times> node \<times> attrs) list"
  directed :: bool

text \<open>\<^verbatim>\<open>nx.selfloop_edges(G)\<close>: the edges whose two ends are the same node.\<close>

definition selfloop_edges :: "graph \<Rightarrow> (node \<times> node \<times> attrs) list" where
  "selfloop_edges g = filter (\<lambda>(u, v, d). u = v) (edges g)"

text \<open>\<^verbatim>\<open>G.remove_edges_from(ebunch)\<close>: an undirected graph also drops the edge stored
  the other way round.\<close>

definition remove_edges_from :: "(node \<times> node \<times> attrs) list \<Rightarrow> graph \<Rightarrow> graph" where
  "remove_edges_from es g =
     g\<lparr>edges := filter (\<lambda>(u, v, d).
          \<not> list_ex (\<lambda>(u', v', d'). (u' = u \<and> v' = v) \<or> (\<not> directed g \<and> u' = v \<and> v' = u)) es)
          (edges g)\<rparr>"

text \<open>\<^verbatim>\<open>nx.isolates(G)\<close>: the nodes of degree zero; a self-loop counts towards the
  degree of its node.\<close>

definition isolates :: "graph \<Rightarrow> node list" where
  "isolates g =
     map fst (filter (\<lambda>(n, d). list_all (\<lambda>(u, v, d'). u \<noteq> n \<and> v \<noteq> n) (edges g)) (nodes g))"

text \<open>\<^verbatim>\<open>G.remove_nodes_from(ns)\<close>: the nodes go, and the edges at them.\<close>

definition remove_nodes_from :: "node list \<Rightarrow> graph \<Rightarrow> graph" where
  "remove_nodes_from ns g =
     g\<lparr>nodes := filter (\<lambda>(n, d). n \<notin> set ns) (nodes g),
       edges := filter (\<lambda>(u, v, d). u \<notin> set ns \<and> v \<notin> set ns) (edges g)\<rparr>"

subsection \<open>Data frames (the part of the pandas interface that the code uses)\<close>

text \<open>A column has a name and a dtype (\<^verbatim>\<open>'O'\<close>, pandas' object dtype, or a numeric one);
  a row has its index label and its cells.\<close>

datatype dtype = DObject | DNumeric

record dataframe =
  columns :: "(string \<times> dtype) list"
  rows :: "(pyval \<times> attrs) list"

definition column_names :: "dataframe \<Rightarrow> string list" where
  "column_names df = map fst (columns df)"

definition cell :: "(pyval \<times> attrs) \<Rightarrow> string \<Rightarrow> pyval" where
  "cell r c = (case map_of (snd r) c of Some v \<Rightarrow> v | None \<Rightarrow> PNone)"

text \<open>\<^verbatim>\<open>df.dtypes[c]\<close>.\<close>

definition dtypes :: "dataframe \<Rightarrow> string \<Rightarrow> error + dtype" where
  "dtypes df c = (case map_of (columns df) c of Some t \<Rightarrow> Inr t | None \<Rightarrow> Inl KeyError)"

text \<open>\<^verbatim>\<open>df.loc[df['pair'].isin(subset)]\<close>: the rows whose pair is one of the given ones;
  \<^verbatim>\<open>df['pair']\<close> needs the column.\<close>

definition loc_pair_isin :: "dataframe \<Rightarrow> pyval list \<Rightarrow> error + dataframe" where
  "loc_pair_isin df subs =
     (if ''pair'' \<in> set (column_names df)
      then Inr (df\<lparr>rows := filter (\<lambda>r. cell r ''pair'' \<in> set subs) (rows df)\<rparr>)
      else Inl KeyError)"

text \<open>\<^verbatim>\<open>df.loc[subset]\<close> with a list of index labels: the rows of these labels, in the
  order of the list; pandas raises KeyError when a label is not in the index.\<close>

definition loc :: "dataframe \<Rightarrow> pyval list \<Rightarrow> error + dataframe" where
  "loc df subs =
     (if list_all (\<lambda>l. l \<in> set (map fst (rows df))) subs
      then Inr (df\<lparr>rows := concat (map (\<lambda>l. filter (\<lambda>r. fst r = l) (rows df)) subs)\<rparr>)
      else Inl KeyError)"

subsection \<open>Charts (the part of the Altair interface that the code uses)\<close>

text \<open>The value of \<^verbatim>\<open>legend\<close> in a channel: \<^verbatim>\<open>None\<close>, \<^verbatim>\<open>{}\<close>, or not passed.\<close>

datatype legend_spec = LegendNone | LegendDict | LegendUndefined

datatype enc =
    shorthand string
  | field_list "string list"
  | alt_Size string legend_spec
  | alt_Color string "string option" legend_spec
  | alt_Shape string legend_spec
  | alt_X string "string option"
  | alt_Y string "string option"

record chart =
  chart_data :: dataframe
  chart_mark :: "(string \<times> attrs) option"
  chart_encoding :: "(string \<times> enc) list"

record layer_chart =
  lc_layer :: "nat list"
  lc_width :: "real option"
  lc_height :: "real option"

text \<open>\<^verbatim>\<open>alt.Chart(df)\<close>, \<^verbatim>\<open>.mark_line(**kw)\<close> and its siblings, \<^verbatim>\<open>.encode(**kw)\<close>
  (which updates the encodings the chart already has).  Altair's own validation of the
  values against the Vega-Lite schema is not modelled.\<close>

definition alt_Chart :: "dataframe \<Rightarrow> chart" where
  "alt_Chart df = \<lparr>chart_data = df, chart_mark = None, chart_encoding = []\<rparr>"

definition mark :: "string \<Rightarrow> attrs \<Rightarrow> chart \<Rightarrow> chart" where
  "mark kind kw c = c\<lparr>chart_mark := Some (kind, kw)\<rparr>"

definition encode :: "(string \<times> enc) list \<Rightarrow> chart \<Rightarrow> chart" where
  "encode kw c = c\<lparr>chart_encoding := fold (\<lambda>(k, v). AList.update k v) kw (chart_encoding c)\<rparr>"

subsection \<open>The store of objects\<close>

datatype obj = Graph graph | Chart chart | LayerChart layer_chart

type_synonym ref = nat
type_synonym store = "obj list"
type_synonym 'a res = "(error + 'a) \<times> store"

definition alloc :: "obj \<Rightarrow> store \<Rightarrow> ref \<times> store" where
  "alloc x s = (length s, s @ [x])"

text \<open>Reading an attribute of an object of another class raises AttributeError.\<close>

definition get_graph :: "store \<Rightarrow> ref \<Rightarrow> error + graph" where
  "get_graph s r =
     (if r < length s then (case s ! r of Graph g \<Rightarrow> Inr g | _ \<Rightarrow> Inl AttributeError)
      else Inl AttributeError)"

definition get_chart :: "store \<Rightarrow> ref \<Rightarrow> error + chart" where
  "get_chart s r =
     (if r < length s then (case s ! r of Chart c \<Rightarrow> Inr c | _ \<Rightarrow> Inl AttributeError)
      else Inl AttributeError)"

definition get_layer_chart :: "store \<Rightarrow> ref \<Rightarrow> error + layer_chart" where
  "get_layer_chart s r =
     (if r < length s then (case s ! r of LayerChart c \<Rightarrow> Inr c | _ \<Rightarrow> Inl AttributeError)
      else Inl AttributeError)"

text \<open>\<^verbatim>\<open>chart.layer[k]\<close> and \<^verbatim>\<open>chart.layer[k] = c\<close>.\<close>

definition layer_at :: "store \<Rightarrow> ref \<Rightarrow> nat \<Rightarrow> error + ref" where
  "layer_at s r k =
     (case get_layer_chart s r of
        Inl e \<Rightarrow> Inl e
      | Inr lc \<Rightarrow> if k < length (lc_layer lc) then Inr (lc_layer lc ! k) else Inl IndexError)"

definition set_layer_at :: "store \<Rightarrow> ref \<Rightarrow> nat \<Rightarrow> ref \<Rightarrow> error + store" where
  "set_layer_at s r k c =
     (case get_layer_chart s r of
        Inl e \<Rightarrow> Inl e
      | Inr lc \<Rightarrow>
          if k < length (lc_layer lc)
          then Inr (s[r := LayerChart (lc\<lparr>lc_layer := (lc_layer lc)[k := c]\<rparr>)])
          else Inl IndexError)"

text \<open>\<^verbatim>\<open>c.data = df\<close> on the chart object \<open>r\<close>.\<close>

definition set_data :: "store \<Rightarrow> ref \<Rightarrow> dataframe \<Rightarrow> store" where
  "set_data s r df =
     (case get_chart s r of
        Inl e \<Rightarrow> s
      | Inr c \<Rightarrow> s[r := Chart (c\<lparr>chart_data := df\<rparr>)])"

text \<open>Sequencing: an error ends the call, the store as it is by then.\<close>

definition and_then :: "error + 'a \<Rightarrow> ('a \<Rightarrow> error + 'b) \<Rightarrow> error + 'b" where
  "and_then x f = (case x of Inl e \<Rightarrow> Inl e | Inr v \<Rightarrow> f v)"

definition seq :: "'a res \<Rightarrow> ('a \<Rightarrow> store \<Rightarrow> 'b res) \<Rightarrow> 'b res" where
  "seq x f = (case fst x of Inl e \<Rightarrow> (Inl e, snd x) | Inr v \<Rightarrow> f v (snd x))"

definition lift :: "error + 'a \<Rightarrow> store \<Rightarrow> 'a res" where
  "lift x s = (x, s)"

subsection \<open>External functions\<close>

text \<open>The layout routine of networkx and the geometry helpers of the projection module are
  parameters of the model: the self-loop ring generator (node coordinate, radius, angle,
  number of points), the control-point offsets (the two end points, the edge-relative
  control points) and the arrow placement (the path of the edge, the length, whether the
  length is relative).\<close>

record env =
  kamada_kawai_layout :: "graph \<Rightarrow> pos"
  loop_points :: "coord \<Rightarrow> real \<Rightarrow> real \<Rightarrow> nat \<Rightarrow> coord list"
  control_point_offsets :: "coord \<Rightarrow> coord \<Rightarrow> coord list \<Rightarrow> coord list"
  arrow_placement :: "coord list \<Rightarrow> real \<Rightarrow> bool \<Rightarrow> coord \<times> coord"

subsection \<open>Tabular projection\<close>

fun collect :: "(error + 'a) list \<Rightarrow> error + 'a list" where
  "collect [] = Inr []"
| "collect (x # xs) =
     (case x of
        Inl e \<Rightarrow> Inl e
      | Inr v \<Rightarrow> (case collect xs of Inl e \<Rightarrow> Inl e | Inr vs \<Rightarrow> Inr (v # vs)))"

fun is_object :: "pyval \<Rightarrow> bool" where
  "is_object (PStr _) = True"
| "is_object (PList _) = True"
| "is_object (PTuple _) = True"
| "is_object _ = False"

definition infer_dtype :: "pyval list \<Rightarrow> dtype" where
  "infer_dtype vs = (if list_ex is_object vs then DObject else DNumeric)"

definition attr_keys :: "attrs list \<Rightarrow> string list" where
  "attr_keys ds = remdups (concat (map (map fst) ds))"

text \<open>Modelled from the spec: the record sets are rectangular; a column that only some rows
  have holds a missing marker (here \<open>PNone\<close>) in the others (section 4.2, contract).  The
  projection module (\<^verbatim>\<open>core.py\<close>) is not among the sources.\<close>

definition make_frame :: "string list \<Rightarrow> pyval list \<Rightarrow> attrs list \<Rightarrow> dataframe" where
  "make_frame cols labels cellss =
     (let rs = zip labels
                 (map (\<lambda>cells. map (\<lambda>c. (c, case map_of cells c of Some v \<Rightarrow> v | None \<Rightarrow> PNone)) cols)
                    cellss)
      in \<lparr>columns = map (\<lambda>c. (c, infer_dtype (map (\<lambda>r. cell r c) rs))) cols, rows = rs\<rparr>)"

definition edge_name :: "node \<Rightarrow> node \<Rightarrow> string" where
  "edge_name u v = ''('' @ u @ '', '' @ v @ '')''"

text \<open>Modelled from the spec: the path of an edge is the ring of a self-loop, the two end
  points of a straight edge, or the end points with the control points between them
  (section 4.2, edge projector; \<^verbatim>\<open>to_pandas_edges\<close> of \<^verbatim>\<open>core.py\<close> is not among the
  sources).  A node without a position is a KeyError.\<close>

definition edge_path ::
  "env \<Rightarrow> pos \<Rightarrow> coord list option \<Rightarrow> real \<Rightarrow> real \<Rightarrow> nat \<Rightarrow> node \<times> node \<times> attrs \<Rightarrow> error + coord list" where
  "edge_path ev p cps lr la npts e =
     (case e of (u, v, d) \<Rightarrow>
        (case map_of p u of
           None \<Rightarrow> Inl KeyError
         | Some pu \<Rightarrow>
            (case map_of p v of
               None \<Rightarrow> Inl KeyError
             | Some pv \<Rightarrow>
                 Inr (if u = v then loop_points ev pu lr la npts
                      else (case cps of
                              None \<Rightarrow> [pu, pv]
                            | Some cs \<Rightarrow> pu # control_point_offsets ev pu pv cs @ [pv])))))"

text \<open>Modelled from the spec: one row per point of the path of each edge, with the edge
  identifier, the order index along the path (from 0), source, target, pair, x, y, and the
  edge's attributes (sections 3 and 4.2; \<^verbatim>\<open>to_pandas_edges\<close> is not among the sources).\<close>

definition edge_cells :: "node \<times> node \<times> attrs \<Rightarrow> coord list \<Rightarrow> attrs list" where
  "edge_cells e path =
     (case e of (u, v, d) \<Rightarrow>
        map (\<lambda>(i, xy).
               [(''edge'', PStr (edge_name u v)), (''order'', PInt (int i)),
                (''source'', PStr u), (''target'', PStr v), (''pair'', PTuple [PStr u, PStr v]),
                (''x'', PFloat (fst xy)), (''y'', PFloat (snd xy))] @ d)
          (zip [0..<length path] path))"

definition to_pandas_edges ::
  "env \<Rightarrow> graph \<Rightarrow> pos \<Rightarrow> coord list option \<Rightarrow> real \<Rightarrow> real \<Rightarrow> nat \<Rightarrow> error + dataframe" where
  "to_pandas_edges ev g p cps lr la npts =
     (case collect (map (edge_path ev p cps lr la npts) (edges g)) of
        Inl e \<Rightarrow> Inl e
      | Inr paths \<Rightarrow>
          (let cellss = concat (map (\<lambda>(e, path). edge_cells e path) (zip (edges g) paths))
           in Inr (make_frame
                     ([''edge'', ''order'', ''source'', ''target'', ''pair'', ''x'', ''y'']
                        @ attr_keys (map (\<lambda>(u, v, d). d) (edges g)))
                     (map (\<lambda>i. PInt (int i)) [0..<length cellss]) cellss)))"

text \<open>Modelled from the spec: two rows per edge, the start and the end of the arrow segment
  that the arrow placement helper computes on the path of the edge, annotated like the
  edge rows without the order index (sections 3 and 4.2; \<^verbatim>\<open>to_pandas_edge_arrows\<close> is not
  among the sources).\<close>

definition arrow_cells :: "env \<Rightarrow> real \<Rightarrow> bool \<Rightarrow> node \<times> node \<times> attrs \<Rightarrow> coord list \<Rightarrow> attrs list" where
  "arrow_cells ev len rel e path =
     (case e of (u, v, d) \<Rightarrow>
        (case arrow_placement ev path len rel of (a, b) \<Rightarrow>
           map (\<lambda>xy.
                  [(''edge'', PStr (edge_name u v)),
                   (''source'', PStr u), (''target'', PStr v), (''pair'', PTuple [PStr u, PStr v]),
                   (''x'', PFloat (fst xy)), (''y'', PFloat (snd xy))] @ d)
             [a, b]))"

definition arrow_path :: "env \<Rightarrow> pos \<Rightarrow> coord list option \<Rightarrow> node \<times> node \<times> attrs \<Rightarrow> error + coord list" where
  "arrow_path ev p cps e =
     (case e of (u, v, d) \<Rightarrow>
        (case map_of p u of
           None \<Rightarrow> Inl KeyError
         | Some pu \<Rightarrow>
            (case map_of p v of
               None \<Rightarrow> Inl KeyError
             | Some pv \<Rightarrow>
                 Inr (case cps of
                        None \<Rightarrow> [pu, pv]
                      | Some cs \<Rightarrow> pu # control_point_offsets ev pu pv cs @ [pv]))))"

definition to_pandas_edge_arrows ::
  "env \<Rightarrow> graph \<Rightarrow> pos \<Rightarrow> real \<Rightarrow> bool \<Rightarrow> coord list option \<Rightarrow> error + dataframe" where
  "to_pandas_edge_arrows ev g p len rel cps =
     (case collect (map (arrow_path ev p cps) (edges g)) of
        Inl e \<Rightarrow> Inl e
      | Inr paths \<Rightarrow>
          (let cellss = concat (map (\<lambda>(e, path). arrow_cells ev len rel e path) (zip (edges g) paths))
           in Inr (make_frame
                     ([''edge'', ''source'', ''target'', ''pair'', ''x'', ''y'']
                        @ attr_keys (map (\<lambda>(u, v, d). d) (edges g)))
                     (map (\<lambda>i. PInt (int i)) [0..<length cellss]) cellss)))"

text \<open>Modelled from the spec: one row per node, indexed by the node, with the node
  identifier, x, y, and the node's attributes (sections 3 and 4.2; \<^verbatim>\<open>to_pandas_nodes\<close> is
  not among the sources).\<close>

definition node_cells :: "pos \<Rightarrow> node \<times> attrs \<Rightarrow> error + attrs" where
  "node_cells p nd =
     (case nd of (n, d) \<Rightarrow>
        (case map_of p n of
           None \<Rightarrow> Inl KeyError
         | Some xy \<Rightarrow> Inr ([(''node'', PStr n), (''x'', PFloat (fst xy)), (''y'', PFloat (snd xy))] @ d)))"

definition to_pandas_nodes :: "graph \<Rightarrow> pos \<Rightarrow> error + dataframe" where
  "to_pandas_nodes g p =
     (case collect (map (node_cells p) (nodes g)) of
        Inl e \<Rightarrow> Inl e
      | Inr cellss \<Rightarrow>
          Inr (make_frame ([''node'', ''x'', ''y''] @ attr_keys (map snd (nodes g)))
                 (map (\<lambda>(n, d). PStr n) (nodes g)) cellss))"

subsection \<open>Arguments of the drawing functions\<close>

text \<open>The keyword arguments, under the names of the source (\<open>subset\<close>, \<open>size\<close> and
  \<open>length\<close> carry a suffix: the names are taken in HOL).\<close>

record graph_args =
  G :: "ref option"
  pos :: "pos option"
  chart :: "ref option"

record source_args = graph_args +
  layer :: "ref option"
  subset_py :: pyval

record colour_args = source_args +
  colour :: pyval
  cmap :: pyval
  alpha :: pyval
  tooltip :: "string list option"
  legend :: bool

record line_args = colour_args +
  width :: pyval
  curved_edges :: bool
  control_points :: "coord list option"

record edges_args = line_args +
  loop_radius :: real
  loop_angle :: real
  loop_n_points :: nat
  interpolation :: pyval

record arrows_args = line_args +
  length_py :: real
  length_is_relative :: bool

record nodes_args = colour_args +
  size_py :: pyval
  outline_width :: pyval
  shape :: pyval

record labels_args = source_args +
  label :: pyval
  font_size :: pyval
  font_colour :: pyval

fun str_of :: "pyval \<Rightarrow> string" where
  "str_of (PStr s) = s"
| "str_of _ = []"

fun list_of :: "pyval \<Rightarrow> pyval list" where
  "list_of (PList vs) = vs"
| "list_of _ = []"

subsection \<open>The data source of a drawing function\<close>

text \<open>Lines 71-81, 176-186, 271-281 and 366-376: the layer, else the layer \<open>k\<close> of the chart,
  else the projection of the graph (with the layout when \<^verbatim>\<open>pos is None\<close>), else a
  ValueError.  The four functions differ in the projection and in \<open>k\<close>.\<close>

definition select_source ::
  "(graph \<Rightarrow> pos \<Rightarrow> error + dataframe) \<Rightarrow> nat \<Rightarrow> env \<Rightarrow> 'a source_args_scheme \<Rightarrow> store
     \<Rightarrow> (dataframe \<times> ref) res" where
  "select_source project k ev a s =
     (case layer a of
        Some l \<Rightarrow>
          (case get_chart s l of
             Inl e \<Rightarrow> (Inl e, s)
           | Inr c \<Rightarrow> (Inr (chart_data c, l), s))
      | None \<Rightarrow>
          (case chart a of
             Some ch \<Rightarrow>
               (case layer_at s ch k of
                  Inl e \<Rightarrow> (Inl e, s)
                | Inr l \<Rightarrow>
                    (case get_chart s l of
                       Inl e \<Rightarrow> (Inl e, s)
                     | Inr c \<Rightarrow> (Inr (chart_data c, l), s)))
           | None \<Rightarrow>
               (case G a of
                  Some g \<Rightarrow>
                    (case get_graph s g of
                       Inl e \<Rightarrow> (Inl e, s)
                     | Inr gr \<Rightarrow>
                         (case project gr (case pos a of
                                             None \<Rightarrow> kamada_kawai_layout ev gr
                                           | Some p \<Rightarrow> p) of
                            Inl e \<Rightarrow> (Inl e, s)
                          | Inr df \<Rightarrow>
                              (case alloc (Chart (alt_Chart df)) s of
                                 (r, s') \<Rightarrow> (Inr (df, r), s'))))
                | None \<Rightarrow> (Inl (ValueError ''one of G, chart or layer is required to draw.''), s))))"

text \<open>Lines 68-69 and 173-174.\<close>

definition effective_control_points :: "bool \<Rightarrow> coord list option \<Rightarrow> coord list option" where
  "effective_control_points curved cps =
     (if curved \<and> cps = None then Some [(1 / 2, 1 / 10)]
      else if \<not> curved then None
      else cps)"

subsection \<open>Restriction to a subset\<close>

text \<open>Lines 90-92, 195-197, 290-292 and 384-386: a list restricts the data, which is also
  assigned to the chart object; \<^verbatim>\<open>None\<close> does nothing; anything else is a TypeError.  The
  edge and arrow functions select by \<open>loc_pair_isin\<close>, the node and label functions by
  \<open>loc\<close>.\<close>

definition restrict ::
  "(dataframe \<Rightarrow> pyval list \<Rightarrow> error + dataframe) \<Rightarrow> string \<Rightarrow> pyval \<Rightarrow> dataframe \<Rightarrow> ref \<Rightarrow> store
     \<Rightarrow> dataframe res" where
  "restrict select msg sub df r s =
     (if is_list sub then
        (case select df (list_of sub) of
           Inl e \<Rightarrow> (Inl e, s)
         | Inr df' \<Rightarrow> (Inr df', set_data s r df'))
      else if sub \<noteq> PNone then (Inl (TypeError msg), s)
      else (Inr df, s))"

subsection \<open>The styling arguments\<close>

text \<open>\<^verbatim>\<open>marker_attrs\<close> and \<^verbatim>\<open>encoded_attrs\<close>, the two dictionaries that the argument
  handling fills.\<close>

type_synonym kw = "attrs \<times> (string \<times> enc) list"

definition set_marker :: "string \<Rightarrow> pyval \<Rightarrow> kw \<Rightarrow> kw" where
  "set_marker k v d = (AList.update k v (fst d), snd d)"

definition set_encoded :: "string \<Rightarrow> enc \<Rightarrow> kw \<Rightarrow> kw" where
  "set_encoded k v d = (fst d, AList.update k v (snd d))"

text \<open>\<^verbatim>\<open>legend = {} if legend else None\<close>.\<close>

definition legend_of :: "bool \<Rightarrow> legend_spec" where
  "legend_of b = (if b then LegendDict else LegendNone)"

text \<open>Width (lines 94-97, 199-202, 299-302): a string is encoded under \<open>key\<close>, a float or
  an int is the mark's strokeWidth.\<close>

definition width_attr :: "string \<Rightarrow> string \<Rightarrow> pyval \<Rightarrow> legend_spec \<Rightarrow> kw \<Rightarrow> error + kw" where
  "width_attr key msg w lg d =
     (if is_str w then Inr (set_encoded key (alt_Size (str_of w) lg) d)
      else if is_float_or_int w then Inr (set_marker ''strokeWidth'' w d)
      else Inl (TypeError msg))"

text \<open>Size (lines 294-297, 393-396): a string is encoded, an int is the mark's size.\<close>

definition size_attr :: "string \<Rightarrow> pyval \<Rightarrow> legend_spec \<Rightarrow> kw \<Rightarrow> error + kw" where
  "size_attr msg v lg d =
     (if is_str v then Inr (set_encoded ''size'' (alt_Size (str_of v) lg) d)
      else if is_int v then Inr (set_marker ''size'' v d)
      else Inl (TypeError msg))"

text \<open>Colour of edges and arrows (lines 99-107, 204-212).\<close>

definition line_colour :: "dataframe \<Rightarrow> pyval \<Rightarrow> pyval \<Rightarrow> legend_spec \<Rightarrow> kw \<Rightarrow> error + kw" where
  "line_colour df c cm lg d =
     (if \<not> is_str c then Inl (TypeError ''colour must be a string (either a colour or an edge attribute containing colour strings or floats for a colour map).'')
      else if str_of c \<in> set (column_names df) then
        (if cm = PNone then Inr (set_encoded ''color'' (alt_Color (str_of c) None lg) d)
         else if is_str cm then
           (case dtypes df (str_of c) of
              Inl e \<Rightarrow> Inl e
            | Inr t \<Rightarrow>
                if t = DObject
                then Inl (TypeError (''the edge attribute ('' @ str_of c @ '') to use with cmap ''
                                       @ str_of cm @ '' is non-numeric.''))
                else Inr (set_encoded ''color'' (alt_Color (str_of c) (Some (str_of cm)) lg) d))
         else Inl (TypeError ''cmap must be a string (colourmap name) or None.''))
      else Inr (set_marker ''color'' c d))"

text \<open>Opacity (lines 109-112, 214-217, 314-317).\<close>

definition opacity_attr :: "pyval \<Rightarrow> kw \<Rightarrow> error + kw" where
  "opacity_attr a d =
     (if is_str a then Inr (set_encoded ''opacity'' (shorthand (str_of a)) d)
      else if is_float_or_int a then Inr (set_marker ''opacity'' a d)
      else if a \<noteq> PNone then Inl (TypeError ''alpha must be a string or None.'')
      else Inr d)"

text \<open>Curved edges (lines 114-117).\<close>

definition interpolate_attr :: "bool \<Rightarrow> pyval \<Rightarrow> kw \<Rightarrow> error + kw" where
  "interpolate_attr curved i d =
     (if curved then
        (if is_str i then Inr (set_marker ''interpolate'' i d)
         else Inl (TypeError ''interpolate must be a string.''))
      else Inr d)"

text \<open>Tooltip (lines 119-120, 219-220, 324-325).\<close>

definition tooltip_attr :: "string list option \<Rightarrow> kw \<Rightarrow> kw" where
  "tooltip_attr t d = (case t of None \<Rightarrow> d | Some fs \<Rightarrow> set_encoded ''tooltip'' (field_list fs) d)"

text \<open>Shape (lines 304-307).\<close>

definition shape_attr :: "dataframe \<Rightarrow> pyval \<Rightarrow> legend_spec \<Rightarrow> kw \<Rightarrow> error + kw" where
  "shape_attr df sh lg d =
     (if \<not> is_str sh then Inl (TypeError ''shape must be a string (either an altair point-mark shape or an edge attribute containing the same).'')
      else if str_of sh \<in> set (column_names df)
      then Inr (set_encoded ''shape'' (alt_Shape (str_of sh) lg) d)
      else Inr (set_marker ''shape'' sh d))"

text \<open>A string that is the fill or the text of the mark, or the column that encodes it
  (lines 309-312, 388-391, 398-401).\<close>

definition column_or_constant :: "string \<Rightarrow> string \<Rightarrow> dataframe \<Rightarrow> pyval \<Rightarrow> kw \<Rightarrow> error + kw" where
  "column_or_constant key msg df v d =
     (if \<not> is_str v then Inl (TypeError msg)
      else if str_of v \<in> set (column_names df) then Inr (set_encoded key (shorthand (str_of v)) d)
      else Inr (set_marker key v d))"

text \<open>Colour map of nodes (lines 319-322).\<close>

definition node_cmap_attr :: "pyval \<Rightarrow> pyval \<Rightarrow> kw \<Rightarrow> error + kw" where
  "node_cmap_attr c cm d =
     (if is_str cm
      then Inr (set_encoded ''fill'' (alt_Color (str_of c) (Some (str_of cm)) LegendUndefined) d)
      else if cm \<noteq> PNone then Inl (TypeError ''cmap must be a string (colourmap name) or None.'')
      else Inr d)"

subsection \<open>Construction of the visualisation\<close>

text \<open>The chart object \<open>r\<close> gets its mark and its encodings in a new chart object, which
  replaces the layer \<open>k\<close> of the chart \<open>ch\<close> when one was given (lines 125-133 and their
  siblings).\<close>

definition finish ::
  "ref \<Rightarrow> string \<Rightarrow> attrs \<Rightarrow> (string \<times> enc) list \<Rightarrow> ref option \<Rightarrow> nat \<Rightarrow> store \<Rightarrow> ref res" where
  "finish r kind m e ch k s =
     (case get_chart s r of
        Inl err \<Rightarrow> (Inl err, s)
      | Inr c \<Rightarrow>
          (case alloc (Chart (encode e (mark kind m c))) s of
             (r', s') \<Rightarrow>
               (case ch of
                  None \<Rightarrow> (Inr r', s')
                | Some cr \<Rightarrow>
                    (case set_layer_at s' cr k r' of
                       Inl err \<Rightarrow> (Inl err, s')
                     | Inr s'' \<Rightarrow> (Inr r', s'')))))"

subsection \<open>draw_networkx_edges\<close>

definition edges_attrs :: "dataframe \<Rightarrow> 'a edges_args_scheme \<Rightarrow> error + kw" where
  "edges_attrs df a =
     and_then (width_attr ''strokeWidth'' ''width must be a string or int.'' (width a)
                 (legend_of (legend a)) ([], [])) (\<lambda>d.
     and_then (line_colour df (colour a) (cmap a) (legend_of (legend a)) d) (\<lambda>d.
     and_then (opacity_attr (alpha a) d) (\<lambda>d.
     and_then (interpolate_attr (curved_edges a) (interpolation a) d) (\<lambda>d.
     Inr (tooltip_attr (tooltip a) d)))))"

text \<open>Lines 68-81.\<close>

definition edges_source :: "env \<Rightarrow> 'a edges_args_scheme \<Rightarrow> store \<Rightarrow> (dataframe \<times> ref) res" where
  "edges_source ev a s =
     select_source
       (\<lambda>g p. to_pandas_edges ev g p
                 (effective_control_points (curved_edges a) (control_points a))
                 (loop_radius a) (loop_angle a) (loop_n_points a))
       0 ev a s"

definition draw_networkx_edges :: "env \<Rightarrow> 'a edges_args_scheme \<Rightarrow> store \<Rightarrow> ref res" where
  "draw_networkx_edges ev a s =
     seq (edges_source ev a s) (\<lambda>src s.
     seq (restrict loc_pair_isin ''subset must be a list or None.'' (subset_py a) (fst src) (snd src) s) (\<lambda>df s.
     seq (lift (edges_attrs df a) s) (\<lambda>d s.
     finish (snd src) ''line'' (fst d)
       ([(''x'', alt_X ''x'' (Some [])), (''y'', alt_Y ''y'' (Some [])),
         (''detail'', shorthand ''edge''), (''order'', shorthand ''order'')] @ snd d)
       (chart a) 0 s)))"

subsection \<open>draw_networkx_arrows\<close>

definition arrows_attrs :: "dataframe \<Rightarrow> 'a arrows_args_scheme \<Rightarrow> error + kw" where
  "arrows_attrs df a =
     and_then (width_attr ''size'' ''arrow_width must be a string or int.'' (width a)
                 (legend_of (legend a)) ([], [])) (\<lambda>d.
     and_then (line_colour df (colour a) (cmap a) (legend_of (legend a)) d) (\<lambda>d.
     and_then (opacity_attr (alpha a) d) (\<lambda>d.
     Inr (tooltip_attr (tooltip a) d))))"

text \<open>Lines 173-186.\<close>

definition arrows_source :: "env \<Rightarrow> 'a arrows_args_scheme \<Rightarrow> store \<Rightarrow> (dataframe \<times> ref) res" where
  "arrows_source ev a s =
     select_source
       (\<lambda>g p. to_pandas_edge_arrows ev g p (length_py a) (length_is_relative a)
                 (effective_control_points (curved_edges a) (control_points a)))
       0 ev a s"

definition draw_networkx_arrows :: "env \<Rightarrow> 'a arrows_args_scheme \<Rightarrow> store \<Rightarrow> ref res" where
  "draw_networkx_arrows ev a s =
     seq (arrows_source ev a s) (\<lambda>src s.
     seq (restrict loc_pair_isin ''subset must be a list or None.'' (subset_py a) (fst src) (snd src) s) (\<lambda>df s.
     seq (lift (arrows_attrs df a) s) (\<lambda>d s.
     finish (snd src) ''line'' (fst d)
       ([(''x'', alt_X ''x'' None), (''y'', alt_Y ''y'' None),
         (''detail'', shorthand ''edge'')] @ snd d)
       (chart a) 0 s)))"

subsection \<open>draw_networkx_nodes\<close>

definition nodes_attrs :: "dataframe \<Rightarrow> 'a nodes_args_scheme \<Rightarrow> error + kw" where
  "nodes_attrs df a =
     and_then (size_attr ''node_size must be a string or int.'' (size_py a)
                 (legend_of (legend a)) ([], [])) (\<lambda>d.
     and_then (width_attr ''strokeWidth'' ''linewidths must be a string or int.'' (outline_width a)
                 (legend_of (legend a)) d) (\<lambda>d.
     and_then (shape_attr df (shape a) (legend_of (legend a)) d) (\<lambda>d.
     and_then (column_or_constant ''fill'' ''node_colour must be a string.'' df (colour a) d) (\<lambda>d.
     and_then (opacity_attr (alpha a) d) (\<lambda>d.
     and_then (node_cmap_attr (colour a) (cmap a) d) (\<lambda>d.
     Inr (tooltip_attr (tooltip a) d)))))))"

text \<open>Lines 271-281 and 366-376.\<close>

definition nodes_source :: "env \<Rightarrow> 'a source_args_scheme \<Rightarrow> store \<Rightarrow> (dataframe \<times> ref) res" where
  "nodes_source ev a s = select_source to_pandas_nodes 1 ev a s"

definition draw_networkx_nodes :: "env \<Rightarrow> 'a nodes_args_scheme \<Rightarrow> store \<Rightarrow> ref res" where
  "draw_networkx_nodes ev a s =
     seq (nodes_source ev a s) (\<lambda>src s.
     seq (restrict loc ''node_subset must be a list or None.'' (subset_py a) (fst src) (snd src) s) (\<lambda>df s.
     seq (lift (nodes_attrs df a) s) (\<lambda>d s.
     finish (snd src) ''point'' (fst d)
       ([(''x'', alt_X ''x'' None), (''y'', alt_Y ''y'' None)] @ snd d)
       (chart a) 1 s)))"

subsection \<open>draw_networkx_labels\<close>

definition labels_attrs :: "dataframe \<Rightarrow> 'a labels_args_scheme \<Rightarrow> error + kw" where
  "labels_attrs df a =
     and_then (column_or_constant ''text'' ''label must be a string.'' df (label a) ([], [])) (\<lambda>d.
     and_then (size_attr ''font_size must be a string or int.'' (font_size a) LegendNone d) (\<lambda>d.
     column_or_constant ''fill'' ''font_color must be a string.'' df (font_colour a) d))"

definition draw_networkx_labels :: "env \<Rightarrow> 'a labels_args_scheme \<Rightarrow> store \<Rightarrow> ref res" where
  "draw_networkx_labels ev a s =
     seq (nodes_source ev a s) (\<lambda>src s.
     seq (restrict loc ''node_subset must be a list or None.'' (subset_py a) (fst src) (snd src) s) (\<lambda>df s.
     seq (lift (labels_attrs df a) s) (\<lambda>d s.
     finish (snd src) ''text'' ((''baseline'', PStr ''middle'') # fst d)
       ([(''x'', alt_X ''x'' None), (''y'', alt_Y ''y'' None)] @ snd d)
       (chart a) 1 s)))"

subsection \<open>Default arguments and the calls made by draw_networkx\<close>

definition edges_defaults :: edges_args where
  "edges_defaults =
     \<lparr>G = None, pos = None, chart = None, layer = None, subset_py = PNone,
      colour = PStr ''grey'', cmap = PNone, alpha = PFloat 1, tooltip = None, legend = False,
      width = PInt 1, curved_edges = False, control_points = None,
      loop_radius = 5 / 100, loop_angle = 90, loop_n_points = 30, interpolation = PStr ''basis''\<rparr>"

definition arrows_defaults :: arrows_args where
  "arrows_defaults =
     \<lparr>G = None, pos = None, chart = None, layer = None, subset_py = PNone,
      colour = PStr ''grey'', cmap = PNone, alpha = PFloat 1, tooltip = None, legend = False,
      width = PInt 1, curved_edges = False, control_points = None,
      length_py = 1 / 10, length_is_relative = True\<rparr>"

definition nodes_defaults :: nodes_args where
  "nodes_defaults =
     \<lparr>G = None, pos = None, chart = None, layer = None, subset_py = PNone,
      colour = PStr ''teal'', cmap = PNone, alpha = PFloat 1, tooltip = None, legend = False,
      size_py = PInt 400, outline_width = PFloat 1, shape = PStr ''circle''\<rparr>"

definition labels_defaults :: labels_args where
  "labels_defaults =
     \<lparr>G = None, pos = None, chart = None, layer = None, subset_py = PNone,
      label = PNone, font_size = PInt 15, font_colour = PStr ''black''\<rparr>"

text \<open>The keyword arguments of the four calls of lines 552-576, in the order of the
  records; what a call does not pass keeps its default (\<open>layer = None\<close>).\<close>

definition edges_call ::
  "ref option \<Rightarrow> pos \<Rightarrow> ref option \<Rightarrow> pyval \<Rightarrow> pyval \<Rightarrow> pyval \<Rightarrow> pyval \<Rightarrow> pyval
     \<Rightarrow> string list option \<Rightarrow> bool \<Rightarrow> real \<Rightarrow> real \<Rightarrow> nat \<Rightarrow> bool \<Rightarrow> coord list option \<Rightarrow> pyval
     \<Rightarrow> edges_args" where
  "edges_call g p ch sub w c cm al tt lg lr la npts curved cps interp =
     \<lparr>G = g, pos = Some p, chart = ch, layer = None, subset_py = sub,
      colour = c, cmap = cm, alpha = al, tooltip = tt, legend = lg,
      width = w, curved_edges = curved, control_points = cps,
      loop_radius = lr, loop_angle = la, loop_n_points = npts, interpolation = interp\<rparr>"

definition arrows_call ::
  "ref option \<Rightarrow> pos \<Rightarrow> ref option \<Rightarrow> pyval \<Rightarrow> pyval \<Rightarrow> real \<Rightarrow> bool \<Rightarrow> pyval \<Rightarrow> pyval \<Rightarrow> pyval
     \<Rightarrow> string list option \<Rightarrow> bool \<Rightarrow> bool \<Rightarrow> coord list option \<Rightarrow> arrows_args" where
  "arrows_call g p ch sub w len rel c cm al tt lg curved cps =
     \<lparr>G = g, pos = Some p, chart = ch, layer = None, subset_py = sub,
      colour = c, cmap = cm, alpha = al, tooltip = tt, legend = lg,
      width = w, curved_edges = curved, control_points = cps,
      length_py = len, length_is_relative = rel\<rparr>"

definition nodes_call ::
  "ref option \<Rightarrow> pos \<Rightarrow> ref option \<Rightarrow> pyval \<Rightarrow> pyval \<Rightarrow> pyval \<Rightarrow> pyval \<Rightarrow> pyval \<Rightarrow> pyval \<Rightarrow> pyval
     \<Rightarrow> string list option \<Rightarrow> bool \<Rightarrow> nodes_args" where
  "nodes_call g p ch sub sz ow sh c cm al tt lg =
     \<lparr>G = g, pos = Some p, chart = ch, layer = None, subset_py = sub,
      colour = c, cmap = cm, alpha = al, tooltip = tt, legend = lg,
      size_py = sz, outline_width = ow, shape = sh\<rparr>"

definition labels_call ::
  "ref option \<Rightarrow> pos \<Rightarrow> ref option \<Rightarrow> pyval \<Rightarrow> pyval \<Rightarrow> pyval \<Rightarrow> pyval \<Rightarrow> labels_args" where
  "labels_call g p ch sub lb fs fc =
     \<lparr>G = g, pos = Some p, chart = ch, layer = None, subset_py = sub,
      label = lb, font_size = fs, font_colour = fc\<rparr>"

subsection \<open>draw_networkx\<close>

record networkx_args = graph_args +
  node_subset :: pyval
  edge_subset :: pyval
  show_orphans :: bool
  show_self_loops :: bool
  node_size :: pyval
  node_outline_width :: pyval
  node_shape :: pyval
  node_colour :: pyval
  node_cmap :: pyval
  node_alpha :: pyval
  node_label :: pyval
  node_font_size :: pyval
  node_font_colour :: pyval
  node_tooltip :: "string list option"
  node_legend :: bool
  edge_width :: pyval
  edge_colour :: pyval
  edge_cmap :: pyval
  edge_alpha :: pyval
  edge_tooltip :: "string list option"
  edge_legend :: bool
  loop_radius :: real
  loop_angle :: real
  loop_n_points :: nat
  curved_edges :: bool
  edge_control_points :: "coord list option"
  edge_interpolation :: pyval
  arrow_width :: pyval
  arrow_length :: real
  arrow_length_is_relative :: bool
  arrow_colour :: pyval
  arrow_cmap :: pyval
  arrow_alpha :: pyval
  arrow_legend :: bool
  chart_width :: "real option"
  chart_height :: "real option"

definition networkx_defaults :: networkx_args where
  "networkx_defaults =
     \<lparr>G = None, pos = None, chart = None,
      node_subset = PNone, edge_subset = PNone, show_orphans = True, show_self_loops = True,
      node_size = PInt 400, node_outline_width = PFloat 1, node_shape = PStr ''circle'',
      node_colour = PStr ''teal'', node_cmap = PNone, node_alpha = PFloat 1,
      node_label = PNone, node_font_size = PInt 15, node_font_colour = PStr ''black'',
      node_tooltip = None, node_legend = False,
      edge_width = PInt 1, edge_colour = PStr ''grey'', edge_cmap = PNone, edge_alpha = PFloat 1,
      edge_tooltip = None, edge_legend = False,
      loop_radius = 5 / 100, loop_angle = 90, loop_n_points = 30,
      curved_edges = False, edge_control_points = None, edge_interpolation = PStr ''basis'',
      arrow_width = PInt 2, arrow_length = 1 / 10, arrow_length_is_relative = True,
      arrow_colour = PStr ''black'', arrow_cmap = PNone, arrow_alpha = PFloat 1,
      arrow_legend = False,
      chart_width = Some 500, chart_height = Some 300\<rparr>"

definition update_graph :: "store \<Rightarrow> ref \<Rightarrow> (graph \<Rightarrow> graph) \<Rightarrow> store" where
  "update_graph s r f = (case get_graph s r of Inl e \<Rightarrow> s | Inr g \<Rightarrow> s[r := Graph (f g)])"

text \<open>Lines 525-528: the filtering works on a deep copy, a new object of the store.
  (\<^verbatim>\<open>deepcopy(None)\<close> is \<^verbatim>\<open>None\<close>, which has no \<^verbatim>\<open>remove_edges_from\<close>.)\<close>

definition filter_graph :: "bool \<Rightarrow> bool \<Rightarrow> ref option \<Rightarrow> store \<Rightarrow> (ref option) res" where
  "filter_graph self_loops orphans g s =
     (if \<not> (self_loops \<and> orphans) then
        (case g of
           None \<Rightarrow> (Inl AttributeError, s)
         | Some r \<Rightarrow>
             (case get_graph s r of
                Inl e \<Rightarrow> (Inl e, s)
              | Inr gr \<Rightarrow>
                  (case alloc (Graph gr) s of
                     (r', s1) \<Rightarrow>
                       (let s2 = (if \<not> self_loops
                                  then update_graph s1 r' (\<lambda>c. remove_edges_from (selfloop_edges c) c)
                                  else s1);
                            s3 = (if \<not> orphans
                                  then update_graph s2 r' (\<lambda>c. remove_nodes_from (isolates c) c)
                                  else s2)
                        in (Inr (Some r'), s3)))))
      else (Inr g, s))"

definition graph_of :: "ref option \<Rightarrow> store \<Rightarrow> error + graph" where
  "graph_of g s = (case g of None \<Rightarrow> Inl AttributeError | Some r \<Rightarrow> get_graph s r)"

text \<open>Line 530: \<^verbatim>\<open>if not pos: pos = kamada_kawai_layout(G)\<close>; the layout of networkx
  fails on what is not a graph.\<close>

definition pos_or_layout :: "env \<Rightarrow> pos option \<Rightarrow> ref option \<Rightarrow> store \<Rightarrow> error + pos" where
  "pos_or_layout ev p g s =
     (if p = None \<or> p = Some []
      then (case graph_of g s of Inl e \<Rightarrow> Inl e | Inr gr \<Rightarrow> Inr (kamada_kawai_layout ev gr))
      else Inr (the p))"

text \<open>Lines 550-564: the edge layer when the graph has edges, and then the arrow layer
  when it is directed.\<close>

definition edge_layers :: "env \<Rightarrow> networkx_args \<Rightarrow> ref option \<Rightarrow> pos \<Rightarrow> graph \<Rightarrow> store \<Rightarrow> (ref list) res" where
  "edge_layers ev a g p gr s =
     (if length (edges gr) \<noteq> 0 then
        seq (draw_networkx_edges ev
               (edges_call g p (chart a) (edge_subset a) (edge_width a) (edge_colour a) (edge_cmap a)
                  (edge_alpha a) (edge_tooltip a) (edge_legend a)
                  (loop_radius a) (loop_angle a) (loop_n_points a)
                  (curved_edges a) (edge_control_points a) (edge_interpolation a)) s) (\<lambda>e s.
        if directed gr then
          seq (draw_networkx_arrows ev
                 (arrows_call g p (chart a) (edge_subset a) (arrow_width a) (arrow_length a)
                    (arrow_length_is_relative a) (arrow_colour a) (arrow_cmap a) (arrow_alpha a)
                    (edge_tooltip a) (arrow_legend a)
                    (curved_edges a) (edge_control_points a)) s) (\<lambda>ar s.
          (Inr [e, ar], s))
        else (Inr [e], s))
      else (Inr [], s))"

text \<open>Lines 566-576: the node layer when the graph has nodes, and then the label layer
  when \<^verbatim>\<open>node_label\<close> is truthy.\<close>

definition node_layers :: "env \<Rightarrow> networkx_args \<Rightarrow> ref option \<Rightarrow> pos \<Rightarrow> graph \<Rightarrow> store \<Rightarrow> (ref list) res" where
  "node_layers ev a g p gr s =
     (if length (nodes gr) \<noteq> 0 then
        seq (draw_networkx_nodes ev
               (nodes_call g p (chart a) (node_subset a) (node_size a) (node_outline_width a)
                  (node_shape a) (node_colour a) (node_cmap a) (node_alpha a)
                  (node_tooltip a) (node_legend a)) s) (\<lambda>n s.
        if truthy (node_label a) then
          seq (draw_networkx_labels ev
                 (labels_call g p (chart a) (node_subset a) (node_label a) (node_font_size a)
                    (node_font_colour a)) s) (\<lambda>lb s.
          (Inr [n, lb], s))
        else (Inr [n], s))
      else (Inr [], s))"

text \<open>\<^verbatim>\<open>draw_networkx\<close>: filtering, positions, scaling, the layers, and the layered chart
  of lines 578-591 (\<^verbatim>\<open>alt.layer(*viz).properties(width, height)\<close> is one new object).\<close>

definition draw_networkx :: "env \<Rightarrow> networkx_args \<Rightarrow> store \<Rightarrow> ref res" where
  "draw_networkx ev a s =
     seq (filter_graph (show_self_loops a) (show_orphans a) (G a) s) (\<lambda>g s.
     seq (lift (pos_or_layout ev (pos a) g s) s) (\<lambda>p s.
     seq (lift (scale_coordinates p (chart_width a) (chart_height a)) s) (\<lambda>sc s.
     seq (lift (graph_of g s) s) (\<lambda>gr s.
     seq (edge_layers ev a g (fst sc) gr s) (\<lambda>es s.
     seq (node_layers ev a g (fst sc) gr s) (\<lambda>ns s.
     if es @ ns \<noteq> [] then
       (case alloc (LayerChart \<lparr>lc_layer = es @ ns, lc_width = Some (fst (snd sc)),
                                  lc_height = Some (snd (snd sc))\<rparr>) s of
          (r, s') \<Rightarrow> (Inr r, s'))
     else (Inl (ValueError ''G does not contain any nodes or edges.''), s)))))))"

subsection \<open>Observing a result\<close>

text \<open>The chart that a call returned, and what its mark and its encodings say about a
  visual property.\<close>

definition result_chart :: "ref res \<Rightarrow> chart option" where
  "result_chart x =
     (case fst x of
        Inl e \<Rightarrow> None
      | Inr r \<Rightarrow> (case get_chart (snd x) r of Inl e \<Rightarrow> None | Inr c \<Rightarrow> Some c))"

definition marker_of :: "chart \<Rightarrow> string \<Rightarrow> pyval option" where
  "marker_of c k = (case chart_mark c of None \<Rightarrow> None | Some m \<Rightarrow> map_of (snd m) k)"

definition encoding_of :: "chart \<Rightarrow> string \<Rightarrow> enc option" where
  "encoding_of c k = map_of (chart_encoding c) k"

text \<open>The layers of the layered chart that a call returned.\<close>

definition result_layers :: "ref res \<Rightarrow> ref list option" where
  "result_layers x =
     (case fst x of
        Inl e \<Rightarrow> None
      | Inr r \<Rightarrow> (case get_layer_chart (snd x) r of Inl e \<Rightarrow> None | Inr lc \<Rightarrow> Some (lc_layer lc)))"

subsection \<open>Example inputs\<close>

text \<open>An environment: the nodes laid out on a parabola, a self-loop as copies of its node,
  control points taken as they are, and the arrow from the first to the last point of the
  path.\<close>

definition ex_env :: env where
  "ex_env =
     \<lparr>kamada_kawai_layout =
        (\<lambda>g. map (\<lambda>(i, nd). (fst nd, (real i, real i * real i))) (zip [0..<length (nodes g)] (nodes g))),
      loop_points = (\<lambda>c r a n. replicate n c),
      control_point_offsets = (\<lambda>a b cs. cs),
      arrow_placement = (\<lambda>path len rel. (hd path, last path))\<rparr>"

text \<open>A store with an edge layer (object 0) and a node layer (object 1): one edge from A to
  B with a string attribute and a numeric one, and the two nodes likewise.\<close>

definition ex_edge_frame :: dataframe where
  "ex_edge_frame =
     \<lparr>columns = [(''edge'', DObject), (''order'', DNumeric), (''source'', DObject),
                 (''target'', DObject), (''pair'', DObject), (''x'', DNumeric), (''y'', DNumeric),
                 (''kind'', DObject), (''weight'', DNumeric)],
      rows = [(PInt 0, [(''edge'', PStr ''(A, B)''), (''order'', PInt 0), (''source'', PStr ''A''),
                        (''target'', PStr ''B''), (''pair'', PTuple [PStr ''A'', PStr ''B'']),
                        (''x'', PFloat 0), (''y'', PFloat 0),
                        (''kind'', PStr ''road''), (''weight'', PFloat 2)]),
              (PInt 1, [(''edge'', PStr ''(A, B)''), (''order'', PInt 1), (''source'', PStr ''A''),
                        (''target'', PStr ''B''), (''pair'', PTuple [PStr ''A'', PStr ''B'']),
                        (''x'', PFloat 1), (''y'', PFloat 1),
                        (''kind'', PStr ''road''), (''weight'', PFloat 2)])]\<rparr>"

definition ex_node_frame :: dataframe where
  "ex_node_frame =
     \<lparr>columns = [(''node'', DObject), (''x'', DNumeric), (''y'', DNumeric),
                 (''group'', DObject), (''score'', DNumeric)],
      rows = [(PStr ''A'', [(''node'', PStr ''A''), (''x'', PFloat 0), (''y'', PFloat 0),
                           (''group'', PStr ''red''), (''score'', PFloat 1)]),
              (PStr ''B'', [(''node'', PStr ''B''), (''x'', PFloat 1), (''y'', PFloat 1),
                           (''group'', PStr ''blue''), (''score'', PFloat 3)])]\<rparr>"

definition ex_store :: store where
  "ex_store = [Chart (alt_Chart ex_edge_frame), Chart (alt_Chart ex_node_frame)]"


text \<open>Two nodes whose positions span a width of 10 and a height of 1.\<close>

definition ex_pos :: pos where
  "ex_pos = [(''A'', (0, 0)), (''B'', (10, 1))]"

text \<open>A directed path from A over B to C, and a graph of one node with a self-loop.\<close>

definition ex_path_graph :: graph where
  "ex_path_graph =
     \<lparr>nodes = [(''A'', []), (''B'', []), (''C'', [])],
      edges = [(''A'', ''B'', []), (''B'', ''C'', [])],
      directed = True\<rparr>"

definition ex_orphan_graph :: graph where
  "ex_orphan_graph = \<lparr>nodes = [(''A'', [])], edges = [(''A'', ''A'', [])], directed = False\<rparr>"

text \<open>The store \<open>ex_store\<close> with a layered chart of its two layers (object 2) and the graph
  of the path (object 3).\<close>

definition ex_layered_store :: store where
  "ex_layered_store =
     ex_store @ [LayerChart \<lparr>lc_layer = [0, 1], lc_width = None, lc_height = None\<rparr>,
                 Graph ex_path_graph]"



section \<open>Properties\<close>

subsection \<open>Coordinate scaling\<close>


lemma py_max_Max: "xs \<noteq> [] \<Longrightarrow> py_max xs = Max (set xs)"
proof (cases xs)
  case (Cons a as)
  then show ?thesis using Max.set_eq_fold [of a as] by (simp add: py_max_def)
qed simp

lemma py_min_Min: "xs \<noteq> [] \<Longrightarrow> py_min xs = Min (set xs)"
proof (cases xs)
  case (Cons a as)
  then show ?thesis using Min.set_eq_fold [of a as] by (simp add: py_min_def)
qed simp

lemma py_max_mono_map:
  assumes "xs \<noteq> []" "mono f"
  shows "py_max (map f xs) = f (py_max xs)"
proof -
  have "Max (f ` set xs) = f (Max (set xs))"
    using assms by (simp add: mono_Max_commute)
  then show ?thesis using assms by (simp add: py_max_Max)
qed

lemma py_min_mono_map:
  assumes "xs \<noteq> []" "mono f"
  shows "py_min (map f xs) = f (py_min xs)"
proof -
  have "Min (f ` set xs) = f (Min (set xs))"
    using assms by (simp add: mono_Min_commute)
  then show ?thesis using assms by (simp add: py_min_Min)
qed

lemma py_min_le_max: "xs \<noteq> [] \<Longrightarrow> py_min xs \<le> py_max xs"
  by (simp add: py_max_Max py_min_Min)


lemma unit_scale_xs:
  "x_range p \<noteq> 0 \<Longrightarrow> pos_xs (unit_scale p) = map (\<lambda>x. (x - py_min (pos_xs p)) / x_range p) (pos_xs p)"
  by (simp add: unit_scale_def pos_xs_def case_prod_unfold comp_def)

lemma unit_scale_ys:
  "y_range p \<noteq> 0 \<Longrightarrow> pos_ys (unit_scale p) = map (\<lambda>y. (y - py_min (pos_ys p)) / y_range p) (pos_ys p)"
  by (simp add: unit_scale_def pos_ys_def case_prod_unfold comp_def)

lemma x_range_nonneg: "p \<noteq> [] \<Longrightarrow> 0 \<le> x_range p"
  using py_min_le_max [of "pos_xs p"] by (simp add: x_range_def pos_xs_def)

lemma y_range_nonneg: "p \<noteq> [] \<Longrightarrow> 0 \<le> y_range p"
  using py_min_le_max [of "pos_ys p"] by (simp add: y_range_def pos_ys_def)

lemma unit_scale_x_bounds:
  assumes "p \<noteq> []" "x_range p \<noteq> 0"
  shows "py_min (pos_xs (unit_scale p)) = 0" "py_max (pos_xs (unit_scale p)) = 1"
proof -
  have pos: "0 < x_range p" using assms x_range_nonneg [of p] by simp
  have m: "mono (\<lambda>x. (x - py_min (pos_xs p)) / x_range p)"
    using pos by (intro monoI) (simp add: divide_right_mono)
  have ne: "pos_xs p \<noteq> []" using assms by (simp add: pos_xs_def)
  show "py_min (pos_xs (unit_scale p)) = 0"
    using assms by (simp add: unit_scale_xs py_min_mono_map [OF ne m])
  have "py_max (pos_xs (unit_scale p)) = (py_max (pos_xs p) - py_min (pos_xs p)) / x_range p"
    using assms by (simp add: unit_scale_xs py_max_mono_map [OF ne m])
  also have "\<dots> = 1" using assms by (simp add: x_range_def)
  finally show "py_max (pos_xs (unit_scale p)) = 1" .
qed

lemma unit_scale_y_bounds:
  assumes "p \<noteq> []" "y_range p \<noteq> 0"
  shows "py_min (pos_ys (unit_scale p)) = 0" "py_max (pos_ys (unit_scale p)) = 1"
proof -
  have pos: "0 < y_range p" using assms y_range_nonneg [of p] by simp
  have m: "mono (\<lambda>x. (x - py_min (pos_ys p)) / y_range p)"
    using pos by (intro monoI) (simp add: divide_right_mono)
  have ne: "pos_ys p \<noteq> []" using assms by (simp add: pos_ys_def)
  show "py_min (pos_ys (unit_scale p)) = 0"
    using assms by (simp add: unit_scale_ys py_min_mono_map [OF ne m])
  have "py_max (pos_ys (unit_scale p)) = (py_max (pos_ys p) - py_min (pos_ys p)) / y_range p"
    using assms by (simp add: unit_scale_ys py_max_mono_map [OF ne m])
  also have "\<dots> = 1" using assms by (simp add: y_range_def)
  finally show "py_max (pos_ys (unit_scale p)) = 1" .
qed

lemma stretch_x:
  assumes "q \<noteq> []" "0 < h" "h < w"
  shows "\<exists>q'. stretch w h q = Inr q' \<and> map fst q' = map fst q
     \<and> pos_xs q' = map (\<lambda>x. x * w / h) (pos_xs q) \<and> pos_ys q' = pos_ys q"
  using assms by (simp add: stretch_def pos_xs_def pos_ys_def case_prod_unfold comp_def)

lemma stretch_y:
  assumes "q \<noteq> []" "0 < w" "w < h"
  shows "\<exists>q'. stretch w h q = Inr q' \<and> map fst q' = map fst q
     \<and> pos_xs q' = pos_xs q \<and> pos_ys q' = map (\<lambda>y. y * h / w) (pos_ys q)"
  using assms by (simp add: stretch_def pos_xs_def pos_ys_def case_prod_unfold comp_def)

lemma stretch_bounds:
  assumes ne: "q \<noteq> []" and w: "0 < w" and h: "0 < h"
    and x0: "py_min (pos_xs q) = 0" and x1: "py_max (pos_xs q) = 1"
    and y0: "py_min (pos_ys q) = 0" and y1: "py_max (pos_ys q) = 1"
  shows "\<exists>q'. stretch w h q = Inr q' \<and> map fst q' = map fst q
     \<and> py_min (pos_xs q') = 0 \<and> py_min (pos_ys q') = 0
     \<and> py_max (pos_xs q') = (if w \<ge> h then w / h else 1)
     \<and> py_max (pos_ys q') = (if w \<ge> h then 1 else h / w)"
proof -
  have nx: "pos_xs q \<noteq> []" and ny: "pos_ys q \<noteq> []" using ne by (simp_all add: pos_xs_def pos_ys_def)
  consider "w = h" | "h < w" | "w < h" by linarith
  then show ?thesis
  proof cases
    case 1
    then show ?thesis using x0 x1 y0 y1 h by (simp add: stretch_def)
  next
    case 2
    have m: "mono (\<lambda>x. x * w / h)" using w h by (intro monoI) (simp add: divide_right_mono mult_right_mono)
    obtain q' where q': "stretch w h q = Inr q'" "map fst q' = map fst q"
      "pos_xs q' = map (\<lambda>x. x * w / h) (pos_xs q)" "pos_ys q' = pos_ys q"
      using stretch_x [OF ne h 2] by blast
    show ?thesis using q' 2 x0 x1 y0 y1
      by (simp add: py_min_mono_map [OF nx m] py_max_mono_map [OF nx m])
  next
    case 3
    have m: "mono (\<lambda>y. y * h / w)" using w h by (intro monoI) (simp add: divide_right_mono mult_right_mono)
    obtain q' where q': "stretch w h q = Inr q'" "map fst q' = map fst q"
      "pos_xs q' = pos_xs q" "pos_ys q' = map (\<lambda>y. y * h / w) (pos_ys q)"
      using stretch_y [OF ne w 3] by blast
    show ?thesis using q' 3 x0 x1 y0 y1
      by (simp add: py_min_mono_map [OF ny m] py_max_mono_map [OF ny m])
  qed
qed


lemma scale_resolved:
  assumes ne: "p \<noteq> []" and w: "0 < w" and h: "0 < h"
    and xr: "x_range p \<noteq> 0" and yr: "y_range p \<noteq> 0"
  shows "\<exists>p'. stretch w h (unit_scale p) = Inr p' \<and> map fst p' = map fst p
     \<and> py_min (pos_xs p') = 0 \<and> py_min (pos_ys p') = 0
     \<and> py_max (pos_xs p') = (if w \<ge> h then w / h else 1)
     \<and> py_max (pos_ys p') = (if w \<ge> h then 1 else h / w)
     \<and> x_range p' / y_range p' = w / h"
proof -
  have une: "unit_scale p \<noteq> []" using ne by (simp add: unit_scale_def)
  have names: "map fst (unit_scale p) = map fst p"
    by (simp add: unit_scale_def case_prod_unfold comp_def)
  obtain p' where p': "stretch w h (unit_scale p) = Inr p'" "map fst p' = map fst (unit_scale p)"
      "py_min (pos_xs p') = 0" "py_min (pos_ys p') = 0"
      "py_max (pos_xs p') = (if w \<ge> h then w / h else 1)"
      "py_max (pos_ys p') = (if w \<ge> h then 1 else h / w)"
    using stretch_bounds [OF une w h unit_scale_x_bounds [OF ne xr] unit_scale_y_bounds [OF ne yr]]
    by blast
  have "x_range p' / y_range p' = w / h"
    using p' w h by (simp add: x_range_def y_range_def)
  then show ?thesis using p' names by simp
qed

text \<open>
  Claim C1, as amended.  For positions that span a non-zero width and a non-zero height,
  and chart sizes that are positive where given and not both \<^verbatim>\<open>None\<close>, the scaling
  succeeds with the resolved width \<open>w\<close> and height \<open>h\<close> (a size left out is derived from the
  other one and the aspect ratio of the data, so that then \<open>w / h\<close> is the ratio of the raw
  ranges).  Both axes start at 0; the axis of the shorter chart side spans the unit range and
  the axis of the longer chart side spans the ratio of the longer to the shorter side, so the
  aspect ratio of the coordinates is \<open>w / h\<close>.  Which axis spans the unit range is decided by the
  chart sizes, not by the raw ranges of the data.
\<close>

theorem scale_coordinates_aspect:
  assumes ne: "p \<noteq> []" and xr: "x_range p \<noteq> 0" and yr: "y_range p \<noteq> 0"
    and some: "cw \<noteq> None \<or> ch \<noteq> None"
    and cwp: "\<forall>v. cw = Some v \<longrightarrow> 0 < v" and chp: "\<forall>v. ch = Some v \<longrightarrow> 0 < v"
  shows "\<exists>p' w h. scale_coordinates p cw ch = Inr (p', w, h)
     \<and> (cw \<noteq> None \<longrightarrow> w = the cw) \<and> (ch \<noteq> None \<longrightarrow> h = the ch)
     \<and> (cw = None \<or> ch = None \<longrightarrow> w / h = x_range p / y_range p)
     \<and> map fst p' = map fst p
     \<and> py_min (pos_xs p') = 0 \<and> py_min (pos_ys p') = 0
     \<and> py_max (pos_xs p') = (if w \<ge> h then w / h else 1)
     \<and> py_max (pos_ys p') = (if w \<ge> h then 1 else h / w)
     \<and> x_range p' / y_range p' = w / h"
proof -
  have xp: "0 < x_range p" using x_range_nonneg [OF ne] xr by simp
  have yp: "0 < y_range p" using y_range_nonneg [OF ne] yr by simp
  define w where "w = (case cw of Some v \<Rightarrow> v | None \<Rightarrow> the ch * x_range p / y_range p)"
  define h where "h = (case ch of Some v \<Rightarrow> v | None \<Rightarrow> w * y_range p / x_range p)"
  have rw: "resolve_width cw ch (x_range p) (y_range p) = Inr w"
    using yr by (simp add: resolve_width_def w_def split: option.splits)
  have rh: "resolve_height w ch (x_range p) (y_range p) = Inr h"
    using xr by (simp add: resolve_height_def h_def split: option.splits)
  have wp: "0 < w"
    using some cwp chp xp yp by (cases cw; cases ch) (simp_all add: w_def)
  have hp: "0 < h"
    using some cwp chp xp yp wp by (cases ch) (simp_all add: h_def)
  have ratio: "cw = None \<or> ch = None \<longrightarrow> w / h = x_range p / y_range p"
    using some xp yp cwp chp by (cases cw; cases ch) (auto simp: w_def h_def)
  obtain p' where p': "stretch w h (unit_scale p) = Inr p'" "map fst p' = map fst p"
     "py_min (pos_xs p') = 0" "py_min (pos_ys p') = 0"
     "py_max (pos_xs p') = (if w \<ge> h then w / h else 1)"
     "py_max (pos_ys p') = (if w \<ge> h then 1 else h / w)"
     "x_range p' / y_range p' = w / h"
    using scale_resolved [OF ne wp hp xr yr] by blast
  have "scale_coordinates p cw ch = Inr (p', w, h)"
    using some ne rw rh p'(1) by (simp add: scale_coordinates_def)
  moreover have "cw \<noteq> None \<longrightarrow> w = the cw" by (auto simp: w_def)
  moreover have "ch \<noteq> None \<longrightarrow> h = the ch" by (auto simp: h_def)
  ultimately show ?thesis using p' ratio by blast
qed


lemma ex_pos_ranges: "x_range ex_pos = 10" "y_range ex_pos = 1"
  by (simp_all add: ex_pos_def x_range_def y_range_def pos_xs_def pos_ys_def py_max_def py_min_def)

text \<open>
  Claim C1 as stated fails: in \<open>ex_pos\<close> the y axis is the shorter raw-data axis, and with a
  chart of 300 by 500 it is the x axis that spans the unit range, while y spans 5/3.
\<close>

theorem scale_coordinates_shorter_axis_counterexample:
  "y_range ex_pos < x_range ex_pos
   \<and> scale_coordinates ex_pos (Some 300) (Some 500)
       = Inr ([(''A'', (0, 0)), (''B'', (1, 5 / 3))], 300, 500)
   \<and> y_range [(''A'', (0, 0)), (''B'', (1, 5 / 3))] = 5 / 3
   \<and> x_range [(''A'', (0, 0)), (''B'', (1, 5 / 3))] = 1"
  by (simp add: ex_pos_ranges scale_coordinates_def resolve_width_def resolve_height_def
      stretch_def unit_scale_def)
    (simp add: ex_pos_def x_range_def y_range_def pos_xs_def pos_ys_def py_max_def py_min_def)

text \<open>The hypotheses of the theorem hold at \<open>ex_pos\<close> with a chart of 300 by 500.\<close>

theorem scale_coordinates_aspect_witness:
  "ex_pos \<noteq> [] \<and> x_range ex_pos \<noteq> 0 \<and> y_range ex_pos \<noteq> 0
   \<and> (\<exists>p' w h. scale_coordinates ex_pos (Some 300) (Some 500) = Inr (p', w, h)
        \<and> w = 300 \<and> h = 500 \<and> x_range p' / y_range p' = w / h)"
  using scale_coordinates_aspect [of ex_pos "Some 300" "Some 500"]
  by (simp add: ex_pos_ranges) (auto simp: ex_pos_def)

subsection \<open>The data source\<close>

lemma select_source_none:
  "select_source pr k ev (a\<lparr>G := None, chart := None, layer := None\<rparr>) s
     = (Inl (ValueError ''one of G, chart or layer is required to draw.''), s)"
  by (simp add: select_source_def)

lemma select_source_layer:
  "layer a = Some l \<Longrightarrow> select_source pr k ev a s =
     (case get_chart s l of Inl e \<Rightarrow> (Inl e, s) | Inr c \<Rightarrow> (Inr (chart_data c, l), s))"
  by (simp add: select_source_def)

lemma select_source_chart:
  "layer a = None \<Longrightarrow> chart a = Some ch \<Longrightarrow> select_source pr k ev a s =
     (case layer_at s ch k of
        Inl e \<Rightarrow> (Inl e, s)
      | Inr l \<Rightarrow> (case get_chart s l of Inl e \<Rightarrow> (Inl e, s) | Inr c \<Rightarrow> (Inr (chart_data c, l), s)))"
  by (simp add: select_source_def)

text \<open>
  Claim C6.  A call of any of the four drawing functions in which the graph, the chart and
  the layer are all \<^verbatim>\<open>None\<close> fails at once with the ValueError of the source selection,
  whatever the other arguments are, and leaves the store as it was.
\<close>

theorem no_source_is_value_error:
  "draw_networkx_edges ev (a\<lparr>G := None, chart := None, layer := None\<rparr>) s
     = (Inl (ValueError ''one of G, chart or layer is required to draw.''), s)
   \<and> draw_networkx_arrows ev (b\<lparr>G := None, chart := None, layer := None\<rparr>) s
     = (Inl (ValueError ''one of G, chart or layer is required to draw.''), s)
   \<and> draw_networkx_nodes ev (c\<lparr>G := None, chart := None, layer := None\<rparr>) s
     = (Inl (ValueError ''one of G, chart or layer is required to draw.''), s)
   \<and> draw_networkx_labels ev (d\<lparr>G := None, chart := None, layer := None\<rparr>) s
     = (Inl (ValueError ''one of G, chart or layer is required to draw.''), s)"
  by (simp add: draw_networkx_edges_def draw_networkx_arrows_def draw_networkx_nodes_def
      draw_networkx_labels_def edges_source_def arrows_source_def nodes_source_def
      select_source_none seq_def)

subsection \<open>What a successful call returns\<close>

lemmas source_defs = edges_source_def arrows_source_def nodes_source_def

lemma select_source_post:
  assumes "select_source pr k ev a s = (Inr (df, r), s1)"
  shows "\<exists>c. get_chart s1 r = Inr c \<and> chart_data c = df"
  using assms
  by (auto simp: select_source_def alloc_def get_chart_def alt_Chart_def nth_append
      split: option.splits sum.splits if_splits)

lemma get_chart_set_data:
  "get_chart s r = Inr c \<Longrightarrow> get_chart (set_data s r df) r = Inr (c\<lparr>chart_data := df\<rparr>)"
  by (auto simp: set_data_def get_chart_def split: if_splits obj.splits)

lemma restrict_post:
  assumes "restrict sel msg sub df r s = (Inr df', s')" "get_chart s r = Inr c" "chart_data c = df"
  shows "\<exists>c'. get_chart s' r = Inr c' \<and> chart_data c' = df'"
  using assms by (auto simp: restrict_def get_chart_set_data split: if_splits sum.splits)

lemma restrict_columns:
  assumes "restrict sel msg sub df r s = (Inr df', s')"
    and "\<And>xs d'. sel df xs = Inr d' \<Longrightarrow> columns d' = columns df"
  shows "columns df' = columns df"
  using assms by (auto simp: restrict_def split: if_splits sum.splits)

lemma loc_pair_isin_columns: "loc_pair_isin df xs = Inr d' \<Longrightarrow> columns d' = columns df"
  by (auto simp: loc_pair_isin_def split: if_splits)

lemma loc_columns: "loc df xs = Inr d' \<Longrightarrow> columns d' = columns df"
  by (auto simp: loc_def split: if_splits)

lemma get_chart_set_layer_at:
  assumes "set_layer_at s cr k r' = Inr s'" "get_chart s r = Inr c"
  shows "get_chart s' r = Inr c"
  using assms
  by (auto simp: set_layer_at_def get_layer_chart_def get_chart_def nth_list_update
      split: sum.splits if_splits obj.splits)

lemma finish_post:
  assumes "finish r kind m e ch k s = (Inr r', s')"
  shows "\<exists>c. get_chart s r = Inr c \<and> get_chart s' r' = Inr (encode e (mark kind m c))"
proof -
  obtain c where c: "get_chart s r = Inr c"
    using assms by (auto simp: finish_def split: sum.splits)
  have new: "get_chart (s @ [Chart (encode e (mark kind m c))]) (length s) = Inr (encode e (mark kind m c))"
    by (simp add: get_chart_def)
  show ?thesis
  proof (cases ch)
    case None
    then show ?thesis using assms c new by (auto simp: finish_def alloc_def)
  next
    case (Some cr)
    then show ?thesis using assms c new
      by (auto simp: finish_def alloc_def split: sum.splits dest: get_chart_set_layer_at)
  qed
qed

lemma pipeline_result:
  assumes run: "seq src (\<lambda>x s. seq (restrict sel msg sub (fst x) (snd x) s) (\<lambda>df s.
             seq (lift (attrs df) s) (\<lambda>d s. finish (snd x) kind (mk d) (en d) ch k s))) = (Inr r', s')"
    and src: "\<And>df r s1. src = (Inr (df, r), s1) \<Longrightarrow> \<exists>c. get_chart s1 r = Inr c \<and> chart_data c = df"
    and sel: "\<And>df xs d'. sel df xs = Inr d' \<Longrightarrow> columns d' = columns df"
  shows "\<exists>c d df r s1. src = (Inr (df, r), s1) \<and> columns (chart_data c) = columns df
           \<and> attrs (chart_data c) = Inr d
           \<and> get_chart s' r' = Inr (encode (en d) (mark kind (mk d) c))"
proof -
  obtain df r s1 where s1: "src = (Inr (df, r), s1)"
    using run by (cases src; cases "fst src") (auto simp: seq_def)
  obtain c1 where c1: "get_chart s1 r = Inr c1" "chart_data c1 = df" using src [OF s1] by blast
  obtain df' s2 where s2: "restrict sel msg sub df r s1 = (Inr df', s2)"
    using run s1 by (cases "restrict sel msg sub df r s1"; cases "fst (restrict sel msg sub df r s1)")
      (auto simp: seq_def)
  obtain c2 where c2: "get_chart s2 r = Inr c2" "chart_data c2 = df'"
    using restrict_post [OF s2 c1] by blast
  have cols: "columns df' = columns df" using restrict_columns [OF s2] sel by blast
  obtain d where d: "attrs df' = Inr d"
    using run s1 s2 by (cases "attrs df'") (auto simp: seq_def lift_def)
  have fin: "finish r kind (mk d) (en d) ch k s2 = (Inr r', s')"
    using run s1 s2 d by (simp add: seq_def lift_def)
  obtain c where "get_chart s2 r = Inr c" "get_chart s' r' = Inr (encode (en d) (mark kind (mk d) c))"
    using finish_post [OF fin] by blast
  then show ?thesis using s1 c2 cols d by auto
qed

lemma edges_result:
  assumes "draw_networkx_edges ev a s = (Inr r', s')"
  shows "\<exists>c d. edges_attrs (chart_data c) a = Inr d
     \<and> get_chart s' r' = Inr (encode ([(''x'', alt_X ''x'' (Some [])), (''y'', alt_Y ''y'' (Some [])),
         (''detail'', shorthand ''edge''), (''order'', shorthand ''order'')] @ snd d) (mark ''line'' (fst d) c))"
  using pipeline_result [OF assms [unfolded draw_networkx_edges_def]]
    select_source_post loc_pair_isin_columns
  unfolding edges_source_def by blast

subsection \<open>The styling arguments, one by one\<close>

lemma and_then_Inr: "and_then x f = Inr y \<Longrightarrow> \<exists>v. x = Inr v \<and> f v = Inr y"
  by (cases x) (simp_all add: and_then_def)

lemma width_attr_maps:
  assumes "width_attr key msg w lg d = Inr d'"
  shows "map_of (fst d') = (if is_str w then map_of (fst d) else (map_of (fst d))(''strokeWidth'' \<mapsto> w))"
    and "map_of (snd d') = (if is_str w then (map_of (snd d))(key \<mapsto> alt_Size (str_of w) lg) else map_of (snd d))"
    and "distinct (map fst (snd d)) \<Longrightarrow> distinct (map fst (snd d'))"
    and "is_str w \<or> is_float_or_int w"
  using assms
  by (auto simp: width_attr_def set_marker_def set_encoded_def update_conv distinct_update
      split: if_splits)

lemma size_attr_maps:
  assumes "size_attr msg w lg d = Inr d'"
  shows "map_of (fst d') = (if is_str w then map_of (fst d) else (map_of (fst d))(''size'' \<mapsto> w))"
    and "map_of (snd d') = (if is_str w then (map_of (snd d))(''size'' \<mapsto> alt_Size (str_of w) lg) else map_of (snd d))"
    and "distinct (map fst (snd d)) \<Longrightarrow> distinct (map fst (snd d'))"
    and "is_str w \<or> is_int w"
  using assms
  by (auto simp: size_attr_def set_marker_def set_encoded_def update_conv distinct_update
      split: if_splits)

lemma line_colour_maps:
  assumes "line_colour df c cm lg d = Inr d'"
  shows "map_of (fst d') = (if str_of c \<in> set (column_names df) then map_of (fst d)
                            else (map_of (fst d))(''color'' \<mapsto> c))"
    and "map_of (snd d') = (if str_of c \<in> set (column_names df)
                            then (map_of (snd d))(''color'' \<mapsto>
                                   alt_Color (str_of c) (if cm = PNone then None else Some (str_of cm)) lg)
                            else map_of (snd d))"
    and "distinct (map fst (snd d)) \<Longrightarrow> distinct (map fst (snd d'))"
    and "is_str c"
  using assms
  by (auto simp: line_colour_def set_marker_def set_encoded_def update_conv distinct_update
      split: if_splits sum.splits)

lemma opacity_attr_maps:
  assumes "opacity_attr al d = Inr d'"
  shows "map_of (fst d') = (if \<not> is_str al \<and> is_float_or_int al then (map_of (fst d))(''opacity'' \<mapsto> al)
                            else map_of (fst d))"
    and "map_of (snd d') = (if is_str al then (map_of (snd d))(''opacity'' \<mapsto> shorthand (str_of al))
                            else map_of (snd d))"
    and "distinct (map fst (snd d)) \<Longrightarrow> distinct (map fst (snd d'))"
    and "is_str al \<or> is_float_or_int al \<or> al = PNone"
  using assms
  by (auto simp: opacity_attr_def set_marker_def set_encoded_def update_conv distinct_update
      split: if_splits)

lemma interpolate_attr_maps:
  assumes "interpolate_attr curved i d = Inr d'"
  shows "map_of (fst d') = (if curved then (map_of (fst d))(''interpolate'' \<mapsto> i) else map_of (fst d))"
    and "snd d' = snd d"
    and "curved \<longrightarrow> is_str i"
  using assms
  by (auto simp: interpolate_attr_def set_marker_def update_conv split: if_splits)

lemma tooltip_attr_maps:
  shows "fst (tooltip_attr t d) = fst d"
    and "map_of (snd (tooltip_attr t d)) =
           (case t of None \<Rightarrow> map_of (snd d) | Some fs \<Rightarrow> (map_of (snd d))(''tooltip'' \<mapsto> field_list fs))"
    and "distinct (map fst (snd d)) \<Longrightarrow> distinct (map fst (snd (tooltip_attr t d)))"
  by (auto simp: tooltip_attr_def set_encoded_def update_conv distinct_update split: option.splits)

lemma shape_attr_maps:
  assumes "shape_attr df sh lg d = Inr d'"
  shows "map_of (fst d') = (if str_of sh \<in> set (column_names df) then map_of (fst d)
                            else (map_of (fst d))(''shape'' \<mapsto> sh))"
    and "map_of (snd d') = (if str_of sh \<in> set (column_names df)
                            then (map_of (snd d))(''shape'' \<mapsto> alt_Shape (str_of sh) lg)
                            else map_of (snd d))"
    and "distinct (map fst (snd d)) \<Longrightarrow> distinct (map fst (snd d'))"
    and "is_str sh"
  using assms
  by (auto simp: shape_attr_def set_marker_def set_encoded_def update_conv distinct_update
      split: if_splits)

lemma column_or_constant_maps:
  assumes "column_or_constant key msg df v d = Inr d'"
  shows "map_of (fst d') = (if str_of v \<in> set (column_names df) then map_of (fst d)
                            else (map_of (fst d))(key \<mapsto> v))"
    and "map_of (snd d') = (if str_of v \<in> set (column_names df)
                            then (map_of (snd d))(key \<mapsto> shorthand (str_of v))
                            else map_of (snd d))"
    and "distinct (map fst (snd d)) \<Longrightarrow> distinct (map fst (snd d'))"
    and "is_str v"
  using assms
  by (auto simp: column_or_constant_def set_marker_def set_encoded_def update_conv distinct_update
      split: if_splits)

lemma node_cmap_attr_maps:
  assumes "node_cmap_attr c cm d = Inr d'"
  shows "fst d' = fst d"
    and "map_of (snd d') = (if is_str cm
                            then (map_of (snd d))(''fill'' \<mapsto> alt_Color (str_of c) (Some (str_of cm)) LegendUndefined)
                            else map_of (snd d))"
    and "distinct (map fst (snd d)) \<Longrightarrow> distinct (map fst (snd d'))"
    and "is_str cm \<or> cm = PNone"
  using assms
  by (auto simp: node_cmap_attr_def set_encoded_def update_conv distinct_update split: if_splits)

lemma map_of_fold_update:
  "map_of (fold (\<lambda>(k, v). AList.update k v) e al) = map_of al ++ map_of (rev e)"
proof (induction e arbitrary: al)
  case Nil
  then show ?case by simp
next
  case (Cons x e)
  obtain k v where x: "x = (k, v)" by (cases x)
  have "map_of (fold (\<lambda>(k, v). AList.update k v) (x # e) al)
      = map_of (AList.update k v al) ++ map_of (rev e)"
    using Cons.IH [of "AList.update k v al"] x by simp
  also have "\<dots> = map_of al ++ (map_of (rev e @ [(k, v)]))"
    by (simp add: update_conv' map_add_upd_left fun_eq_iff map_add_def split: option.splits)
  finally show ?case using x by simp
qed

lemma map_of_rev_distinct: "distinct (map fst e) \<Longrightarrow> map_of (rev e) = map_of e"
proof (induction e)
  case Nil
  then show ?case by simp
next
  case (Cons x e)
  obtain k v where x: "x = (k, v)" by (cases x)
  have "k \<notin> dom (map_of e)" using Cons.prems x by (simp add: dom_map_of_conv_image_fst)
  then show ?case using Cons x
    by (auto simp: fun_eq_iff map_add_def domIff split: option.splits)
qed

lemma encoding_of_encode:
  assumes "distinct (map fst e2)" "map_of e2 k = Some v"
  shows "encoding_of (encode (e1 @ e2) c) k = Some v"
proof -
  have "map_of (rev (e1 @ e2)) k = Some v"
    using assms by (simp add: map_of_rev_distinct map_add_def)
  then show ?thesis
    by (simp add: encoding_of_def encode_def map_of_fold_update map_add_def split: option.splits)
qed

lemma marker_of_encode_mark: "marker_of (encode e (mark kind m c)) k = map_of m k"
  by (simp add: marker_of_def encode_def mark_def)

lemma chart_data_encode_mark: "chart_data (encode e (mark kind m c)) = chart_data c"
  by (simp add: encode_def mark_def)

lemma edges_attrs_maps:
  assumes "edges_attrs df a = Inr d"
  shows "distinct (map fst (snd d))"
    and "is_str (width a) \<longrightarrow>
           map_of (snd d) ''strokeWidth'' = Some (alt_Size (str_of (width a)) (legend_of (legend a)))"
    and "\<not> is_str (width a) \<longrightarrow>
           is_float_or_int (width a) \<and> map_of (fst d) ''strokeWidth'' = Some (width a)"
    and "is_str (colour a)"
    and "str_of (colour a) \<in> set (column_names df) \<longrightarrow>
           map_of (snd d) ''color'' = Some (alt_Color (str_of (colour a))
             (if cmap a = PNone then None else Some (str_of (cmap a))) (legend_of (legend a)))"
    and "str_of (colour a) \<notin> set (column_names df) \<longrightarrow> map_of (fst d) ''color'' = Some (colour a)"
    and "is_str (alpha a) \<longrightarrow> map_of (snd d) ''opacity'' = Some (shorthand (str_of (alpha a)))"
    and "\<not> is_str (alpha a) \<and> alpha a \<noteq> PNone \<longrightarrow>
           is_float_or_int (alpha a) \<and> map_of (fst d) ''opacity'' = Some (alpha a)"
proof -
  obtain d1 d2 d3 d4 where
    s1: "width_attr ''strokeWidth'' ''width must be a string or int.'' (width a) (legend_of (legend a)) ([], []) = Inr d1"
    and s2: "line_colour df (colour a) (cmap a) (legend_of (legend a)) d1 = Inr d2"
    and s3: "opacity_attr (alpha a) d2 = Inr d3"
    and s4: "interpolate_attr (line_args.curved_edges a) (interpolation a) d3 = Inr d4"
    and s5: "d = tooltip_attr (tooltip a) d4"
    using assms unfolding edges_attrs_def by (auto dest!: and_then_Inr)
  note m1 = width_attr_maps [OF s1] and m2 = line_colour_maps [OF s2] and m3 = opacity_attr_maps [OF s3]
    and m4 = interpolate_attr_maps [OF s4] and m5 = tooltip_attr_maps [where t = "tooltip a" and d = d4]
  show "distinct (map fst (snd d))" using m1(3) m2(3) m3(3) m4(2) m5(3) s5 by simp
  show "is_str (width a) \<longrightarrow>
           map_of (snd d) ''strokeWidth'' = Some (alt_Size (str_of (width a)) (legend_of (legend a)))"
    using m1(2) m2(2) m3(2) m4(2) m5(2) s5 by (simp split: option.splits)
  show "\<not> is_str (width a) \<longrightarrow>
           is_float_or_int (width a) \<and> map_of (fst d) ''strokeWidth'' = Some (width a)"
    using m1(1,4) m2(1) m3(1) m4(1) m5(1) s5 by auto
  show "is_str (colour a)" using m2(4) .
  show "str_of (colour a) \<in> set (column_names df) \<longrightarrow>
           map_of (snd d) ''color'' = Some (alt_Color (str_of (colour a))
             (if cmap a = PNone then None else Some (str_of (cmap a))) (legend_of (legend a)))"
    using m2(2) m3(2) m4(2) m5(2) s5 by (simp split: option.splits)
  show "str_of (colour a) \<notin> set (column_names df) \<longrightarrow> map_of (fst d) ''color'' = Some (colour a)"
    using m2(1) m3(1) m4(1) m5(1) s5 by simp
  show "is_str (alpha a) \<longrightarrow> map_of (snd d) ''opacity'' = Some (shorthand (str_of (alpha a)))"
    using m3(2) m4(2) m5(2) s5 by (simp split: option.splits)
  show "\<not> is_str (alpha a) \<and> alpha a \<noteq> PNone \<longrightarrow>
           is_float_or_int (alpha a) \<and> map_of (fst d) ''opacity'' = Some (alpha a)"
    using m3(1,4) m4(1) m5(1) s5 by auto
qed

lemma arrows_attrs_maps:
  assumes "arrows_attrs df a = Inr d"
  shows "distinct (map fst (snd d))"
    and "is_str (width a) \<longrightarrow>
           map_of (snd d) ''size'' = Some (alt_Size (str_of (width a)) (legend_of (legend a)))"
    and "\<not> is_str (width a) \<longrightarrow>
           is_float_or_int (width a) \<and> map_of (fst d) ''strokeWidth'' = Some (width a)"
    and "is_str (colour a)"
    and "str_of (colour a) \<in> set (column_names df) \<longrightarrow>
           map_of (snd d) ''color'' = Some (alt_Color (str_of (colour a))
             (if cmap a = PNone then None else Some (str_of (cmap a))) (legend_of (legend a)))"
    and "str_of (colour a) \<notin> set (column_names df) \<longrightarrow> map_of (fst d) ''color'' = Some (colour a)"
    and "is_str (alpha a) \<longrightarrow> map_of (snd d) ''opacity'' = Some (shorthand (str_of (alpha a)))"
    and "\<not> is_str (alpha a) \<and> alpha a \<noteq> PNone \<longrightarrow>
           is_float_or_int (alpha a) \<and> map_of (fst d) ''opacity'' = Some (alpha a)"
proof -
  obtain d1 d2 d3 where
    s1: "width_attr ''size'' ''arrow_width must be a string or int.'' (width a) (legend_of (legend a)) ([], []) = Inr d1"
    and s2: "line_colour df (colour a) (cmap a) (legend_of (legend a)) d1 = Inr d2"
    and s3: "opacity_attr (alpha a) d2 = Inr d3"
    and s5: "d = tooltip_attr (tooltip a) d3"
    using assms unfolding arrows_attrs_def by (auto dest!: and_then_Inr)
  note m1 = width_attr_maps [OF s1] and m2 = line_colour_maps [OF s2] and m3 = opacity_attr_maps [OF s3]
    and m5 = tooltip_attr_maps [where t = "tooltip a" and d = d3]
  show "distinct (map fst (snd d))" using m1(3) m2(3) m3(3) m5(3) s5 by simp
  show "is_str (width a) \<longrightarrow>
           map_of (snd d) ''size'' = Some (alt_Size (str_of (width a)) (legend_of (legend a)))"
    using m1(2) m2(2) m3(2) m5(2) s5 by (simp split: option.splits)
  show "\<not> is_str (width a) \<longrightarrow>
           is_float_or_int (width a) \<and> map_of (fst d) ''strokeWidth'' = Some (width a)"
    using m1(1,4) m2(1) m3(1) m5(1) s5 by auto
  show "is_str (colour a)" using m2(4) .
  show "str_of (colour a) \<in> set (column_names df) \<longrightarrow>
           map_of (snd d) ''color'' = Some (alt_Color (str_of (colour a))
             (if cmap a = PNone then None else Some (str_of (cmap a))) (legend_of (legend a)))"
    using m2(2) m3(2) m5(2) s5 by (simp split: option.splits)
  show "str_of (colour a) \<notin> set (column_names df) \<longrightarrow> map_of (fst d) ''color'' = Some (colour a)"
    using m2(1) m3(1) m5(1) s5 by simp
  show "is_str (alpha a) \<longrightarrow> map_of (snd d) ''opacity'' = Some (shorthand (str_of (alpha a)))"
    using m3(2) m5(2) s5 by (simp split: option.splits)
  show "\<not> is_str (alpha a) \<and> alpha a \<noteq> PNone \<longrightarrow>
           is_float_or_int (alpha a) \<and> map_of (fst d) ''opacity'' = Some (alpha a)"
    using m3(1,4) m5(1) s5 by auto
qed

lemma nodes_attrs_maps:
  assumes "nodes_attrs df a = Inr d"
  shows "distinct (map fst (snd d))"
    and "is_str (size_py a) \<longrightarrow>
           map_of (snd d) ''size'' = Some (alt_Size (str_of (size_py a)) (legend_of (legend a)))"
    and "\<not> is_str (size_py a) \<longrightarrow> is_int (size_py a) \<and> map_of (fst d) ''size'' = Some (size_py a)"
    and "is_str (outline_width a) \<longrightarrow>
           map_of (snd d) ''strokeWidth'' = Some (alt_Size (str_of (outline_width a)) (legend_of (legend a)))"
    and "\<not> is_str (outline_width a) \<longrightarrow>
           is_float_or_int (outline_width a) \<and> map_of (fst d) ''strokeWidth'' = Some (outline_width a)"
    and "is_str (shape a)"
    and "str_of (shape a) \<in> set (column_names df) \<longrightarrow>
           map_of (snd d) ''shape'' = Some (alt_Shape (str_of (shape a)) (legend_of (legend a)))"
    and "str_of (shape a) \<notin> set (column_names df) \<longrightarrow> map_of (fst d) ''shape'' = Some (shape a)"
    and "is_str (colour a)"
    and "str_of (colour a) \<in> set (column_names df) \<and> cmap a = PNone \<longrightarrow>
           map_of (snd d) ''fill'' = Some (shorthand (str_of (colour a)))"
    and "str_of (colour a) \<notin> set (column_names df) \<longrightarrow> map_of (fst d) ''fill'' = Some (colour a)"
    and "is_str (alpha a) \<longrightarrow> map_of (snd d) ''opacity'' = Some (shorthand (str_of (alpha a)))"
    and "\<not> is_str (alpha a) \<and> alpha a \<noteq> PNone \<longrightarrow>
           is_float_or_int (alpha a) \<and> map_of (fst d) ''opacity'' = Some (alpha a)"
proof -
  obtain d1 d2 d3 d4 d5 d6 where
    s1: "size_attr ''node_size must be a string or int.'' (size_py a) (legend_of (legend a)) ([], []) = Inr d1"
    and s2: "width_attr ''strokeWidth'' ''linewidths must be a string or int.'' (outline_width a) (legend_of (legend a)) d1 = Inr d2"
    and s3: "shape_attr df (shape a) (legend_of (legend a)) d2 = Inr d3"
    and s4: "column_or_constant ''fill'' ''node_colour must be a string.'' df (colour a) d3 = Inr d4"
    and s5: "opacity_attr (alpha a) d4 = Inr d5"
    and s6: "node_cmap_attr (colour a) (cmap a) d5 = Inr d6"
    and s7: "d = tooltip_attr (tooltip a) d6"
    using assms unfolding nodes_attrs_def by (auto dest!: and_then_Inr)
  note m1 = size_attr_maps [OF s1] and m2 = width_attr_maps [OF s2] and m3 = shape_attr_maps [OF s3]
    and m4 = column_or_constant_maps [OF s4] and m5 = opacity_attr_maps [OF s5]
    and m6 = node_cmap_attr_maps [OF s6] and m7 = tooltip_attr_maps [where t = "tooltip a" and d = d6]
  show "distinct (map fst (snd d))" using m1(3) m2(3) m3(3) m4(3) m5(3) m6(3) m7(3) s7 by simp
  show "is_str (size_py a) \<longrightarrow>
           map_of (snd d) ''size'' = Some (alt_Size (str_of (size_py a)) (legend_of (legend a)))"
    using m1(2) m2(2) m3(2) m4(2) m5(2) m6(2) m7(2) s7 by (simp split: option.splits)
  show "\<not> is_str (size_py a) \<longrightarrow> is_int (size_py a) \<and> map_of (fst d) ''size'' = Some (size_py a)"
    using m1(1,4) m2(1) m3(1) m4(1) m5(1) m6(1) m7(1) s7 by auto
  show "is_str (outline_width a) \<longrightarrow>
           map_of (snd d) ''strokeWidth'' = Some (alt_Size (str_of (outline_width a)) (legend_of (legend a)))"
    using m2(2) m3(2) m4(2) m5(2) m6(2) m7(2) s7 by (simp split: option.splits)
  show "\<not> is_str (outline_width a) \<longrightarrow>
           is_float_or_int (outline_width a) \<and> map_of (fst d) ''strokeWidth'' = Some (outline_width a)"
    using m2(1,4) m3(1) m4(1) m5(1) m6(1) m7(1) s7 by auto
  show "is_str (shape a)" using m3(4) .
  show "str_of (shape a) \<in> set (column_names df) \<longrightarrow>
           map_of (snd d) ''shape'' = Some (alt_Shape (str_of (shape a)) (legend_of (legend a)))"
    using m3(2) m4(2) m5(2) m6(2) m7(2) s7 by (simp split: option.splits)
  show "str_of (shape a) \<notin> set (column_names df) \<longrightarrow> map_of (fst d) ''shape'' = Some (shape a)"
    using m3(1) m4(1) m5(1) m6(1) m7(1) s7 by simp
  show "is_str (colour a)" using m4(4) .
  show "str_of (colour a) \<in> set (column_names df) \<and> cmap a = PNone \<longrightarrow>
           map_of (snd d) ''fill'' = Some (shorthand (str_of (colour a)))"
    using m4(2) m5(2) m6(2) m7(2) s7 by (simp split: option.splits)
  show "str_of (colour a) \<notin> set (column_names df) \<longrightarrow> map_of (fst d) ''fill'' = Some (colour a)"
    using m4(1) m5(1) m6(1) m7(1) s7 by simp
  show "is_str (alpha a) \<longrightarrow> map_of (snd d) ''opacity'' = Some (shorthand (str_of (alpha a)))"
    using m5(2) m6(2) m7(2) s7 by (simp split: option.splits)
  show "\<not> is_str (alpha a) \<and> alpha a \<noteq> PNone \<longrightarrow>
           is_float_or_int (alpha a) \<and> map_of (fst d) ''opacity'' = Some (alpha a)"
    using m5(1,4) m6(1) m7(1) s7 by auto
qed

lemma labels_attrs_maps:
  assumes "labels_attrs df a = Inr d"
  shows "distinct (map fst (snd d))"
    and "is_str (label a)"
    and "str_of (label a) \<in> set (column_names df) \<longrightarrow>
           map_of (snd d) ''text'' = Some (shorthand (str_of (label a)))"
    and "str_of (label a) \<notin> set (column_names df) \<longrightarrow> map_of (fst d) ''text'' = Some (label a)"
    and "is_str (font_size a) \<longrightarrow>
           map_of (snd d) ''size'' = Some (alt_Size (str_of (font_size a)) LegendNone)"
    and "\<not> is_str (font_size a) \<longrightarrow> is_int (font_size a) \<and> map_of (fst d) ''size'' = Some (font_size a)"
    and "is_str (font_colour a)"
    and "str_of (font_colour a) \<in> set (column_names df) \<longrightarrow>
           map_of (snd d) ''fill'' = Some (shorthand (str_of (font_colour a)))"
    and "str_of (font_colour a) \<notin> set (column_names df) \<longrightarrow> map_of (fst d) ''fill'' = Some (font_colour a)"
proof -
  obtain d1 d2 where
    s1: "column_or_constant ''text'' ''label must be a string.'' df (label a) ([], []) = Inr d1"
    and s2: "size_attr ''font_size must be a string or int.'' (font_size a) LegendNone d1 = Inr d2"
    and s3: "column_or_constant ''fill'' ''font_color must be a string.'' df (font_colour a) d2 = Inr d"
    using assms unfolding labels_attrs_def by (auto dest!: and_then_Inr)
  note m1 = column_or_constant_maps [OF s1] and m2 = size_attr_maps [OF s2]
    and m3 = column_or_constant_maps [OF s3]
  show "distinct (map fst (snd d))" using m1(3) m2(3) m3(3) by simp
  show "is_str (label a)" using m1(4) .
  show "str_of (label a) \<in> set (column_names df) \<longrightarrow>
           map_of (snd d) ''text'' = Some (shorthand (str_of (label a)))"
    using m1(2) m2(2) m3(2) by simp
  show "str_of (label a) \<notin> set (column_names df) \<longrightarrow> map_of (fst d) ''text'' = Some (label a)"
    using m1(1) m2(1) m3(1) by simp
  show "is_str (font_size a) \<longrightarrow>
           map_of (snd d) ''size'' = Some (alt_Size (str_of (font_size a)) LegendNone)"
    using m2(2) m3(2) by simp
  show "\<not> is_str (font_size a) \<longrightarrow> is_int (font_size a) \<and> map_of (fst d) ''size'' = Some (font_size a)"
    using m2(1,4) m3(1) by auto
  show "is_str (font_colour a)" using m3(4) .
  show "str_of (font_colour a) \<in> set (column_names df) \<longrightarrow>
           map_of (snd d) ''fill'' = Some (shorthand (str_of (font_colour a)))"
    using m3(2) by simp
  show "str_of (font_colour a) \<notin> set (column_names df) \<longrightarrow> map_of (fst d) ''fill'' = Some (font_colour a)"
    using m3(1) by simp
qed

lemma arrows_result:
  assumes "draw_networkx_arrows ev a s = (Inr r', s')"
  shows "\<exists>c d. arrows_attrs (chart_data c) a = Inr d
     \<and> get_chart s' r' = Inr (encode ([(''x'', alt_X ''x'' None), (''y'', alt_Y ''y'' None),
         (''detail'', shorthand ''edge'')] @ snd d) (mark ''line'' (fst d) c))"
  using pipeline_result [OF assms [unfolded draw_networkx_arrows_def]]
    select_source_post loc_pair_isin_columns
  unfolding arrows_source_def by blast

lemma nodes_result:
  assumes "draw_networkx_nodes ev a s = (Inr r', s')"
  shows "\<exists>c d. nodes_attrs (chart_data c) a = Inr d
     \<and> get_chart s' r' = Inr (encode ([(''x'', alt_X ''x'' None), (''y'', alt_Y ''y'' None)] @ snd d)
                                (mark ''point'' (fst d) c))"
  using pipeline_result [OF assms [unfolded draw_networkx_nodes_def]]
    select_source_post loc_columns
  unfolding nodes_source_def by blast

lemma labels_result:
  assumes "draw_networkx_labels ev a s = (Inr r', s')"
  shows "\<exists>c d. labels_attrs (chart_data c) a = Inr d
     \<and> get_chart s' r' = Inr (encode ([(''x'', alt_X ''x'' None), (''y'', alt_Y ''y'' None)] @ snd d)
                                (mark ''text'' ((''baseline'', PStr ''middle'') # fst d) c))"
  using pipeline_result [OF assms [unfolded draw_networkx_labels_def]]
    select_source_post loc_columns
  unfolding nodes_source_def by blast

lemmas observe = encoding_of_encode marker_of_encode_mark chart_data_encode_mark

lemma edges_styling:
  assumes "draw_networkx_edges ev a s = (Inr r, s')"
  shows "\<exists>c. get_chart s' r = Inr c
     \<and> (is_str (width a) \<longrightarrow>
          encoding_of c ''strokeWidth'' = Some (alt_Size (str_of (width a)) (legend_of (legend a))))
     \<and> (\<not> is_str (width a) \<longrightarrow>
          is_float_or_int (width a) \<and> marker_of c ''strokeWidth'' = Some (width a))
     \<and> is_str (colour a)
     \<and> (str_of (colour a) \<in> set (column_names (chart_data c)) \<longrightarrow>
          encoding_of c ''color'' = Some (alt_Color (str_of (colour a))
            (if cmap a = PNone then None else Some (str_of (cmap a))) (legend_of (legend a))))
     \<and> (str_of (colour a) \<notin> set (column_names (chart_data c)) \<longrightarrow>
          marker_of c ''color'' = Some (colour a))
     \<and> (is_str (alpha a) \<longrightarrow> encoding_of c ''opacity'' = Some (shorthand (str_of (alpha a))))
     \<and> (\<not> is_str (alpha a) \<and> alpha a \<noteq> PNone \<longrightarrow>
          is_float_or_int (alpha a) \<and> marker_of c ''opacity'' = Some (alpha a))"
proof -
  obtain c d where d: "edges_attrs (chart_data c) a = Inr d"
    and c: "get_chart s' r = Inr (encode ([(''x'', alt_X ''x'' (Some [])), (''y'', alt_Y ''y'' (Some [])),
         (''detail'', shorthand ''edge''), (''order'', shorthand ''order'')] @ snd d) (mark ''line'' (fst d) c))"
    using edges_result [OF assms] by blast
  note m = edges_attrs_maps [OF d]
  define c' where "c' = encode ([(''x'', alt_X ''x'' (Some [])), (''y'', alt_Y ''y'' (Some [])),
         (''detail'', shorthand ''edge''), (''order'', shorthand ''order'')] @ snd d) (mark ''line'' (fst d) c)"
  have g: "get_chart s' r = Inr c'" using c by (simp add: c'_def)
  have en: "\<And>k v. map_of (snd d) k = Some v \<Longrightarrow> encoding_of c' k = Some v"
    unfolding c'_def by (rule encoding_of_encode [OF m(1)])
  have mk: "\<And>k. k \<noteq> ''baseline'' \<Longrightarrow> marker_of c' k = map_of (fst d) k"
    by (simp add: c'_def marker_of_encode_mark)
  have dt: "chart_data c' = chart_data c" by (simp add: c'_def chart_data_encode_mark)
  show ?thesis using g m(2-) en by (intro exI [of _ c']) (simp add: mk dt)
qed

lemma arrows_styling:
  assumes "draw_networkx_arrows ev a s = (Inr r, s')"
  shows "\<exists>c. get_chart s' r = Inr c
     \<and> (is_str (width a) \<longrightarrow>
          encoding_of c ''size'' = Some (alt_Size (str_of (width a)) (legend_of (legend a))))
     \<and> (\<not> is_str (width a) \<longrightarrow>
          is_float_or_int (width a) \<and> marker_of c ''strokeWidth'' = Some (width a))
     \<and> is_str (colour a)
     \<and> (str_of (colour a) \<in> set (column_names (chart_data c)) \<longrightarrow>
          encoding_of c ''color'' = Some (alt_Color (str_of (colour a))
            (if cmap a = PNone then None else Some (str_of (cmap a))) (legend_of (legend a))))
     \<and> (str_of (colour a) \<notin> set (column_names (chart_data c)) \<longrightarrow>
          marker_of c ''color'' = Some (colour a))
     \<and> (is_str (alpha a) \<longrightarrow> encoding_of c ''opacity'' = Some (shorthand (str_of (alpha a))))
     \<and> (\<not> is_str (alpha a) \<and> alpha a \<noteq> PNone \<longrightarrow>
          is_float_or_int (alpha a) \<and> marker_of c ''opacity'' = Some (alpha a))"
proof -
  obtain c d where d: "arrows_attrs (chart_data c) a = Inr d"
    and c: "get_chart s' r = Inr (encode ([(''x'', alt_X ''x'' None), (''y'', alt_Y ''y'' None),
         (''detail'', shorthand ''edge'')] @ snd d) (mark ''line'' (fst d) c))"
    using arrows_result [OF assms] by blast
  note m = arrows_attrs_maps [OF d]
  define c' where "c' = encode ([(''x'', alt_X ''x'' None), (''y'', alt_Y ''y'' None),
         (''detail'', shorthand ''edge'')] @ snd d) (mark ''line'' (fst d) c)"
  have g: "get_chart s' r = Inr c'" using c by (simp add: c'_def)
  have en: "\<And>k v. map_of (snd d) k = Some v \<Longrightarrow> encoding_of c' k = Some v"
    unfolding c'_def by (rule encoding_of_encode [OF m(1)])
  have mk: "\<And>k. k \<noteq> ''baseline'' \<Longrightarrow> marker_of c' k = map_of (fst d) k"
    by (simp add: c'_def marker_of_encode_mark)
  have dt: "chart_data c' = chart_data c" by (simp add: c'_def chart_data_encode_mark)
  show ?thesis using g m(2-) en by (intro exI [of _ c']) (simp add: mk dt)
qed

lemma nodes_styling:
  assumes "draw_networkx_nodes ev a s = (Inr r, s')"
  shows "\<exists>c. get_chart s' r = Inr c
     \<and> (is_str (size_py a) \<longrightarrow>
          encoding_of c ''size'' = Some (alt_Size (str_of (size_py a)) (legend_of (legend a))))
     \<and> (\<not> is_str (size_py a) \<longrightarrow> is_int (size_py a) \<and> marker_of c ''size'' = Some (size_py a))
     \<and> (is_str (outline_width a) \<longrightarrow>
          encoding_of c ''strokeWidth'' = Some (alt_Size (str_of (outline_width a)) (legend_of (legend a))))
     \<and> (\<not> is_str (outline_width a) \<longrightarrow>
          is_float_or_int (outline_width a) \<and> marker_of c ''strokeWidth'' = Some (outline_width a))
     \<and> is_str (shape a)
     \<and> (str_of (shape a) \<in> set (column_names (chart_data c)) \<longrightarrow>
          encoding_of c ''shape'' = Some (alt_Shape (str_of (shape a)) (legend_of (legend a))))
     \<and> (str_of (shape a) \<notin> set (column_names (chart_data c)) \<longrightarrow>
          marker_of c ''shape'' = Some (shape a))
     \<and> is_str (colour a)
     \<and> (str_of (colour a) \<in> set (column_names (chart_data c)) \<and> cmap a = PNone \<longrightarrow>
          encoding_of c ''fill'' = Some (shorthand (str_of (colour a))))
     \<and> (str_of (colour a) \<notin> set (column_names (chart_data c)) \<and> cmap a = PNone \<longrightarrow>
          marker_of c ''fill'' = Some (colour a))
     \<and> (is_str (alpha a) \<longrightarrow> encoding_of c ''opacity'' = Some (shorthand (str_of (alpha a))))
     \<and> (\<not> is_str (alpha a) \<and> alpha a \<noteq> PNone \<longrightarrow>
          is_float_or_int (alpha a) \<and> marker_of c ''opacity'' = Some (alpha a))"
proof -
  obtain c d where d: "nodes_attrs (chart_data c) a = Inr d"
    and c: "get_chart s' r = Inr (encode ([(''x'', alt_X ''x'' None), (''y'', alt_Y ''y'' None)] @ snd d)
                                (mark ''point'' (fst d) c))"
    using nodes_result [OF assms] by blast
  note m = nodes_attrs_maps [OF d]
  define c' where "c' = encode ([(''x'', alt_X ''x'' None), (''y'', alt_Y ''y'' None)] @ snd d)
                                (mark ''point'' (fst d) c)"
  have g: "get_chart s' r = Inr c'" using c by (simp add: c'_def)
  have en: "\<And>k v. map_of (snd d) k = Some v \<Longrightarrow> encoding_of c' k = Some v"
    unfolding c'_def by (rule encoding_of_encode [OF m(1)])
  have mk: "\<And>k. k \<noteq> ''baseline'' \<Longrightarrow> marker_of c' k = map_of (fst d) k"
    by (simp add: c'_def marker_of_encode_mark)
  have dt: "chart_data c' = chart_data c" by (simp add: c'_def chart_data_encode_mark)
  show ?thesis using g m(2-) en by (intro exI [of _ c']) (simp add: mk dt)
qed

lemma labels_styling:
  assumes "draw_networkx_labels ev a s = (Inr r, s')"
  shows "\<exists>c. get_chart s' r = Inr c
     \<and> is_str (label a)
     \<and> (str_of (label a) \<in> set (column_names (chart_data c)) \<longrightarrow>
          encoding_of c ''text'' = Some (shorthand (str_of (label a))))
     \<and> (str_of (label a) \<notin> set (column_names (chart_data c)) \<longrightarrow>
          marker_of c ''text'' = Some (label a))
     \<and> (is_str (font_size a) \<longrightarrow>
          encoding_of c ''size'' = Some (alt_Size (str_of (font_size a)) LegendNone))
     \<and> (\<not> is_str (font_size a) \<longrightarrow> is_int (font_size a) \<and> marker_of c ''size'' = Some (font_size a))
     \<and> is_str (font_colour a)
     \<and> (str_of (font_colour a) \<in> set (column_names (chart_data c)) \<longrightarrow>
          encoding_of c ''fill'' = Some (shorthand (str_of (font_colour a))))
     \<and> (str_of (font_colour a) \<notin> set (column_names (chart_data c)) \<longrightarrow>
          marker_of c ''fill'' = Some (font_colour a))"
proof -
  obtain c d where d: "labels_attrs (chart_data c) a = Inr d"
    and c: "get_chart s' r = Inr (encode ([(''x'', alt_X ''x'' None), (''y'', alt_Y ''y'' None)] @ snd d)
                                (mark ''text'' ((''baseline'', PStr ''middle'') # fst d) c))"
    using labels_result [OF assms] by blast
  note m = labels_attrs_maps [OF d]
  define c' where "c' = encode ([(''x'', alt_X ''x'' None), (''y'', alt_Y ''y'' None)] @ snd d)
                                (mark ''text'' ((''baseline'', PStr ''middle'') # fst d) c)"
  have g: "get_chart s' r = Inr c'" using c by (simp add: c'_def)
  have en: "\<And>k v. map_of (snd d) k = Some v \<Longrightarrow> encoding_of c' k = Some v"
    unfolding c'_def by (rule encoding_of_encode [OF m(1)])
  have mk: "\<And>k. k \<noteq> ''baseline'' \<Longrightarrow> marker_of c' k = map_of (fst d) k"
    by (simp add: c'_def marker_of_encode_mark)
  have dt: "chart_data c' = chart_data c" by (simp add: c'_def chart_data_encode_mark)
  show ?thesis using g m(2-) en by (intro exI [of _ c']) (simp add: mk dt)
qed

subsection \<open>Calls on a layer, and the examples\<close>

lemma edges_on_layer:
  assumes "layer a = Some l" "chart a = None" "subset_py a = PNone" "get_chart s l = Inr c"
    "edges_attrs (chart_data c) a = Inr d"
  shows "draw_networkx_edges ev a s =
     (Inr (length s), s @ [Chart (encode ([(''x'', alt_X ''x'' (Some [])), (''y'', alt_Y ''y'' (Some [])),
         (''detail'', shorthand ''edge''), (''order'', shorthand ''order'')] @ snd d) (mark ''line'' (fst d) c))])"
  using assms
  by (simp add: draw_networkx_edges_def edges_source_def select_source_layer seq_def lift_def
      restrict_def finish_def alloc_def)

lemma arrows_on_layer:
  assumes "layer a = Some l" "chart a = None" "subset_py a = PNone" "get_chart s l = Inr c"
    "arrows_attrs (chart_data c) a = Inr d"
  shows "draw_networkx_arrows ev a s =
     (Inr (length s), s @ [Chart (encode ([(''x'', alt_X ''x'' None), (''y'', alt_Y ''y'' None),
         (''detail'', shorthand ''edge'')] @ snd d) (mark ''line'' (fst d) c))])"
  using assms
  by (simp add: draw_networkx_arrows_def arrows_source_def select_source_layer seq_def lift_def
      restrict_def finish_def alloc_def)

lemma nodes_on_layer:
  assumes "layer a = Some l" "chart a = None" "subset_py a = PNone" "get_chart s l = Inr c"
    "nodes_attrs (chart_data c) a = Inr d"
  shows "draw_networkx_nodes ev a s =
     (Inr (length s), s @ [Chart (encode ([(''x'', alt_X ''x'' None), (''y'', alt_Y ''y'' None)] @ snd d)
                                  (mark ''point'' (fst d) c))])"
  using assms
  by (simp add: draw_networkx_nodes_def nodes_source_def select_source_layer seq_def lift_def
      restrict_def finish_def alloc_def)

lemma labels_on_layer:
  assumes "layer a = Some l" "chart a = None" "subset_py a = PNone" "get_chart s l = Inr c"
    "labels_attrs (chart_data c) a = Inr d"
  shows "draw_networkx_labels ev a s =
     (Inr (length s), s @ [Chart (encode ([(''x'', alt_X ''x'' None), (''y'', alt_Y ''y'' None)] @ snd d)
                                  (mark ''text'' ((''baseline'', PStr ''middle'') # fst d) c))])"
  using assms
  by (simp add: draw_networkx_labels_def nodes_source_def select_source_layer seq_def lift_def
      restrict_def finish_def alloc_def)

lemmas style_defs = size_attr_def width_attr_def shape_attr_def column_or_constant_def line_colour_def
  opacity_attr_def node_cmap_attr_def tooltip_attr_def interpolate_attr_def legend_of_def
  set_marker_def set_encoded_def and_then_def

lemma get_chart_ex:
  "get_chart ex_store 0 = Inr (alt_Chart ex_edge_frame)"
  "get_chart ex_store (Suc 0) = Inr (alt_Chart ex_node_frame)"
  "length ex_store = 2"
  by (simp_all add: get_chart_def ex_store_def)

lemma ex_cols:
  "column_names ex_node_frame = [''node'', ''x'', ''y'', ''group'', ''score'']"
  "column_names ex_edge_frame = [''edge'', ''order'', ''source'', ''target'', ''pair'', ''x'', ''y'', ''kind'', ''weight'']"
  by (simp_all add: column_names_def ex_node_frame_def ex_edge_frame_def)

lemma ex_dtypes:
  "dtypes ex_node_frame ''group'' = Inr DObject" "dtypes ex_node_frame ''score'' = Inr DNumeric"
  "dtypes ex_edge_frame ''kind'' = Inr DObject" "dtypes ex_edge_frame ''weight'' = Inr DNumeric"
  by (simp_all add: dtypes_def ex_node_frame_def ex_edge_frame_def)

lemma ex_edges_thick:
  "draw_networkx_edges ex_env (edges_defaults\<lparr>layer := Some 0, width := PStr ''thick''\<rparr>) ex_store
   = (Inr 2, ex_store @ [Chart
        \<lparr>chart_data = ex_edge_frame,
         chart_mark = Some (''line'', [(''color'', PStr ''grey''), (''opacity'', PFloat 1)]),
         chart_encoding = [(''x'', alt_X ''x'' (Some [])), (''y'', alt_Y ''y'' (Some [])),
                           (''detail'', shorthand ''edge''), (''order'', shorthand ''order''),
                           (''strokeWidth'', alt_Size ''thick'' LegendNone)]\<rparr>])"
proof -
  have a: "edges_attrs ex_edge_frame (edges_defaults\<lparr>layer := Some 0, width := PStr ''thick''\<rparr>)
      = Inr ([(''color'', PStr ''grey''), (''opacity'', PFloat 1)],
             [(''strokeWidth'', alt_Size ''thick'' LegendNone)])"
    by (simp add: edges_attrs_def edges_defaults_def style_defs ex_cols)
  show ?thesis
    using edges_on_layer [of "edges_defaults\<lparr>layer := Some 0, width := PStr ''thick''\<rparr>" 0 ex_store
        "alt_Chart ex_edge_frame" _ ex_env] a
    by (simp add: get_chart_ex edges_defaults_def alt_Chart_def encode_def mark_def)
qed

text \<open>
  Claim C7 as stated fails: the width \<^verbatim>\<open>'thick'\<close> is a literal string that names no
  column of the record set, and it becomes the encoding of \<open>strokeWidth\<close>, not an
  attribute of the mark.
\<close>

theorem string_width_constant_counterexample:
  "''thick'' \<notin> set (column_names ex_edge_frame)
   \<and> result_chart (draw_networkx_edges ex_env
        (edges_defaults\<lparr>layer := Some 0, width := PStr ''thick''\<rparr>) ex_store)
     = Some \<lparr>chart_data = ex_edge_frame,
         chart_mark = Some (''line'', [(''color'', PStr ''grey''), (''opacity'', PFloat 1)]),
         chart_encoding = [(''x'', alt_X ''x'' (Some [])), (''y'', alt_Y ''y'' (Some [])),
                           (''detail'', shorthand ''edge''), (''order'', shorthand ''order''),
                           (''strokeWidth'', alt_Size ''thick'' LegendNone)]\<rparr>"
  by (simp add: ex_edges_thick result_chart_def get_chart_def get_chart_ex ex_cols nth_append)

text \<open>
  Claim C7, as amended.  Every styling parameter is resolved on its own, whatever the
  others are, and in one of two ways.  The parameters that hold a string (colour, shape,
  label, font colour) are resolved by the columns of the record set: a string that names a
  column becomes an encoding, any other string the fixed attribute of the mark (for the
  colour of the nodes this is stated without a colour map only; for the colour of the edges
  and the arrows a colour map is the scheme of the encoding).  The
  parameters that hold a number (width, size, outline width, opacity, font size) are
  resolved by their type alone: a number becomes the fixed attribute of the mark (an int or
  a float; for the node size and the font size an int, a float being refused), and a
  string becomes an encoding whether or not it names a column.
\<close>

theorem styling_parameters_resolved:
  "(draw_networkx_edges ev a s1 = (Inr r1, t1) \<longrightarrow>
      (\<exists>c. get_chart t1 r1 = Inr c
        \<and> (is_str (width a) \<longrightarrow>
             encoding_of c ''strokeWidth'' = Some (alt_Size (str_of (width a)) (legend_of (legend a))))
        \<and> (\<not> is_str (width a) \<longrightarrow>
             is_float_or_int (width a) \<and> marker_of c ''strokeWidth'' = Some (width a))
        \<and> is_str (colour a)
        \<and> (str_of (colour a) \<in> set (column_names (chart_data c)) \<longrightarrow>
             encoding_of c ''color'' = Some (alt_Color (str_of (colour a))
               (if cmap a = PNone then None else Some (str_of (cmap a))) (legend_of (legend a))))
        \<and> (str_of (colour a) \<notin> set (column_names (chart_data c)) \<longrightarrow>
             marker_of c ''color'' = Some (colour a))
        \<and> (is_str (alpha a) \<longrightarrow> encoding_of c ''opacity'' = Some (shorthand (str_of (alpha a))))
        \<and> (\<not> is_str (alpha a) \<and> alpha a \<noteq> PNone \<longrightarrow>
             is_float_or_int (alpha a) \<and> marker_of c ''opacity'' = Some (alpha a))))
   \<and> (draw_networkx_arrows ev b s2 = (Inr r2, t2) \<longrightarrow>
      (\<exists>c. get_chart t2 r2 = Inr c
        \<and> (is_str (width b) \<longrightarrow>
             encoding_of c ''size'' = Some (alt_Size (str_of (width b)) (legend_of (legend b))))
        \<and> (\<not> is_str (width b) \<longrightarrow>
             is_float_or_int (width b) \<and> marker_of c ''strokeWidth'' = Some (width b))
        \<and> is_str (colour b)
        \<and> (str_of (colour b) \<in> set (column_names (chart_data c)) \<longrightarrow>
             encoding_of c ''color'' = Some (alt_Color (str_of (colour b))
               (if cmap b = PNone then None else Some (str_of (cmap b))) (legend_of (legend b))))
        \<and> (str_of (colour b) \<notin> set (column_names (chart_data c)) \<longrightarrow>
             marker_of c ''color'' = Some (colour b))
        \<and> (is_str (alpha b) \<longrightarrow> encoding_of c ''opacity'' = Some (shorthand (str_of (alpha b))))
        \<and> (\<not> is_str (alpha b) \<and> alpha b \<noteq> PNone \<longrightarrow>
             is_float_or_int (alpha b) \<and> marker_of c ''opacity'' = Some (alpha b))))
   \<and> (draw_networkx_nodes ev n s3 = (Inr r3, t3) \<longrightarrow>
      (\<exists>c. get_chart t3 r3 = Inr c
        \<and> (is_str (size_py n) \<longrightarrow>
             encoding_of c ''size'' = Some (alt_Size (str_of (size_py n)) (legend_of (legend n))))
        \<and> (\<not> is_str (size_py n) \<longrightarrow> is_int (size_py n) \<and> marker_of c ''size'' = Some (size_py n))
        \<and> (is_str (outline_width n) \<longrightarrow>
             encoding_of c ''strokeWidth'' = Some (alt_Size (str_of (outline_width n)) (legend_of (legend n))))
        \<and> (\<not> is_str (outline_width n) \<longrightarrow>
             is_float_or_int (outline_width n) \<and> marker_of c ''strokeWidth'' = Some (outline_width n))
        \<and> is_str (shape n)
        \<and> (str_of (shape n) \<in> set (column_names (chart_data c)) \<longrightarrow>
             encoding_of c ''shape'' = Some (alt_Shape (str_of (shape n)) (legend_of (legend n))))
        \<and> (str_of (shape n) \<notin> set (column_names (chart_data c)) \<longrightarrow>
             marker_of c ''shape'' = Some (shape n))
        \<and> is_str (colour n)
        \<and> (str_of (colour n) \<in> set (column_names (chart_data c)) \<and> cmap n = PNone \<longrightarrow>
             encoding_of c ''fill'' = Some (shorthand (str_of (colour n))))
        \<and> (str_of (colour n) \<notin> set (column_names (chart_data c)) \<and> cmap n = PNone \<longrightarrow>
             marker_of c ''fill'' = Some (colour n))
        \<and> (is_str (alpha n) \<longrightarrow> encoding_of c ''opacity'' = Some (shorthand (str_of (alpha n))))
        \<and> (\<not> is_str (alpha n) \<and> alpha n \<noteq> PNone \<longrightarrow>
             is_float_or_int (alpha n) \<and> marker_of c ''opacity'' = Some (alpha n))))
   \<and> (draw_networkx_labels ev l s4 = (Inr r4, t4) \<longrightarrow>
      (\<exists>c. get_chart t4 r4 = Inr c
        \<and> is_str (label l)
        \<and> (str_of (label l) \<in> set (column_names (chart_data c)) \<longrightarrow>
             encoding_of c ''text'' = Some (shorthand (str_of (label l))))
        \<and> (str_of (label l) \<notin> set (column_names (chart_data c)) \<longrightarrow>
             marker_of c ''text'' = Some (label l))
        \<and> (is_str (font_size l) \<longrightarrow>
             encoding_of c ''size'' = Some (alt_Size (str_of (font_size l)) LegendNone))
        \<and> (\<not> is_str (font_size l) \<longrightarrow> is_int (font_size l) \<and> marker_of c ''size'' = Some (font_size l))
        \<and> is_str (font_colour l)
        \<and> (str_of (font_colour l) \<in> set (column_names (chart_data c)) \<longrightarrow>
             encoding_of c ''fill'' = Some (shorthand (str_of (font_colour l))))
        \<and> (str_of (font_colour l) \<notin> set (column_names (chart_data c)) \<longrightarrow>
             marker_of c ''fill'' = Some (font_colour l))))"
  by (intro conjI impI; (erule edges_styling | erule arrows_styling | erule nodes_styling
        | erule labels_styling))

lemma get_chart_fresh: "get_chart (s @ [Chart c]) (length s) = Inr c"
  by (simp add: get_chart_def)

lemma ex_fresh: "get_chart (ex_store @ [Chart c]) 2 = Inr c"
  using get_chart_fresh [of ex_store c] by (simp add: get_chart_ex)

text \<open>The four hypotheses hold for calls on the layers of \<open>ex_store\<close>.\<close>

theorem styling_parameters_resolved_witness:
  "(\<exists>c. get_chart (snd (draw_networkx_edges ex_env
              (edges_defaults\<lparr>layer := Some 0, colour := PStr ''kind''\<rparr>) ex_store)) 2 = Inr c
        \<and> marker_of c ''strokeWidth'' = Some (PInt 1)
        \<and> encoding_of c ''color'' = Some (alt_Color ''kind'' None LegendNone))
   \<and> (\<exists>c. get_chart (snd (draw_networkx_arrows ex_env
              (arrows_defaults\<lparr>layer := Some 0\<rparr>) ex_store)) 2 = Inr c
        \<and> marker_of c ''strokeWidth'' = Some (PInt 1)
        \<and> marker_of c ''color'' = Some (PStr ''grey''))
   \<and> (\<exists>c. get_chart (snd (draw_networkx_nodes ex_env
              (nodes_defaults\<lparr>layer := Some 1, size_py := PStr ''score''\<rparr>) ex_store)) 2 = Inr c
        \<and> encoding_of c ''size'' = Some (alt_Size ''score'' LegendNone)
        \<and> marker_of c ''fill'' = Some (PStr ''teal''))
   \<and> (\<exists>c. get_chart (snd (draw_networkx_labels ex_env
              (labels_defaults\<lparr>layer := Some 1, label := PStr ''node''\<rparr>) ex_store)) 2 = Inr c
        \<and> encoding_of c ''text'' = Some (shorthand ''node'')
        \<and> marker_of c ''size'' = Some (PInt 15))"
proof -
  let ?ea = "edges_defaults\<lparr>layer := Some 0, colour := PStr ''kind''\<rparr>"
  let ?aa = "arrows_defaults\<lparr>layer := Some 0\<rparr>"
  let ?na = "nodes_defaults\<lparr>layer := Some 1, size_py := PStr ''score''\<rparr>"
  let ?la = "labels_defaults\<lparr>layer := Some 1, label := PStr ''node''\<rparr>"
  have ae: "edges_attrs ex_edge_frame ?ea
      = Inr ([(''strokeWidth'', PInt 1), (''opacity'', PFloat 1)],
             [(''color'', alt_Color ''kind'' None LegendNone)])"
    by (simp add: edges_attrs_def edges_defaults_def style_defs ex_cols)
  have aa: "arrows_attrs ex_edge_frame ?aa
      = Inr ([(''strokeWidth'', PInt 1), (''color'', PStr ''grey''), (''opacity'', PFloat 1)], [])"
    by (simp add: arrows_attrs_def arrows_defaults_def style_defs ex_cols)
  have an: "nodes_attrs ex_node_frame ?na
      = Inr ([(''strokeWidth'', PFloat 1), (''shape'', PStr ''circle''), (''fill'', PStr ''teal''),
              (''opacity'', PFloat 1)],
             [(''size'', alt_Size ''score'' LegendNone)])"
    by (simp add: nodes_attrs_def nodes_defaults_def style_defs ex_cols)
  have al: "labels_attrs ex_node_frame ?la
      = Inr ([(''size'', PInt 15), (''fill'', PStr ''black'')], [(''text'', shorthand ''node'')])"
    by (simp add: labels_attrs_def labels_defaults_def style_defs ex_cols)
  have re: "\<exists>c. draw_networkx_edges ex_env ?ea ex_store = (Inr 2, ex_store @ [Chart c])
      \<and> chart_data c = ex_edge_frame"
    using edges_on_layer [of ?ea 0 ex_store "alt_Chart ex_edge_frame" _ ex_env] ae
    by (simp add: get_chart_ex edges_defaults_def alt_Chart_def chart_data_encode_mark)
  have ra: "\<exists>c. draw_networkx_arrows ex_env ?aa ex_store = (Inr 2, ex_store @ [Chart c])
      \<and> chart_data c = ex_edge_frame"
    using arrows_on_layer [of ?aa 0 ex_store "alt_Chart ex_edge_frame" _ ex_env] aa
    by (simp add: get_chart_ex arrows_defaults_def alt_Chart_def chart_data_encode_mark)
  have rn: "\<exists>c. draw_networkx_nodes ex_env ?na ex_store = (Inr 2, ex_store @ [Chart c])
      \<and> chart_data c = ex_node_frame"
    using nodes_on_layer [of ?na 1 ex_store "alt_Chart ex_node_frame" _ ex_env] an
    by (simp add: get_chart_ex nodes_defaults_def alt_Chart_def chart_data_encode_mark)
  have rl: "\<exists>c. draw_networkx_labels ex_env ?la ex_store = (Inr 2, ex_store @ [Chart c])
      \<and> chart_data c = ex_node_frame"
    using labels_on_layer [of ?la 1 ex_store "alt_Chart ex_node_frame" _ ex_env] al
    by (simp add: get_chart_ex labels_defaults_def alt_Chart_def chart_data_encode_mark)
  obtain ce where ce: "draw_networkx_edges ex_env ?ea ex_store = (Inr 2, ex_store @ [Chart ce])"
      "chart_data ce = ex_edge_frame" using re by blast
  obtain ca where ca: "draw_networkx_arrows ex_env ?aa ex_store = (Inr 2, ex_store @ [Chart ca])"
      "chart_data ca = ex_edge_frame" using ra by blast
  obtain cn where cn: "draw_networkx_nodes ex_env ?na ex_store = (Inr 2, ex_store @ [Chart cn])"
      "chart_data cn = ex_node_frame" using rn by blast
  obtain cl where cl: "draw_networkx_labels ex_env ?la ex_store = (Inr 2, ex_store @ [Chart cl])"
      "chart_data cl = ex_node_frame" using rl by blast
  note t = styling_parameters_resolved [of ex_env ?ea ex_store 2 "ex_store @ [Chart ce]"
      ?aa ex_store 2 "ex_store @ [Chart ca]" ?na ex_store 2 "ex_store @ [Chart cn]"
      ?la ex_store 2 "ex_store @ [Chart cl]"]
  have "\<exists>c. get_chart (ex_store @ [Chart ce]) 2 = Inr c
        \<and> marker_of c ''strokeWidth'' = Some (PInt 1)
        \<and> encoding_of c ''color'' = Some (alt_Color ''kind'' None LegendNone)"
    using t ce by (simp add: ex_fresh edges_defaults_def ex_cols legend_of_def)
  moreover have "\<exists>c. get_chart (ex_store @ [Chart ca]) 2 = Inr c
        \<and> marker_of c ''strokeWidth'' = Some (PInt 1)
        \<and> marker_of c ''color'' = Some (PStr ''grey'')"
    using t ca by (simp add: ex_fresh arrows_defaults_def ex_cols legend_of_def)
  moreover have "\<exists>c. get_chart (ex_store @ [Chart cn]) 2 = Inr c
        \<and> encoding_of c ''size'' = Some (alt_Size ''score'' LegendNone)
        \<and> marker_of c ''fill'' = Some (PStr ''teal'')"
    using t cn by (simp add: ex_fresh nodes_defaults_def ex_cols legend_of_def)
  moreover have "\<exists>c. get_chart (ex_store @ [Chart cl]) 2 = Inr c
        \<and> encoding_of c ''text'' = Some (shorthand ''node'')
        \<and> marker_of c ''size'' = Some (PInt 15)"
    using t cl by (simp add: ex_fresh labels_defaults_def ex_cols)
  ultimately show ?thesis using ce ca cn cl by simp
qed

subsection \<open>Precedence of the data sources\<close>

lemma finish_chart:
  "finish r kind m e (Some cr) k s =
     (case finish r kind m e None k s of
        (Inl err, s') \<Rightarrow> (Inl err, s')
      | (Inr r', s') \<Rightarrow>
          (case set_layer_at s' cr k r' of Inl err \<Rightarrow> (Inl err, s') | Inr s'' \<Rightarrow> (Inr r', s'')))"
  by (simp add: finish_def alloc_def split: sum.splits)

lemmas attrs_defs = edges_attrs_def arrows_attrs_def nodes_attrs_def labels_attrs_def

lemma edges_precedence:
  "draw_networkx_edges ev (a\<lparr>layer := Some l, G := g, pos := p\<rparr>) s
     = draw_networkx_edges ev (a\<lparr>layer := Some l, G := None, pos := None\<rparr>) s"
  "draw_networkx_edges ev (a\<lparr>layer := None, chart := Some c, G := g, pos := p\<rparr>) s
     = draw_networkx_edges ev (a\<lparr>layer := None, chart := Some c, G := None, pos := None\<rparr>) s"
  "draw_networkx_edges ev (a\<lparr>layer := Some l, chart := Some c\<rparr>) s =
     (case draw_networkx_edges ev (a\<lparr>layer := Some l, chart := None\<rparr>) s of
        (Inl err, s') \<Rightarrow> (Inl err, s')
      | (Inr r', s') \<Rightarrow>
          (case set_layer_at s' c 0 r' of Inl err \<Rightarrow> (Inl err, s') | Inr s'' \<Rightarrow> (Inr r', s'')))"
    by (simp_all add: draw_networkx_edges_def source_defs select_source_layer select_source_chart
      attrs_defs seq_def lift_def finish_chart split: sum.splits prod.splits)

lemma arrows_precedence:
  "draw_networkx_arrows ev (a\<lparr>layer := Some l, G := g, pos := p\<rparr>) s
     = draw_networkx_arrows ev (a\<lparr>layer := Some l, G := None, pos := None\<rparr>) s"
  "draw_networkx_arrows ev (a\<lparr>layer := None, chart := Some c, G := g, pos := p\<rparr>) s
     = draw_networkx_arrows ev (a\<lparr>layer := None, chart := Some c, G := None, pos := None\<rparr>) s"
  "draw_networkx_arrows ev (a\<lparr>layer := Some l, chart := Some c\<rparr>) s =
     (case draw_networkx_arrows ev (a\<lparr>layer := Some l, chart := None\<rparr>) s of
        (Inl err, s') \<Rightarrow> (Inl err, s')
      | (Inr r', s') \<Rightarrow>
          (case set_layer_at s' c 0 r' of Inl err \<Rightarrow> (Inl err, s') | Inr s'' \<Rightarrow> (Inr r', s'')))"
    by (simp_all add: draw_networkx_arrows_def source_defs select_source_layer select_source_chart
      attrs_defs seq_def lift_def finish_chart split: sum.splits prod.splits)

lemma nodes_precedence:
  "draw_networkx_nodes ev (a\<lparr>layer := Some l, G := g, pos := p\<rparr>) s
     = draw_networkx_nodes ev (a\<lparr>layer := Some l, G := None, pos := None\<rparr>) s"
  "draw_networkx_nodes ev (a\<lparr>layer := None, chart := Some c, G := g, pos := p\<rparr>) s
     = draw_networkx_nodes ev (a\<lparr>layer := None, chart := Some c, G := None, pos := None\<rparr>) s"
  "draw_networkx_nodes ev (a\<lparr>layer := Some l, chart := Some c\<rparr>) s =
     (case draw_networkx_nodes ev (a\<lparr>layer := Some l, chart := None\<rparr>) s of
        (Inl err, s') \<Rightarrow> (Inl err, s')
      | (Inr r', s') \<Rightarrow>
          (case set_layer_at s' c 1 r' of Inl err \<Rightarrow> (Inl err, s') | Inr s'' \<Rightarrow> (Inr r', s'')))"
    by (simp_all add: draw_networkx_nodes_def source_defs select_source_layer select_source_chart
      attrs_defs seq_def lift_def finish_chart split: sum.splits prod.splits)

lemma labels_precedence:
  "draw_networkx_labels ev (a\<lparr>layer := Some l, G := g, pos := p\<rparr>) s
     = draw_networkx_labels ev (a\<lparr>layer := Some l, G := None, pos := None\<rparr>) s"
  "draw_networkx_labels ev (a\<lparr>layer := None, chart := Some c, G := g, pos := p\<rparr>) s
     = draw_networkx_labels ev (a\<lparr>layer := None, chart := Some c, G := None, pos := None\<rparr>) s"
  "draw_networkx_labels ev (a\<lparr>layer := Some l, chart := Some c\<rparr>) s =
     (case draw_networkx_labels ev (a\<lparr>layer := Some l, chart := None\<rparr>) s of
        (Inl err, s') \<Rightarrow> (Inl err, s')
      | (Inr r', s') \<Rightarrow>
          (case set_layer_at s' c 1 r' of Inl err \<Rightarrow> (Inl err, s') | Inr s'' \<Rightarrow> (Inr r', s'')))"
    by (simp_all add: draw_networkx_labels_def source_defs select_source_layer select_source_chart
      attrs_defs seq_def lift_def finish_chart split: sum.splits prod.splits)

subsection \<open>The label of draw_networkx_labels\<close>

text \<open>
  Claim C10, as amended.  A call of \<^verbatim>\<open>draw_networkx_labels\<close> whose label is not a string
  (the default \<^verbatim>\<open>None\<close> included) returns no chart: it fails with the error of the source
  selection or of the subset restriction when one of these fails first, and otherwise with
  the TypeError of the label, raised before the mark and the encodings are built.
\<close>

theorem labels_without_string_label_fail:
  assumes "\<not> is_str (label a)"
  shows "draw_networkx_labels ev a s =
           seq (nodes_source ev a s) (\<lambda>src s.
           seq (restrict loc ''node_subset must be a list or None.'' (subset_py a) (fst src) (snd src) s) (\<lambda>df s.
           (Inl (TypeError ''label must be a string.''), s)))
         \<and> (\<exists>e. fst (draw_networkx_labels ev a s) = Inl e)"
proof -
  have 1: "\<And>df. labels_attrs df a = Inl (TypeError ''label must be a string.'')"
    using assms by (simp add: labels_attrs_def column_or_constant_def and_then_def)
  have 2: "draw_networkx_labels ev a s =
           seq (nodes_source ev a s) (\<lambda>src s.
           seq (restrict loc ''node_subset must be a list or None.'' (subset_py a) (fst src) (snd src) s) (\<lambda>df s.
           (Inl (TypeError ''label must be a string.''), s)))"
    by (simp add: draw_networkx_labels_def 1 seq_def lift_def)
  have "\<exists>e. fst (draw_networkx_labels ev a s) = Inl e"
    unfolding 2 by (auto simp: seq_def split: sum.splits)
  with 2 show ?thesis by blast
qed

text \<open>
  Claim C10 as stated fails: the call with all defaults has a label that is not a string
  and raises the ValueError of the source selection, not a TypeError.
\<close>

theorem labels_default_call_counterexample:
  "\<not> is_str (label labels_defaults)
   \<and> draw_networkx_labels ex_env labels_defaults []
       = (Inl (ValueError ''one of G, chart or layer is required to draw.''), [])"
  by (simp add: labels_defaults_def draw_networkx_labels_def nodes_source_def select_source_def seq_def)

text \<open>On a layer, the default label is refused with the TypeError.\<close>

theorem labels_without_string_label_fail_witness:
  "\<not> is_str (label (labels_defaults\<lparr>layer := Some 1\<rparr>))
   \<and> draw_networkx_labels ex_env (labels_defaults\<lparr>layer := Some 1\<rparr>) ex_store
       = (Inl (TypeError ''label must be a string.''), ex_store)"
  using labels_without_string_label_fail [of "labels_defaults\<lparr>layer := Some 1\<rparr>" ex_env ex_store]
  by (simp add: labels_defaults_def nodes_source_def select_source_layer get_chart_ex seq_def restrict_def)

subsection \<open>Subsets with identifiers that the data do not have\<close>

lemma seq_Inr: "seq (Inr v, s) f = f v s"
  by (simp add: seq_def)

lemma seq_Inl: "seq (Inl e, s) f = (Inl e, s)"
  by (simp add: seq_def)

lemma source_ignores_subset:
  "edges_source ev (a\<lparr>subset_py := x\<rparr>) s = edges_source ev a s"
  "arrows_source ev (b\<lparr>subset_py := x\<rparr>) s = arrows_source ev b s"
  "nodes_source ev (c\<lparr>subset_py := x\<rparr>) s = nodes_source ev c s"
  by (simp_all add: source_defs select_source_def split: option.splits sum.splits)

lemma attrs_ignore_subset:
  "edges_attrs df (a\<lparr>subset_py := x\<rparr>) = edges_attrs df a"
  "arrows_attrs df (b\<lparr>subset_py := x\<rparr>) = arrows_attrs df b"
  "nodes_attrs df (c\<lparr>subset_py := x\<rparr>) = nodes_attrs df c"
  "labels_attrs df (d\<lparr>subset_py := x\<rparr>) = labels_attrs df d"
  by (simp_all add: attrs_defs)

lemma loc_pair_isin_present:
  "loc_pair_isin df (filter (\<lambda>z. z \<in> (\<lambda>rw. cell rw ''pair'') ` set (rows df)) zs)
     = loc_pair_isin df zs"
proof -
  have "filter (\<lambda>r. cell r ''pair'' \<in> set zs \<and> cell r ''pair'' \<in> (\<lambda>rw. cell rw ''pair'') ` set (rows df)) (rows df)
      = filter (\<lambda>r. cell r ''pair'' \<in> set zs) (rows df)"
    by (rule filter_cong) auto
  then show ?thesis by (simp add: loc_pair_isin_def)
qed

lemma restrict_pairs_present:
  "restrict loc_pair_isin msg (PList (filter (\<lambda>z. z \<in> (\<lambda>rw. cell rw ''pair'') ` set (rows df)) zs)) df r s
     = restrict loc_pair_isin msg (PList zs) df r s"
  by (simp add: restrict_def loc_pair_isin_present)

lemma loc_absent: "y \<in> set zs \<Longrightarrow> y \<notin> fst ` set (rows df) \<Longrightarrow> loc df zs = Inl KeyError"
  by (auto simp: loc_def list_all_iff)

lemma edges_absent_pairs:
  assumes "edges_source ev a s = (Inr (df, r), s1)"
  shows "draw_networkx_edges ev (a\<lparr>subset_py := PList zs\<rparr>) s
     = draw_networkx_edges ev
         (a\<lparr>subset_py := PList (filter (\<lambda>z. z \<in> (\<lambda>rw. cell rw ''pair'') ` set (rows df)) zs)\<rparr>) s"
  using assms
  by (simp add: draw_networkx_edges_def source_ignores_subset attrs_ignore_subset seq_Inr
      restrict_pairs_present)

lemma arrows_absent_pairs:
  assumes "arrows_source ev a s = (Inr (df, r), s1)"
  shows "draw_networkx_arrows ev (a\<lparr>subset_py := PList zs\<rparr>) s
     = draw_networkx_arrows ev
         (a\<lparr>subset_py := PList (filter (\<lambda>z. z \<in> (\<lambda>rw. cell rw ''pair'') ` set (rows df)) zs)\<rparr>) s"
  using assms
  by (simp add: draw_networkx_arrows_def source_ignores_subset attrs_ignore_subset seq_Inr
      restrict_pairs_present)

lemma nodes_absent_label:
  assumes "nodes_source ev a s = (Inr (df, r), s1)" "y \<in> set zs" "y \<notin> fst ` set (rows df)"
  shows "draw_networkx_nodes ev (a\<lparr>subset_py := PList zs\<rparr>) s = (Inl KeyError, s1)"
  using assms
  by (simp add: draw_networkx_nodes_def source_ignores_subset seq_Inr seq_Inl restrict_def loc_absent)

lemma labels_absent_label:
  assumes "nodes_source ev a s = (Inr (df, r), s1)" "y \<in> set zs" "y \<notin> fst ` set (rows df)"
  shows "draw_networkx_labels ev (a\<lparr>subset_py := PList zs\<rparr>) s = (Inl KeyError, s1)"
  using assms
  by (simp add: draw_networkx_labels_def source_ignores_subset seq_Inr seq_Inl restrict_def loc_absent)

text \<open>
  Claim C8, as amended.  In the edge and the arrow functions the subset selects the rows
  whose pair is in the list, so the identifiers that no row has match nothing: the call
  equals the call with these identifiers left out.  In the node and the label functions the
  subset is a lookup of index labels, and a label that no row has raises KeyError.
\<close>

theorem subset_of_absent_identifiers:
  "(edges_source ev a s1 = (Inr (df1, r1), t1) \<longrightarrow>
      draw_networkx_edges ev (a\<lparr>subset_py := PList zs\<rparr>) s1
        = draw_networkx_edges ev
            (a\<lparr>subset_py := PList (filter (\<lambda>z. z \<in> (\<lambda>rw. cell rw ''pair'') ` set (rows df1)) zs)\<rparr>) s1)
   \<and> (arrows_source ev b s2 = (Inr (df2, r2), t2) \<longrightarrow>
      draw_networkx_arrows ev (b\<lparr>subset_py := PList zs\<rparr>) s2
        = draw_networkx_arrows ev
            (b\<lparr>subset_py := PList (filter (\<lambda>z. z \<in> (\<lambda>rw. cell rw ''pair'') ` set (rows df2)) zs)\<rparr>) s2)
   \<and> (nodes_source ev n s3 = (Inr (df3, r3), t3) \<and> y \<in> set zs \<and> y \<notin> fst ` set (rows df3) \<longrightarrow>
      draw_networkx_nodes ev (n\<lparr>subset_py := PList zs\<rparr>) s3 = (Inl KeyError, t3))
   \<and> (nodes_source ev l s4 = (Inr (df4, r4), t4) \<and> y \<in> set zs \<and> y \<notin> fst ` set (rows df4) \<longrightarrow>
      draw_networkx_labels ev (l\<lparr>subset_py := PList zs\<rparr>) s4 = (Inl KeyError, t4))"
  apply (intro conjI impI)
     apply (erule edges_absent_pairs)
    apply (erule arrows_absent_pairs)
   apply (elim conjE, erule (2) nodes_absent_label)
  apply (elim conjE, erule (2) labels_absent_label)
  done

lemma ex_sources:
  "edges_source ex_env (edges_defaults\<lparr>layer := Some 0\<rparr>) ex_store = (Inr (ex_edge_frame, 0), ex_store)"
  "arrows_source ex_env (arrows_defaults\<lparr>layer := Some 0\<rparr>) ex_store = (Inr (ex_edge_frame, 0), ex_store)"
  "nodes_source ex_env (nodes_defaults\<lparr>layer := Some (Suc 0)\<rparr>) ex_store = (Inr (ex_node_frame, Suc 0), ex_store)"
  "nodes_source ex_env (labels_defaults\<lparr>layer := Some (Suc 0)\<rparr>) ex_store = (Inr (ex_node_frame, Suc 0), ex_store)"
  by (simp_all add: source_defs select_source_layer get_chart_ex alt_Chart_def
      edges_defaults_def arrows_defaults_def nodes_defaults_def labels_defaults_def)

lemma ex_rows:
  "(\<lambda>rw. cell rw ''pair'') ` set (rows ex_edge_frame) = {PTuple [PStr ''A'', PStr ''B'']}"
  "fst ` set (rows ex_node_frame) = {PStr ''A'', PStr ''B''}"
  by (simp_all add: ex_edge_frame_def ex_node_frame_def cell_def)

text \<open>
  Claim C8 as stated fails for the nodes: \<^verbatim>\<open>Z\<close> is no node of the record set, and
  the subset that names it raises KeyError.
\<close>

theorem node_subset_absent_counterexample:
  "PStr ''Z'' \<notin> fst ` set (rows ex_node_frame)
   \<and> draw_networkx_nodes ex_env
        (nodes_defaults\<lparr>layer := Some 1, subset_py := PList [PStr ''A'', PStr ''Z'']\<rparr>) ex_store
      = (Inl KeyError, ex_store)"
  by (simp add: ex_rows draw_networkx_nodes_def source_ignores_subset ex_sources seq_Inr seq_Inl
      restrict_def loc_def)

text \<open>The four hypotheses hold on the layers of \<open>ex_store\<close>, for a subset that names
  an edge that is there and one that is not.\<close>

theorem subset_of_absent_identifiers_witness:
  "draw_networkx_edges ex_env (edges_defaults\<lparr>layer := Some 0,
       subset_py := PList [PTuple [PStr ''A'', PStr ''B''], PTuple [PStr ''B'', PStr ''Z'']]\<rparr>) ex_store
     = draw_networkx_edges ex_env (edges_defaults\<lparr>layer := Some 0,
       subset_py := PList [PTuple [PStr ''A'', PStr ''B'']]\<rparr>) ex_store
   \<and> draw_networkx_arrows ex_env (arrows_defaults\<lparr>layer := Some 0,
       subset_py := PList [PTuple [PStr ''A'', PStr ''B''], PTuple [PStr ''B'', PStr ''Z'']]\<rparr>) ex_store
     = draw_networkx_arrows ex_env (arrows_defaults\<lparr>layer := Some 0,
       subset_py := PList [PTuple [PStr ''A'', PStr ''B'']]\<rparr>) ex_store
   \<and> draw_networkx_nodes ex_env (nodes_defaults\<lparr>layer := Some 1,
       subset_py := PList [PTuple [PStr ''A'', PStr ''B''], PTuple [PStr ''B'', PStr ''Z'']]\<rparr>) ex_store
     = (Inl KeyError, ex_store)
   \<and> draw_networkx_labels ex_env (labels_defaults\<lparr>layer := Some 1,
       subset_py := PList [PTuple [PStr ''A'', PStr ''B''], PTuple [PStr ''B'', PStr ''Z'']]\<rparr>) ex_store
     = (Inl KeyError, ex_store)"
  using subset_of_absent_identifiers [where ev = ex_env and zs = "[PTuple [PStr ''A'', PStr ''B''], PTuple [PStr ''B'', PStr ''Z'']]"
      and a = "edges_defaults\<lparr>layer := Some 0\<rparr>" and ?s1.0 = ex_store and ?df1.0 = ex_edge_frame
      and ?r1.0 = 0 and ?t1.0 = ex_store
      and b = "arrows_defaults\<lparr>layer := Some 0\<rparr>" and ?s2.0 = ex_store and ?df2.0 = ex_edge_frame
      and ?r2.0 = 0 and ?t2.0 = ex_store
      and n = "nodes_defaults\<lparr>layer := Some (Suc 0)\<rparr>" and ?s3.0 = ex_store and ?df3.0 = ex_node_frame
      and ?r3.0 = "Suc 0" and ?t3.0 = ex_store
      and l = "labels_defaults\<lparr>layer := Some (Suc 0)\<rparr>" and ?s4.0 = ex_store and ?df4.0 = ex_node_frame
      and ?r4.0 = "Suc 0" and ?t4.0 = ex_store and y = "PTuple [PStr ''B'', PStr ''Z'']"]
  by (simp add: ex_sources ex_rows)

subsection \<open>Colour maps\<close>

lemma line_colour_cmap_object:
  assumes "c \<in> set (column_names df)" "dtypes df c = Inr DObject"
  shows "line_colour df (PStr c) (PStr cm) lg d
     = Inl (TypeError (''the edge attribute ('' @ c @ '') to use with cmap '' @ cm @ '' is non-numeric.''))"
  using assms by (simp add: line_colour_def)

lemma line_colour_cmap_numeric:
  assumes "c \<in> set (column_names df)" "dtypes df c = Inr DNumeric"
  shows "line_colour df (PStr c) (PStr cm) lg d = Inr (set_encoded ''color'' (alt_Color c (Some cm) lg) d)"
  using assms by (simp add: line_colour_def)

lemma edges_cmap_string_column_fails:
  assumes "edges_source ev a s = (Inr (df, r), s1)" "subset_py a = PNone"
    "colour a = PStr c" "cmap a = PStr cm" "c \<in> set (column_names df)" "dtypes df c = Inr DObject"
    "is_str (width a) \<or> is_float_or_int (width a)"
  shows "draw_networkx_edges ev a s
     = (Inl (TypeError (''the edge attribute ('' @ c @ '') to use with cmap '' @ cm @ '' is non-numeric.'')), s1)"
  using assms
  by (auto simp: draw_networkx_edges_def seq_Inr seq_Inl lift_def restrict_def edges_attrs_def
      and_then_def width_attr_def line_colour_cmap_object)

lemma arrows_cmap_string_column_fails:
  assumes "arrows_source ev a s = (Inr (df, r), s1)" "subset_py a = PNone"
    "colour a = PStr c" "cmap a = PStr cm" "c \<in> set (column_names df)" "dtypes df c = Inr DObject"
    "is_str (width a) \<or> is_float_or_int (width a)"
  shows "draw_networkx_arrows ev a s
     = (Inl (TypeError (''the edge attribute ('' @ c @ '') to use with cmap '' @ cm @ '' is non-numeric.'')), s1)"
  using assms
  by (auto simp: draw_networkx_arrows_def seq_Inr seq_Inl lift_def restrict_def arrows_attrs_def
      and_then_def width_attr_def line_colour_cmap_object)

lemma ex_edges_cmap:
  "draw_networkx_edges ex_env
     (edges_defaults\<lparr>layer := Some 0, colour := PStr ''kind'', cmap := PStr ''viridis''\<rparr>) ex_store
   = (Inl (TypeError ''the edge attribute (kind) to use with cmap viridis is non-numeric.''), ex_store)"
  "result_chart (draw_networkx_edges ex_env
     (edges_defaults\<lparr>layer := Some 0, colour := PStr ''weight'', cmap := PStr ''viridis''\<rparr>) ex_store)
   = Some \<lparr>chart_data = ex_edge_frame,
           chart_mark = Some (''line'', [(''strokeWidth'', PInt 1), (''opacity'', PFloat 1)]),
           chart_encoding = [(''x'', alt_X ''x'' (Some [])), (''y'', alt_Y ''y'' (Some [])),
                             (''detail'', shorthand ''edge''), (''order'', shorthand ''order''),
                             (''color'', alt_Color ''weight'' (Some ''viridis'') LegendNone)]\<rparr>"
proof -
  let ?a = "edges_defaults\<lparr>layer := Some 0, colour := PStr ''kind'', cmap := PStr ''viridis''\<rparr>"
  let ?b = "edges_defaults\<lparr>layer := Some 0, colour := PStr ''weight'', cmap := PStr ''viridis''\<rparr>"
  have src: "edges_source ex_env ?a ex_store = (Inr (ex_edge_frame, 0), ex_store)"
    by (simp add: source_defs select_source_layer get_chart_ex alt_Chart_def)
  show "draw_networkx_edges ex_env ?a ex_store
     = (Inl (TypeError ''the edge attribute (kind) to use with cmap viridis is non-numeric.''), ex_store)"
    using edges_cmap_string_column_fails [OF src, of "''kind''" "''viridis''"]
    by (simp add: edges_defaults_def ex_cols ex_dtypes)
  have at: "edges_attrs ex_edge_frame ?b
      = Inr ([(''strokeWidth'', PInt 1), (''opacity'', PFloat 1)],
             [(''color'', alt_Color ''weight'' (Some ''viridis'') LegendNone)])"
    by (simp add: edges_attrs_def edges_defaults_def style_defs ex_cols ex_dtypes)
  show "result_chart (draw_networkx_edges ex_env ?b ex_store)
   = Some \<lparr>chart_data = ex_edge_frame,
           chart_mark = Some (''line'', [(''strokeWidth'', PInt 1), (''opacity'', PFloat 1)]),
           chart_encoding = [(''x'', alt_X ''x'' (Some [])), (''y'', alt_Y ''y'' (Some [])),
                             (''detail'', shorthand ''edge''), (''order'', shorthand ''order''),
                             (''color'', alt_Color ''weight'' (Some ''viridis'') LegendNone)]\<rparr>"
    using edges_on_layer [of ?b 0 ex_store "alt_Chart ex_edge_frame" _ ex_env] at
    by (simp add: get_chart_ex edges_defaults_def alt_Chart_def encode_def mark_def result_chart_def
        get_chart_fresh [of ex_store, simplified get_chart_ex])
qed

text \<open>
  Claim C4 at the nodes.  The colour \<^verbatim>\<open>group\<close> is a column of strings; with the colour map
  \<^verbatim>\<open>viridis\<close> the edge and the arrow functions raise the TypeError above, and
  \<^verbatim>\<open>draw_networkx_nodes\<close> returns a chart whose fill is encoded through the colour map.
\<close>

theorem nodes_cmap_accepts_string_column:
  "dtypes ex_node_frame ''group'' = Inr DObject
   \<and> result_chart (draw_networkx_nodes ex_env
        (nodes_defaults\<lparr>layer := Some 1, colour := PStr ''group'', cmap := PStr ''viridis''\<rparr>) ex_store)
     = Some \<lparr>chart_data = ex_node_frame,
             chart_mark = Some (''point'', [(''size'', PInt 400), (''strokeWidth'', PFloat 1),
                                            (''shape'', PStr ''circle''), (''opacity'', PFloat 1)]),
             chart_encoding = [(''x'', alt_X ''x'' None), (''y'', alt_Y ''y'' None),
                               (''fill'', alt_Color ''group'' (Some ''viridis'') LegendUndefined)]\<rparr>"
proof -
  let ?a = "nodes_defaults\<lparr>layer := Some 1, colour := PStr ''group'', cmap := PStr ''viridis''\<rparr>"
  have at: "nodes_attrs ex_node_frame ?a
      = Inr ([(''size'', PInt 400), (''strokeWidth'', PFloat 1), (''shape'', PStr ''circle''),
              (''opacity'', PFloat 1)],
             [(''fill'', alt_Color ''group'' (Some ''viridis'') LegendUndefined)])"
    by (simp add: nodes_attrs_def nodes_defaults_def style_defs ex_cols)
  show ?thesis
    using nodes_on_layer [of ?a 1 ex_store "alt_Chart ex_node_frame" _ ex_env] at
    by (simp add: get_chart_ex nodes_defaults_def alt_Chart_def encode_def mark_def result_chart_def
        ex_dtypes get_chart_fresh [of ex_store, simplified get_chart_ex])
qed

subsection \<open>draw_networkx on a graph that the filtering empties\<close>

lemma lift_Inr: "seq (lift (Inr v) s) f = f v s"
  by (simp add: seq_def lift_def)

lemma lift_Inl: "seq (lift (Inl e) s) f = (Inl e, s)"
  by (simp add: seq_def lift_def)

lemma edge_layers_empty: "edges gr = [] \<Longrightarrow> edge_layers ev a g p gr s = (Inr [], s)"
  by (simp add: edge_layers_def)

lemma node_layers_empty: "nodes gr = [] \<Longrightarrow> node_layers ev a g p gr s = (Inr [], s)"
  by (simp add: node_layers_def)

text \<open>
  Claim C5.  When the graph that the filtering step leaves has no nodes and no edges,
  \<^verbatim>\<open>draw_networkx\<close> returns an error and no chart, whatever the other arguments are; the
  store is then the one that the filtering left.
\<close>

theorem empty_graph_fails:
  assumes "filter_graph (show_self_loops a) (show_orphans a) (G a) s = (Inr g, s1)"
    and "graph_of g s1 = Inr gr" and "nodes gr = []" and "edges gr = []"
  shows "\<exists>e. draw_networkx ev a s = (Inl e, s1)"
proof (cases "pos_or_layout ev (pos a) g s1")
  case (Inl e)
  then show ?thesis using assms by (simp add: draw_networkx_def seq_Inr lift_Inl)
next
  case (Inr p)
  show ?thesis
  proof (cases "scale_coordinates p (chart_width a) (chart_height a)")
    case (Inl e)
    then show ?thesis using assms Inr by (simp add: draw_networkx_def seq_Inr lift_Inl lift_Inr)
  next
    case sc: (Inr q)
    show ?thesis using assms Inr sc
      by (simp add: draw_networkx_def seq_Inr lift_Inr edge_layers_empty node_layers_empty)
  qed
qed

lemma ex_orphan_filtered:
  "filter_graph False False (Some 0) [Graph ex_orphan_graph]
     = (Inr (Some 1), [Graph ex_orphan_graph, Graph \<lparr>nodes = [], edges = [], directed = False\<rparr>])"
  by (simp add: filter_graph_def get_graph_def alloc_def update_graph_def ex_orphan_graph_def
      remove_edges_from_def selfloop_edges_def remove_nodes_from_def isolates_def)

text \<open>The node of \<open>ex_orphan_graph\<close> is an orphan once its self-loop is removed; the
  filtered copy is empty.\<close>

theorem empty_graph_fails_witness:
  "filter_graph False False (Some 0) [Graph ex_orphan_graph]
     = (Inr (Some 1), [Graph ex_orphan_graph, Graph \<lparr>nodes = [], edges = [], directed = False\<rparr>])
   \<and> (\<exists>e. draw_networkx ex_env
          (networkx_defaults\<lparr>G := Some 0, pos := Some ex_pos, show_orphans := False, show_self_loops := False\<rparr>)
          [Graph ex_orphan_graph]
        = (Inl e, [Graph ex_orphan_graph, Graph \<lparr>nodes = [], edges = [], directed = False\<rparr>]))"
  using empty_graph_fails [of "networkx_defaults\<lparr>G := Some 0, pos := Some ex_pos, show_orphans := False, show_self_loops := False\<rparr>"
      "[Graph ex_orphan_graph]" "Some 1" "[Graph ex_orphan_graph, Graph \<lparr>nodes = [], edges = [], directed = False\<rparr>]"
      "\<lparr>nodes = [], edges = [], directed = False\<rparr>" ex_env]
  by (simp add: ex_orphan_filtered networkx_defaults_def graph_of_def get_graph_def)

subsection \<open>Calls on a graph\<close>

lemma scale_coordinates_keys:
  assumes "p \<noteq> []" "0 < w" "0 < h"
  shows "\<exists>p'. scale_coordinates p (Some w) (Some h) = Inr (p', w, h) \<and> map fst p' = map fst p"
  using assms
  by (auto simp: scale_coordinates_def resolve_width_def resolve_height_def stretch_def unit_scale_def
      case_prod_unfold comp_def)

lemma map_of_key: "n \<in> fst ` set p \<Longrightarrow> \<exists>xy. map_of p n = Some xy"
  by (cases "map_of p n") (auto simp: map_of_eq_None_iff)

lemma select_source_on_graph:
  assumes "layer a = None" "chart a = None" "G a = Some g" "get_graph s g = Inr gr"
    "pos a = Some p" "pr gr p = Inr df"
  shows "select_source pr k ev a s = (Inr (df, length s), s @ [Chart (alt_Chart df)])"
  using assms by (simp add: select_source_def alloc_def)

lemma finish_fresh:
  "finish (length s) kind m e None k (s @ [Chart c])
     = (Inr (Suc (length s)), s @ [Chart c, Chart (encode e (mark kind m c))])"
  by (simp add: finish_def get_chart_fresh alloc_def)

lemma edges_on_graph:
  assumes "layer a = None" "chart a = None" "G a = Some g" "get_graph s g = Inr gr" "pos a = Some p"
    "to_pandas_edges ev gr p (effective_control_points (line_args.curved_edges a) (control_points a))
       (edges_args.loop_radius a) (edges_args.loop_angle a) (edges_args.loop_n_points a) = Inr df"
    "subset_py a = PNone" "edges_attrs df a = Inr d"
  shows "draw_networkx_edges ev a s =
     (Inr (Suc (length s)),
      s @ [Chart (alt_Chart df),
           Chart (encode ([(''x'', alt_X ''x'' (Some [])), (''y'', alt_Y ''y'' (Some [])),
                           (''detail'', shorthand ''edge''), (''order'', shorthand ''order'')] @ snd d)
                    (mark ''line'' (fst d) (alt_Chart df)))])"
  using assms
  by (simp add: draw_networkx_edges_def edges_source_def select_source_on_graph seq_Inr lift_Inr
      restrict_def finish_fresh)

lemma arrows_on_graph:
  assumes "layer a = None" "chart a = None" "G a = Some g" "get_graph s g = Inr gr" "pos a = Some p"
    "to_pandas_edge_arrows ev gr p (length_py a) (length_is_relative a)
       (effective_control_points (line_args.curved_edges a) (control_points a)) = Inr df"
    "subset_py a = PNone" "arrows_attrs df a = Inr d"
  shows "draw_networkx_arrows ev a s =
     (Inr (Suc (length s)),
      s @ [Chart (alt_Chart df),
           Chart (encode ([(''x'', alt_X ''x'' None), (''y'', alt_Y ''y'' None),
                           (''detail'', shorthand ''edge'')] @ snd d)
                    (mark ''line'' (fst d) (alt_Chart df)))])"
  using assms
  by (simp add: draw_networkx_arrows_def arrows_source_def select_source_on_graph seq_Inr lift_Inr
      restrict_def finish_fresh)

lemma nodes_on_graph:
  assumes "layer a = None" "chart a = None" "G a = Some g" "get_graph s g = Inr gr" "pos a = Some p"
    "to_pandas_nodes gr p = Inr df" "subset_py a = PNone" "nodes_attrs df a = Inr d"
  shows "draw_networkx_nodes ev a s =
     (Inr (Suc (length s)),
      s @ [Chart (alt_Chart df),
           Chart (encode ([(''x'', alt_X ''x'' None), (''y'', alt_Y ''y'' None)] @ snd d)
                    (mark ''point'' (fst d) (alt_Chart df)))])"
  using assms
  by (simp add: draw_networkx_nodes_def nodes_source_def select_source_on_graph seq_Inr lift_Inr
      restrict_def finish_fresh)

lemma path_edges_frame:
  assumes "map_of p ''A'' = Some a" "map_of p ''B'' = Some b" "map_of p ''C'' = Some c"
  shows "\<exists>df. to_pandas_edges ev ex_path_graph p None lr la npts = Inr df
     \<and> length (rows df) = 4
     \<and> column_names df = [''edge'', ''order'', ''source'', ''target'', ''pair'', ''x'', ''y'']
     \<and> map (\<lambda>rw. cell rw ''pair'') (rows df)
        = [PTuple [PStr ''A'', PStr ''B''], PTuple [PStr ''A'', PStr ''B''],
           PTuple [PStr ''B'', PStr ''C''], PTuple [PStr ''B'', PStr ''C'']]"
  using assms
  by (simp add: to_pandas_edges_def ex_path_graph_def edge_path_def edge_cells_def attr_keys_def
      make_frame_def column_names_def cell_def upt_rec_numeral)

lemma path_arrows_frame:
  assumes "map_of p ''A'' = Some a" "map_of p ''B'' = Some b" "map_of p ''C'' = Some c"
  shows "\<exists>df. to_pandas_edge_arrows ev ex_path_graph p len rel None = Inr df
     \<and> length (rows df) = 4
     \<and> column_names df = [''edge'', ''source'', ''target'', ''pair'', ''x'', ''y'']
     \<and> map (\<lambda>rw. cell rw ''pair'') (rows df)
        = [PTuple [PStr ''A'', PStr ''B''], PTuple [PStr ''A'', PStr ''B''],
           PTuple [PStr ''B'', PStr ''C''], PTuple [PStr ''B'', PStr ''C'']]"
  using assms
  by (simp add: to_pandas_edge_arrows_def ex_path_graph_def arrow_path_def arrow_cells_def attr_keys_def
      make_frame_def column_names_def cell_def upt_rec_numeral case_prod_unfold)

lemma path_nodes_frame:
  assumes "map_of p ''A'' = Some a" "map_of p ''B'' = Some b" "map_of p ''C'' = Some c"
  shows "\<exists>df. to_pandas_nodes ex_path_graph p = Inr df
     \<and> length (rows df) = 3
     \<and> column_names df = [''node'', ''x'', ''y'']
     \<and> map fst (rows df) = [PStr ''A'', PStr ''B'', PStr ''C'']"
  using assms
  by (simp add: to_pandas_nodes_def ex_path_graph_def node_cells_def attr_keys_def
      make_frame_def column_names_def)

subsection \<open>The directed path of three nodes\<close>

lemma path_edge_layers:
  assumes pa: "map_of p ''A'' = Some a" and pb: "map_of p ''B'' = Some b" and pc: "map_of p ''C'' = Some c"
    and g: "get_graph s 0 = Inr ex_path_graph"
  shows "\<exists>dfe ce dfa ca.
      edge_layers ev (networkx_defaults\<lparr>G := Some 0\<rparr>) (Some 0) p ex_path_graph s
        = (Inr [Suc (length s), Suc (Suc (Suc (length s)))],
           s @ [Chart (alt_Chart dfe), Chart ce, Chart (alt_Chart dfa), Chart ca])
      \<and> chart_data ce = dfe \<and> length (rows dfe) = 4
      \<and> column_names dfe = [''edge'', ''order'', ''source'', ''target'', ''pair'', ''x'', ''y'']
      \<and> map_option fst (chart_mark ce) = Some ''line''
      \<and> chart_data ca = dfa \<and> length (rows dfa) = 4
      \<and> column_names dfa = [''edge'', ''source'', ''target'', ''pair'', ''x'', ''y'']
      \<and> map_option fst (chart_mark ca) = Some ''line''"
proof -
  let ?ec = "edges_call (Some 0) p None PNone (PInt 1) (PStr ''grey'') PNone (PFloat 1) None False
      (5 / 100) 90 30 False None (PStr ''basis'')"
  let ?ac = "arrows_call (Some 0) p None PNone (PInt 2) (1 / 10) True (PStr ''black'') PNone (PFloat 1)
      None False False None"
  obtain dfe where dfe: "to_pandas_edges ev ex_path_graph p None (5 / 100) 90 30 = Inr dfe"
      "length (rows dfe) = 4"
      "column_names dfe = [''edge'', ''order'', ''source'', ''target'', ''pair'', ''x'', ''y'']"
    using path_edges_frame [OF pa pb pc] by blast
  obtain dfa where dfa: "to_pandas_edge_arrows ev ex_path_graph p (1 / 10) True None = Inr dfa"
      "length (rows dfa) = 4"
      "column_names dfa = [''edge'', ''source'', ''target'', ''pair'', ''x'', ''y'']"
    using path_arrows_frame [OF pa pb pc] by blast
  have ae: "edges_attrs dfe ?ec
      = Inr ([(''strokeWidth'', PInt 1), (''color'', PStr ''grey''), (''opacity'', PFloat 1)], [])"
    by (simp add: edges_attrs_def edges_call_def style_defs dfe)
  have aa: "arrows_attrs dfa ?ac
      = Inr ([(''strokeWidth'', PInt 2), (''color'', PStr ''black''), (''opacity'', PFloat 1)], [])"
    by (simp add: arrows_attrs_def arrows_call_def style_defs dfa)
  define ce where "ce = encode ([(''x'', alt_X ''x'' (Some [])), (''y'', alt_Y ''y'' (Some [])),
      (''detail'', shorthand ''edge''), (''order'', shorthand ''order'')])
      (mark ''line'' [(''strokeWidth'', PInt 1), (''color'', PStr ''grey''), (''opacity'', PFloat 1)] (alt_Chart dfe))"
  define ca where "ca = encode ([(''x'', alt_X ''x'' None), (''y'', alt_Y ''y'' None),
      (''detail'', shorthand ''edge'')])
      (mark ''line'' [(''strokeWidth'', PInt 2), (''color'', PStr ''black''), (''opacity'', PFloat 1)] (alt_Chart dfa))"
  have e: "draw_networkx_edges ev ?ec s = (Inr (Suc (length s)), s @ [Chart (alt_Chart dfe), Chart ce])"
    using edges_on_graph [of ?ec 0 s ex_path_graph p ev dfe, OF _ _ _ g _ _ _ ae] dfe(1)
    by (simp add: edges_call_def effective_control_points_def ce_def)
  have g2: "get_graph (s @ [Chart (alt_Chart dfe), Chart ce]) 0 = Inr ex_path_graph"
    using g by (auto simp: get_graph_def nth_append split: if_splits)
  have a: "draw_networkx_arrows ev ?ac (s @ [Chart (alt_Chart dfe), Chart ce])
      = (Inr (Suc (Suc (Suc (length s)))), s @ [Chart (alt_Chart dfe), Chart ce, Chart (alt_Chart dfa), Chart ca])"
    using arrows_on_graph [of ?ac 0 "s @ [Chart (alt_Chart dfe), Chart ce]" ex_path_graph p ev dfa,
        OF _ _ _ g2 _ _ _ aa] dfa(1)
    by (simp add: arrows_call_def effective_control_points_def ca_def)
  have "edge_layers ev (networkx_defaults\<lparr>G := Some 0\<rparr>) (Some 0) p ex_path_graph s
        = (Inr [Suc (length s), Suc (Suc (Suc (length s)))],
           s @ [Chart (alt_Chart dfe), Chart ce, Chart (alt_Chart dfa), Chart ca])"
    using e a by (simp add: edge_layers_def networkx_defaults_def seq_Inr ex_path_graph_def)
  moreover have "chart_data ce = dfe" "map_option fst (chart_mark ce) = Some ''line''"
    by (simp_all add: ce_def encode_def mark_def alt_Chart_def)
  moreover have "chart_data ca = dfa" "map_option fst (chart_mark ca) = Some ''line''"
    by (simp_all add: ca_def encode_def mark_def alt_Chart_def)
  ultimately show ?thesis using dfe dfa by blast
qed

lemma path_node_layers:
  assumes pa: "map_of p ''A'' = Some a" and pb: "map_of p ''B'' = Some b" and pc: "map_of p ''C'' = Some c"
    and g: "get_graph s 0 = Inr ex_path_graph"
  shows "\<exists>dfn cn.
      node_layers ev (networkx_defaults\<lparr>G := Some 0\<rparr>) (Some 0) p ex_path_graph s
        = (Inr [Suc (length s)], s @ [Chart (alt_Chart dfn), Chart cn])
      \<and> chart_data cn = dfn \<and> length (rows dfn) = 3
      \<and> column_names dfn = [''node'', ''x'', ''y'']
      \<and> map_option fst (chart_mark cn) = Some ''point''"
proof -
  let ?nc = "nodes_call (Some 0) p None PNone (PInt 400) (PFloat 1) (PStr ''circle'') (PStr ''teal'')
      PNone (PFloat 1) None False"
  obtain dfn where dfn: "to_pandas_nodes ex_path_graph p = Inr dfn" "length (rows dfn) = 3"
      "column_names dfn = [''node'', ''x'', ''y'']"
    using path_nodes_frame [OF pa pb pc] by blast
  have an: "nodes_attrs dfn ?nc
      = Inr ([(''size'', PInt 400), (''strokeWidth'', PFloat 1), (''shape'', PStr ''circle''),
              (''fill'', PStr ''teal''), (''opacity'', PFloat 1)], [])"
    by (simp add: nodes_attrs_def nodes_call_def style_defs dfn)
  define cn where "cn = encode ([(''x'', alt_X ''x'' None), (''y'', alt_Y ''y'' None)])
      (mark ''point'' [(''size'', PInt 400), (''strokeWidth'', PFloat 1), (''shape'', PStr ''circle''),
              (''fill'', PStr ''teal''), (''opacity'', PFloat 1)] (alt_Chart dfn))"
  have n: "draw_networkx_nodes ev ?nc s = (Inr (Suc (length s)), s @ [Chart (alt_Chart dfn), Chart cn])"
    using nodes_on_graph [of ?nc 0 s ex_path_graph p dfn _ ev, OF _ _ _ g _ _ _ an] dfn(1)
    by (simp add: nodes_call_def cn_def)
  have "node_layers ev (networkx_defaults\<lparr>G := Some 0\<rparr>) (Some 0) p ex_path_graph s
        = (Inr [Suc (length s)], s @ [Chart (alt_Chart dfn), Chart cn])"
    using n by (simp add: node_layers_def networkx_defaults_def seq_Inr ex_path_graph_def)
  moreover have "chart_data cn = dfn" "map_option fst (chart_mark cn) = Some ''point''"
    by (simp_all add: cn_def encode_def mark_def alt_Chart_def)
  ultimately show ?thesis using dfn by blast
qed

lemma path_graph_run:
  assumes "{''A'', ''B'', ''C''} \<subseteq> fst ` set (kamada_kawai_layout ev ex_path_graph)"
  shows "\<exists>s' ce ca cn.
      draw_networkx ev (networkx_defaults\<lparr>G := Some 0\<rparr>) [Graph ex_path_graph] = (Inr 7, s')
      \<and> get_layer_chart s' 7 = Inr \<lparr>lc_layer = [2, 4, 6], lc_width = Some 500, lc_height = Some 300\<rparr>
      \<and> get_chart s' 2 = Inr ce \<and> map_option fst (chart_mark ce) = Some ''line''
      \<and> column_names (chart_data ce) = [''edge'', ''order'', ''source'', ''target'', ''pair'', ''x'', ''y'']
      \<and> length (rows (chart_data ce)) = 4
      \<and> get_chart s' 4 = Inr ca \<and> map_option fst (chart_mark ca) = Some ''line''
      \<and> column_names (chart_data ca) = [''edge'', ''source'', ''target'', ''pair'', ''x'', ''y'']
      \<and> length (rows (chart_data ca)) = 4
      \<and> get_chart s' 6 = Inr cn \<and> map_option fst (chart_mark cn) = Some ''point''
      \<and> column_names (chart_data cn) = [''node'', ''x'', ''y'']
      \<and> length (rows (chart_data cn)) = 3"
proof -
  let ?a = "networkx_defaults\<lparr>G := Some 0\<rparr>"
  let ?s = "[Graph ex_path_graph]"
  define P where "P = kamada_kawai_layout ev ex_path_graph"
  have ne: "P \<noteq> []" using assms by (auto simp: P_def)
  obtain p where sc: "scale_coordinates P (Some 500) (Some 300) = Inr (p, 500, 300)"
    and keys: "map fst p = map fst P"
    using scale_coordinates_keys [OF ne, of 500 300] by auto
  have "fst ` set p = fst ` set P" using keys by (metis set_map)
  then have "''A'' \<in> fst ` set p" "''B'' \<in> fst ` set p" "''C'' \<in> fst ` set p"
    using assms by (auto simp: P_def)
  then obtain a b c where pa: "map_of p ''A'' = Some a" and pb: "map_of p ''B'' = Some b"
    and pc: "map_of p ''C'' = Some c"
    using map_of_key by metis
  have g0: "get_graph ?s 0 = Inr ex_path_graph" by (simp add: get_graph_def)
  obtain dfe ce dfa ca where el:
      "edge_layers ev ?a (Some 0) p ex_path_graph ?s
        = (Inr [Suc (length ?s), Suc (Suc (Suc (length ?s)))],
           ?s @ [Chart (alt_Chart dfe), Chart ce, Chart (alt_Chart dfa), Chart ca])"
      and ce: "chart_data ce = dfe" "length (rows dfe) = 4"
        "column_names dfe = [''edge'', ''order'', ''source'', ''target'', ''pair'', ''x'', ''y'']"
        "map_option fst (chart_mark ce) = Some ''line''"
      and ca: "chart_data ca = dfa" "length (rows dfa) = 4"
        "column_names dfa = [''edge'', ''source'', ''target'', ''pair'', ''x'', ''y'']"
        "map_option fst (chart_mark ca) = Some ''line''"
    using path_edge_layers [OF pa pb pc g0, of ev] by blast
  let ?s4 = "?s @ [Chart (alt_Chart dfe), Chart ce, Chart (alt_Chart dfa), Chart ca]"
  have g4: "get_graph ?s4 0 = Inr ex_path_graph" by (simp add: get_graph_def)
  obtain dfn cn where nl:
      "node_layers ev ?a (Some 0) p ex_path_graph ?s4
        = (Inr [Suc (length ?s4)], ?s4 @ [Chart (alt_Chart dfn), Chart cn])"
      and cn: "chart_data cn = dfn" "length (rows dfn) = 3" "column_names dfn = [''node'', ''x'', ''y'']"
        "map_option fst (chart_mark cn) = Some ''point''"
    using path_node_layers [OF pa pb pc g4, of ev] by blast
  let ?s' = "[Graph ex_path_graph, Chart (alt_Chart dfe), Chart ce, Chart (alt_Chart dfa), Chart ca,
      Chart (alt_Chart dfn), Chart cn,
      LayerChart \<lparr>lc_layer = [2, 4, 6], lc_width = Some 500, lc_height = Some 300\<rparr>]"
  have fg: "filter_graph True True (Some 0) ?s = (Inr (Some 0), ?s)"
    by (simp add: filter_graph_def)
  have pl: "pos_or_layout ev None (Some 0) ?s = Inr P"
    by (simp add: pos_or_layout_def graph_of_def get_graph_def P_def)
  have "draw_networkx ev ?a ?s = (Inr 7, ?s')"
    using el nl
    by (simp add: draw_networkx_def networkx_defaults_def fg pl sc seq_Inr lift_Inr graph_of_def
        get_graph_def alloc_def)
  moreover have "get_layer_chart ?s' 7 = Inr \<lparr>lc_layer = [2, 4, 6], lc_width = Some 500, lc_height = Some 300\<rparr>"
    "get_chart ?s' 2 = Inr ce" "get_chart ?s' 4 = Inr ca" "get_chart ?s' 6 = Inr cn"
    by (simp_all add: get_layer_chart_def get_chart_def)
  ultimately show ?thesis using ce ca cn by blast
qed

text \<open>
  Claim C2, as amended.  For the directed path from A over B to C, drawn with the default
  arguments and a layout that places the three nodes, the layered chart has exactly three
  layers, in this order: the edges (4 rows, two edges of two points), the arrows (4 rows,
  two arrows of two points) and the nodes (3 rows).  There is no label layer, and the chart
  has the default size of 500 by 300.
\<close>

theorem path_graph_three_layers:
  assumes "{''A'', ''B'', ''C''} \<subseteq> fst ` set (kamada_kawai_layout ev ex_path_graph)"
  shows "\<exists>s' ce ca cn.
      draw_networkx ev (networkx_defaults\<lparr>G := Some 0\<rparr>) [Graph ex_path_graph] = (Inr 7, s')
      \<and> get_layer_chart s' 7 = Inr \<lparr>lc_layer = [2, 4, 6], lc_width = Some 500, lc_height = Some 300\<rparr>
      \<and> get_chart s' 2 = Inr ce \<and> map_option fst (chart_mark ce) = Some ''line''
      \<and> column_names (chart_data ce) = [''edge'', ''order'', ''source'', ''target'', ''pair'', ''x'', ''y'']
      \<and> length (rows (chart_data ce)) = 4
      \<and> get_chart s' 4 = Inr ca \<and> map_option fst (chart_mark ca) = Some ''line''
      \<and> column_names (chart_data ca) = [''edge'', ''source'', ''target'', ''pair'', ''x'', ''y'']
      \<and> length (rows (chart_data ca)) = 4
      \<and> get_chart s' 6 = Inr cn \<and> map_option fst (chart_mark cn) = Some ''point''
      \<and> column_names (chart_data cn) = [''node'', ''x'', ''y'']
      \<and> length (rows (chart_data cn)) = 3"
  using assms by (rule path_graph_run)

lemma ex_env_layout:
  "kamada_kawai_layout ex_env ex_path_graph = [(''A'', (0, 0)), (''B'', (1, 1)), (''C'', (2, 4))]"
  by (simp add: ex_env_def ex_path_graph_def upt_rec_numeral)

text \<open>Claim C2 as stated fails: the layered chart has three layers, not four.\<close>

theorem path_graph_four_layers_counterexample:
  "result_layers (draw_networkx ex_env (networkx_defaults\<lparr>G := Some 0\<rparr>) [Graph ex_path_graph])
     = Some [2, 4, 6]
   \<and> map_option length
       (result_layers (draw_networkx ex_env (networkx_defaults\<lparr>G := Some 0\<rparr>) [Graph ex_path_graph]))
     \<noteq> Some 4"
proof -
  obtain s' where "draw_networkx ex_env (networkx_defaults\<lparr>G := Some 0\<rparr>) [Graph ex_path_graph] = (Inr 7, s')"
    "get_layer_chart s' 7 = Inr \<lparr>lc_layer = [2, 4, 6], lc_width = Some 500, lc_height = Some 300\<rparr>"
    using path_graph_run [of ex_env] by (auto simp: ex_env_layout)
  then show ?thesis by (simp add: result_layers_def)
qed

text \<open>The layout of \<open>ex_env\<close> places the three nodes.\<close>

theorem path_graph_three_layers_witness:
  "{''A'', ''B'', ''C''} \<subseteq> fst ` set (kamada_kawai_layout ex_env ex_path_graph)
   \<and> (\<exists>s' ce ca cn.
      draw_networkx ex_env (networkx_defaults\<lparr>G := Some 0\<rparr>) [Graph ex_path_graph] = (Inr 7, s')
      \<and> get_layer_chart s' 7 = Inr \<lparr>lc_layer = [2, 4, 6], lc_width = Some 500, lc_height = Some 300\<rparr>
      \<and> get_chart s' 2 = Inr ce \<and> length (rows (chart_data ce)) = 4
      \<and> get_chart s' 4 = Inr ca \<and> length (rows (chart_data ca)) = 4
      \<and> get_chart s' 6 = Inr cn \<and> length (rows (chart_data cn)) = 3)"
proof -
  have h: "{''A'', ''B'', ''C''} \<subseteq> fst ` set (kamada_kawai_layout ex_env ex_path_graph)"
    by (simp add: ex_env_layout)
  show ?thesis using h path_graph_three_layers [OF h] by blast
qed

subsection \<open>The data that are drawn\<close>

text \<open>The store after a run: the data of the layer are restricted in place, the returned chart
  is a new object, and a chart given by the caller has one layer replaced.\<close>

lemma get_layer_chart_set_data:
  "get_layer_chart (set_data s l df) cr = get_layer_chart s cr"
  by (auto simp: set_data_def get_chart_def get_layer_chart_def nth_list_update
      split: sum.splits if_splits obj.splits)

lemma get_layer_chart_append: "get_layer_chart s cr = Inr lc \<Longrightarrow> get_layer_chart (s @ ext) cr = Inr lc"
  by (auto simp: get_layer_chart_def nth_append split: if_splits)

lemma set_layer_at_ok:
  assumes "get_layer_chart s cr = Inr lc" "k < length (lc_layer lc)"
  shows "\<exists>t. set_layer_at s cr k r = Inr t \<and> layer_at t cr k = Inr r \<and> length t = length s
     \<and> (\<forall>j. j \<noteq> cr \<longrightarrow> t ! j = s ! j)
     \<and> (\<forall>j. j \<noteq> k \<longrightarrow> layer_at t cr j = layer_at s cr j)"
  using assms
  by (auto simp: set_layer_at_def layer_at_def get_layer_chart_def split: if_splits obj.splits)

lemma layer_at_cong: "get_layer_chart s cr = get_layer_chart t cr \<Longrightarrow> layer_at s cr j = layer_at t cr j"
  by (simp add: layer_at_def)

lemma restrict_ok:
  assumes c0: "get_chart s l = Inr c0" "chart_data c0 = df"
    and sub: "(sub = PNone \<and> df' = df) \<or> (is_list sub \<and> sel df (list_of sub) = Inr df')"
  shows "\<exists>s2 c2. restrict sel msg sub df l s = (Inr df', s2) \<and> get_chart s2 l = Inr c2
     \<and> c2 = c0\<lparr>chart_data := df'\<rparr> \<and> chart_data c2 = df' \<and> length s2 = length s
     \<and> (\<forall>cr. get_layer_chart s2 cr = get_layer_chart s cr)"
proof -
  from sub show ?thesis
  proof
    assume "sub = PNone \<and> df' = df"
    then show ?thesis using c0 by (simp add: restrict_def)
  next
    assume a: "is_list sub \<and> sel df (list_of sub) = Inr df'"
    have "get_chart (set_data s l df') l = Inr (c0\<lparr>chart_data := df'\<rparr>)"
      using c0(1) by (rule get_chart_set_data)
    moreover have "length (set_data s l df') = length s"
      by (simp add: set_data_def split: sum.splits)
    ultimately show ?thesis using a by (simp add: restrict_def get_layer_chart_set_data)
  qed
qed

lemma pipeline_forward:
  assumes src: "src = (Inr (df, l), s1)" and c0: "get_chart s1 l = Inr c0" "chart_data c0 = df"
    and sub: "(sub = PNone \<and> df' = df) \<or> (is_list sub \<and> sel df (list_of sub) = Inr df')"
    and at: "attrs df' = Inr d"
    and ch: "\<forall>cr. ch = Some cr \<longrightarrow> (\<exists>lc. get_layer_chart s1 cr = Inr lc \<and> k < length (lc_layer lc))"
  shows "\<exists>r t c. seq src (\<lambda>x s. seq (restrict sel msg sub (fst x) (snd x) s) (\<lambda>df s.
             seq (lift (attrs df) s) (\<lambda>d s. finish (snd x) kind (mk d) (en d) ch k s))) = (Inr r, t)
           \<and> get_chart t r = Inr c \<and> chart_data c = df' \<and> chart_mark c = Some (kind, mk d)
           \<and> c = encode (en d) (mark kind (mk d) (c0\<lparr>chart_data := df'\<rparr>))
           \<and> (\<forall>cr. ch = Some cr \<longrightarrow> layer_at t cr k = Inr r
                 \<and> (\<forall>j. j \<noteq> k \<longrightarrow> layer_at t cr j = layer_at s1 cr j))"
proof -
  obtain s2 c2 where r: "restrict sel msg sub df l s1 = (Inr df', s2)" and c2: "get_chart s2 l = Inr c2"
    "chart_data c2 = df'" "c2 = c0\<lparr>chart_data := df'\<rparr>" and len: "length s2 = length s1"
    and lcs: "\<forall>cr. get_layer_chart s2 cr = get_layer_chart s1 cr"
    using restrict_ok [where sel = sel and msg = msg, OF c0 sub] by blast
  let ?c = "encode (en d) (mark kind (mk d) c2)"
  let ?s3 = "s2 @ [Chart ?c]"
  have run: "seq src (\<lambda>x s. seq (restrict sel msg sub (fst x) (snd x) s) (\<lambda>df s.
             seq (lift (attrs df) s) (\<lambda>d s. finish (snd x) kind (mk d) (en d) ch k s)))
       = finish l kind (mk d) (en d) ch k s2"
    by (simp add: src seq_Inr r at lift_Inr)
  have cd: "chart_data ?c = df'" "chart_mark ?c = Some (kind, mk d)"
    "?c = encode (en d) (mark kind (mk d) (c0\<lparr>chart_data := df'\<rparr>))"
    using c2 by (simp_all add: encode_def mark_def)
  show ?thesis
  proof (cases ch)
    case None
    have "finish l kind (mk d) (en d) ch k s2 = (Inr (length s2), ?s3)"
      using None c2 by (simp add: finish_def alloc_def)
    moreover have "get_chart ?s3 (length s2) = Inr ?c" by (rule get_chart_fresh)
    ultimately show ?thesis using run cd None by auto
  next
    case (Some cr)
    obtain lc where lc: "get_layer_chart s1 cr = Inr lc" "k < length (lc_layer lc)"
      using ch Some by blast
    have lc3: "get_layer_chart ?s3 cr = Inr lc"
      using lc lcs by (simp add: get_layer_chart_append)
    obtain t where t: "set_layer_at ?s3 cr k (length s2) = Inr t" "layer_at t cr k = Inr (length s2)"
      "length t = length ?s3" "\<forall>j. j \<noteq> cr \<longrightarrow> t ! j = ?s3 ! j"
      "\<forall>j. j \<noteq> k \<longrightarrow> layer_at t cr j = layer_at ?s3 cr j"
      using set_layer_at_ok [OF lc3 lc(2), of "length s2"] by blast
    have "cr < length s1" using lc(1) by (auto simp: get_layer_chart_def split: if_splits)
    then have ne: "length s2 \<noteq> cr" using len by simp
    have "get_chart t (length s2) = Inr ?c"
      using t(3,4) ne by (simp add: get_chart_def)
    moreover have "finish l kind (mk d) (en d) ch k s2 = (Inr (length s2), t)"
      using Some c2 t(1) by (simp add: finish_def alloc_def)
    moreover have "layer_at ?s3 cr j = layer_at s1 cr j" for j
      by (rule layer_at_cong) (simp add: lc3 lc(1))
    ultimately show ?thesis using run cd Some t(2,5) by auto
  qed
qed

text \<open>The three branches of the source selection, in each of the four functions.\<close>

lemma edges_from_layer:
  assumes la: "layer a = Some l" and c0: "get_chart s l = Inr c0"
    and sub: "(subset_py a = PNone \<and> df' = chart_data c0) \<or> (is_list (subset_py a) \<and> loc_pair_isin (chart_data c0) (list_of (subset_py a)) = Inr df')"
    and at: "edges_attrs df' a = Inr d"
    and ch: "\<forall>cr. chart a = Some cr \<longrightarrow> (\<exists>lc. get_layer_chart s cr = Inr lc \<and> 0 < length (lc_layer lc))"
  shows "\<exists>r t c. draw_networkx_edges ev a s = (Inr r, t) \<and> get_chart t r = Inr c \<and> chart_data c = df'
     \<and> chart_mark c = Some (''line'', fst d)
     \<and> c = encode ([(''x'', alt_X ''x'' (Some [])), (''y'', alt_Y ''y'' (Some [])), (''detail'', shorthand ''edge''), (''order'', shorthand ''order'')] @ snd d)
           (mark ''line'' (fst d) (c0\<lparr>chart_data := df'\<rparr>))
     \<and> (\<forall>cr. chart a = Some cr \<longrightarrow> layer_at t cr 0 = Inr r
           \<and> (\<forall>j. j \<noteq> 0 \<longrightarrow> layer_at t cr j = layer_at s cr j))"
proof -
  have src: "select_source pr 0 ev a s = (Inr (chart_data c0, l), s)" for pr
    using la c0 by (simp add: select_source_layer)
  show ?thesis
    unfolding draw_networkx_edges_def edges_source_def
    by (rule pipeline_forward [where sel = loc_pair_isin and msg = "''subset must be a list or None.''"
        and attrs = "\<lambda>df. edges_attrs df a" and mk = "fst" and kind = "''line''"
        and en = "\<lambda>d. [(''x'', alt_X ''x'' (Some [])), (''y'', alt_Y ''y'' (Some [])), (''detail'', shorthand ''edge''), (''order'', shorthand ''order'')] @ snd d"
        and ch = "chart a" and k = 0, OF src c0 refl sub at ch])
qed

lemma edges_from_chart:
  assumes la: "layer a = None" and cr: "chart a = Some cr" and l: "layer_at s cr 0 = Inr l"
    and c0: "get_chart s l = Inr c0"
    and sub: "(subset_py a = PNone \<and> df' = chart_data c0) \<or> (is_list (subset_py a) \<and> loc_pair_isin (chart_data c0) (list_of (subset_py a)) = Inr df')"
    and at: "edges_attrs df' a = Inr d"
  shows "\<exists>r t c. draw_networkx_edges ev a s = (Inr r, t) \<and> get_chart t r = Inr c \<and> chart_data c = df'
     \<and> chart_mark c = Some (''line'', fst d)
     \<and> c = encode ([(''x'', alt_X ''x'' (Some [])), (''y'', alt_Y ''y'' (Some [])), (''detail'', shorthand ''edge''), (''order'', shorthand ''order'')] @ snd d)
           (mark ''line'' (fst d) (c0\<lparr>chart_data := df'\<rparr>))
     \<and> layer_at t cr 0 = Inr r
     \<and> (\<forall>j. j \<noteq> 0 \<longrightarrow> layer_at t cr j = layer_at s cr j)"
proof -
  have src: "select_source pr 0 ev a s = (Inr (chart_data c0, l), s)" for pr
    using la cr l c0 by (simp add: select_source_chart)
  have ch: "\<forall>x. chart a = Some x \<longrightarrow> (\<exists>lc. get_layer_chart s x = Inr lc \<and> 0 < length (lc_layer lc))"
    using cr l by (auto simp: layer_at_def split: sum.splits if_splits)
  show ?thesis
    using pipeline_forward [where sel = loc_pair_isin and msg = "''subset must be a list or None.''"
        and attrs = "\<lambda>df. edges_attrs df a" and mk = "fst" and kind = "''line''"
        and en = "\<lambda>d. [(''x'', alt_X ''x'' (Some [])), (''y'', alt_Y ''y'' (Some [])), (''detail'', shorthand ''edge''), (''order'', shorthand ''order'')] @ snd d"
        and ch = "chart a" and k = 0, OF src c0 refl sub at ch] cr
    unfolding draw_networkx_edges_def edges_source_def by blast
qed

lemma edges_from_graph:
  assumes la: "layer a = None" and cr: "chart a = None" and g: "G a = Some g"
    and gr: "get_graph s g = Inr gr"
    and df: "to_pandas_edges ev gr (case pos a of None \<Rightarrow> kamada_kawai_layout ev gr | Some p \<Rightarrow> p)
         (effective_control_points (line_args.curved_edges a) (control_points a))
         (edges_args.loop_radius a) (edges_args.loop_angle a) (edges_args.loop_n_points a) = Inr df"
    and sub: "(subset_py a = PNone \<and> df' = df) \<or> (is_list (subset_py a) \<and> loc_pair_isin df (list_of (subset_py a)) = Inr df')"
    and at: "edges_attrs df' a = Inr d"
  shows "\<exists>r t c. draw_networkx_edges ev a s = (Inr r, t) \<and> get_chart t r = Inr c \<and> chart_data c = df'
     \<and> chart_mark c = Some (''line'', fst d)
     \<and> c = encode ([(''x'', alt_X ''x'' (Some [])), (''y'', alt_Y ''y'' (Some [])), (''detail'', shorthand ''edge''), (''order'', shorthand ''order'')] @ snd d)
           (mark ''line'' (fst d) (alt_Chart df'))"
proof -
  have src: "select_source
       (\<lambda>gr p. to_pandas_edges ev gr p
         (effective_control_points (line_args.curved_edges a) (control_points a))
         (edges_args.loop_radius a) (edges_args.loop_angle a) (edges_args.loop_n_points a)) 0 ev a s
     = (Inr (df, length s), s @ [Chart (alt_Chart df)])"
    using la cr g gr df by (simp add: select_source_def alloc_def split: option.splits)
  have c0: "get_chart (s @ [Chart (alt_Chart df)]) (length s) = Inr (alt_Chart df)"
    by (rule get_chart_fresh)
  have cd: "chart_data (alt_Chart df) = df" by (simp add: alt_Chart_def)
  have ch: "\<forall>x. chart a = Some x \<longrightarrow>
      (\<exists>lc. get_layer_chart (s @ [Chart (alt_Chart df)]) x = Inr lc \<and> 0 < length (lc_layer lc))"
    using cr by simp
  have ac: "(alt_Chart df)\<lparr>chart_data := df'\<rparr> = alt_Chart df'" by (simp add: alt_Chart_def)
  show ?thesis
    using pipeline_forward [where sel = loc_pair_isin and msg = "''subset must be a list or None.''"
        and attrs = "\<lambda>df. edges_attrs df a" and mk = "fst" and kind = "''line''"
        and en = "\<lambda>d. [(''x'', alt_X ''x'' (Some [])), (''y'', alt_Y ''y'' (Some [])), (''detail'', shorthand ''edge''), (''order'', shorthand ''order'')] @ snd d"
        and ch = "chart a" and k = 0, OF src c0 cd sub at ch]
    unfolding draw_networkx_edges_def edges_source_def ac by blast
qed

lemma arrows_from_layer:
  assumes la: "layer a = Some l" and c0: "get_chart s l = Inr c0"
    and sub: "(subset_py a = PNone \<and> df' = chart_data c0) \<or> (is_list (subset_py a) \<and> loc_pair_isin (chart_data c0) (list_of (subset_py a)) = Inr df')"
    and at: "arrows_attrs df' a = Inr d"
    and ch: "\<forall>cr. chart a = Some cr \<longrightarrow> (\<exists>lc. get_layer_chart s cr = Inr lc \<and> 0 < length (lc_layer lc))"
  shows "\<exists>r t c. draw_networkx_arrows ev a s = (Inr r, t) \<and> get_chart t r = Inr c \<and> chart_data c = df'
     \<and> chart_mark c = Some (''line'', fst d)
     \<and> c = encode ([(''x'', alt_X ''x'' None), (''y'', alt_Y ''y'' None), (''detail'', shorthand ''edge'')] @ snd d)
           (mark ''line'' (fst d) (c0\<lparr>chart_data := df'\<rparr>))
     \<and> (\<forall>cr. chart a = Some cr \<longrightarrow> layer_at t cr 0 = Inr r
           \<and> (\<forall>j. j \<noteq> 0 \<longrightarrow> layer_at t cr j = layer_at s cr j))"
proof -
  have src: "select_source pr 0 ev a s = (Inr (chart_data c0, l), s)" for pr
    using la c0 by (simp add: select_source_layer)
  show ?thesis
    unfolding draw_networkx_arrows_def arrows_source_def
    by (rule pipeline_forward [where sel = loc_pair_isin and msg = "''subset must be a list or None.''"
        and attrs = "\<lambda>df. arrows_attrs df a" and mk = "fst" and kind = "''line''"
        and en = "\<lambda>d. [(''x'', alt_X ''x'' None), (''y'', alt_Y ''y'' None), (''detail'', shorthand ''edge'')] @ snd d"
        and ch = "chart a" and k = 0, OF src c0 refl sub at ch])
qed

lemma arrows_from_chart:
  assumes la: "layer a = None" and cr: "chart a = Some cr" and l: "layer_at s cr 0 = Inr l"
    and c0: "get_chart s l = Inr c0"
    and sub: "(subset_py a = PNone \<and> df' = chart_data c0) \<or> (is_list (subset_py a) \<and> loc_pair_isin (chart_data c0) (list_of (subset_py a)) = Inr df')"
    and at: "arrows_attrs df' a = Inr d"
  shows "\<exists>r t c. draw_networkx_arrows ev a s = (Inr r, t) \<and> get_chart t r = Inr c \<and> chart_data c = df'
     \<and> chart_mark c = Some (''line'', fst d)
     \<and> c = encode ([(''x'', alt_X ''x'' None), (''y'', alt_Y ''y'' None), (''detail'', shorthand ''edge'')] @ snd d)
           (mark ''line'' (fst d) (c0\<lparr>chart_data := df'\<rparr>))
     \<and> layer_at t cr 0 = Inr r
     \<and> (\<forall>j. j \<noteq> 0 \<longrightarrow> layer_at t cr j = layer_at s cr j)"
proof -
  have src: "select_source pr 0 ev a s = (Inr (chart_data c0, l), s)" for pr
    using la cr l c0 by (simp add: select_source_chart)
  have ch: "\<forall>x. chart a = Some x \<longrightarrow> (\<exists>lc. get_layer_chart s x = Inr lc \<and> 0 < length (lc_layer lc))"
    using cr l by (auto simp: layer_at_def split: sum.splits if_splits)
  show ?thesis
    using pipeline_forward [where sel = loc_pair_isin and msg = "''subset must be a list or None.''"
        and attrs = "\<lambda>df. arrows_attrs df a" and mk = "fst" and kind = "''line''"
        and en = "\<lambda>d. [(''x'', alt_X ''x'' None), (''y'', alt_Y ''y'' None), (''detail'', shorthand ''edge'')] @ snd d"
        and ch = "chart a" and k = 0, OF src c0 refl sub at ch] cr
    unfolding draw_networkx_arrows_def arrows_source_def by blast
qed

lemma arrows_from_graph:
  assumes la: "layer a = None" and cr: "chart a = None" and g: "G a = Some g"
    and gr: "get_graph s g = Inr gr"
    and df: "to_pandas_edge_arrows ev gr (case pos a of None \<Rightarrow> kamada_kawai_layout ev gr | Some p \<Rightarrow> p)
         (length_py a) (length_is_relative a)
         (effective_control_points (line_args.curved_edges a) (control_points a)) = Inr df"
    and sub: "(subset_py a = PNone \<and> df' = df) \<or> (is_list (subset_py a) \<and> loc_pair_isin df (list_of (subset_py a)) = Inr df')"
    and at: "arrows_attrs df' a = Inr d"
  shows "\<exists>r t c. draw_networkx_arrows ev a s = (Inr r, t) \<and> get_chart t r = Inr c \<and> chart_data c = df'
     \<and> chart_mark c = Some (''line'', fst d)
     \<and> c = encode ([(''x'', alt_X ''x'' None), (''y'', alt_Y ''y'' None), (''detail'', shorthand ''edge'')] @ snd d)
           (mark ''line'' (fst d) (alt_Chart df'))"
proof -
  have src: "select_source
       (\<lambda>gr p. to_pandas_edge_arrows ev gr p
         (length_py a) (length_is_relative a)
         (effective_control_points (line_args.curved_edges a) (control_points a))) 0 ev a s
     = (Inr (df, length s), s @ [Chart (alt_Chart df)])"
    using la cr g gr df by (simp add: select_source_def alloc_def split: option.splits)
  have c0: "get_chart (s @ [Chart (alt_Chart df)]) (length s) = Inr (alt_Chart df)"
    by (rule get_chart_fresh)
  have cd: "chart_data (alt_Chart df) = df" by (simp add: alt_Chart_def)
  have ch: "\<forall>x. chart a = Some x \<longrightarrow>
      (\<exists>lc. get_layer_chart (s @ [Chart (alt_Chart df)]) x = Inr lc \<and> 0 < length (lc_layer lc))"
    using cr by simp
  have ac: "(alt_Chart df)\<lparr>chart_data := df'\<rparr> = alt_Chart df'" by (simp add: alt_Chart_def)
  show ?thesis
    using pipeline_forward [where sel = loc_pair_isin and msg = "''subset must be a list or None.''"
        and attrs = "\<lambda>df. arrows_attrs df a" and mk = "fst" and kind = "''line''"
        and en = "\<lambda>d. [(''x'', alt_X ''x'' None), (''y'', alt_Y ''y'' None), (''detail'', shorthand ''edge'')] @ snd d"
        and ch = "chart a" and k = 0, OF src c0 cd sub at ch]
    unfolding draw_networkx_arrows_def arrows_source_def ac by blast
qed

lemma nodes_from_layer:
  assumes la: "layer a = Some l" and c0: "get_chart s l = Inr c0"
    and sub: "(subset_py a = PNone \<and> df' = chart_data c0) \<or> (is_list (subset_py a) \<and> loc (chart_data c0) (list_of (subset_py a)) = Inr df')"
    and at: "nodes_attrs df' a = Inr d"
    and ch: "\<forall>cr. chart a = Some cr \<longrightarrow> (\<exists>lc. get_layer_chart s cr = Inr lc \<and> 1 < length (lc_layer lc))"
  shows "\<exists>r t c. draw_networkx_nodes ev a s = (Inr r, t) \<and> get_chart t r = Inr c \<and> chart_data c = df'
     \<and> chart_mark c = Some (''point'', fst d)
     \<and> c = encode ([(''x'', alt_X ''x'' None), (''y'', alt_Y ''y'' None)] @ snd d)
           (mark ''point'' (fst d) (c0\<lparr>chart_data := df'\<rparr>))
     \<and> (\<forall>cr. chart a = Some cr \<longrightarrow> layer_at t cr 1 = Inr r
           \<and> (\<forall>j. j \<noteq> 1 \<longrightarrow> layer_at t cr j = layer_at s cr j))"
proof -
  have src: "select_source pr 1 ev a s = (Inr (chart_data c0, l), s)" for pr
    using la c0 by (simp add: select_source_layer)
  show ?thesis
    unfolding draw_networkx_nodes_def nodes_source_def
    by (rule pipeline_forward [where sel = loc and msg = "''node_subset must be a list or None.''"
        and attrs = "\<lambda>df. nodes_attrs df a" and mk = "fst" and kind = "''point''"
        and en = "\<lambda>d. [(''x'', alt_X ''x'' None), (''y'', alt_Y ''y'' None)] @ snd d"
        and ch = "chart a" and k = 1, OF src c0 refl sub at ch])
qed

lemma nodes_from_chart:
  assumes la: "layer a = None" and cr: "chart a = Some cr" and l: "layer_at s cr 1 = Inr l"
    and c0: "get_chart s l = Inr c0"
    and sub: "(subset_py a = PNone \<and> df' = chart_data c0) \<or> (is_list (subset_py a) \<and> loc (chart_data c0) (list_of (subset_py a)) = Inr df')"
    and at: "nodes_attrs df' a = Inr d"
  shows "\<exists>r t c. draw_networkx_nodes ev a s = (Inr r, t) \<and> get_chart t r = Inr c \<and> chart_data c = df'
     \<and> chart_mark c = Some (''point'', fst d)
     \<and> c = encode ([(''x'', alt_X ''x'' None), (''y'', alt_Y ''y'' None)] @ snd d)
           (mark ''point'' (fst d) (c0\<lparr>chart_data := df'\<rparr>))
     \<and> layer_at t cr 1 = Inr r
     \<and> (\<forall>j. j \<noteq> 1 \<longrightarrow> layer_at t cr j = layer_at s cr j)"
proof -
  have src: "select_source pr 1 ev a s = (Inr (chart_data c0, l), s)" for pr
    using la cr l c0 by (simp add: select_source_chart)
  have ch: "\<forall>x. chart a = Some x \<longrightarrow> (\<exists>lc. get_layer_chart s x = Inr lc \<and> 1 < length (lc_layer lc))"
    using cr l by (auto simp: layer_at_def split: sum.splits if_splits)
  show ?thesis
    using pipeline_forward [where sel = loc and msg = "''node_subset must be a list or None.''"
        and attrs = "\<lambda>df. nodes_attrs df a" and mk = "fst" and kind = "''point''"
        and en = "\<lambda>d. [(''x'', alt_X ''x'' None), (''y'', alt_Y ''y'' None)] @ snd d"
        and ch = "chart a" and k = 1, OF src c0 refl sub at ch] cr
    unfolding draw_networkx_nodes_def nodes_source_def by blast
qed

lemma nodes_from_graph:
  assumes la: "layer a = None" and cr: "chart a = None" and g: "G a = Some g"
    and gr: "get_graph s g = Inr gr"
    and df: "to_pandas_nodes gr (case pos a of None \<Rightarrow> kamada_kawai_layout ev gr | Some p \<Rightarrow> p) = Inr df"
    and sub: "(subset_py a = PNone \<and> df' = df) \<or> (is_list (subset_py a) \<and> loc df (list_of (subset_py a)) = Inr df')"
    and at: "nodes_attrs df' a = Inr d"
  shows "\<exists>r t c. draw_networkx_nodes ev a s = (Inr r, t) \<and> get_chart t r = Inr c \<and> chart_data c = df'
     \<and> chart_mark c = Some (''point'', fst d)
     \<and> c = encode ([(''x'', alt_X ''x'' None), (''y'', alt_Y ''y'' None)] @ snd d)
           (mark ''point'' (fst d) (alt_Chart df'))"
proof -
  have src: "select_source
       (\<lambda>gr p. to_pandas_nodes gr p) 1 ev a s
     = (Inr (df, length s), s @ [Chart (alt_Chart df)])"
    using la cr g gr df by (simp add: select_source_def alloc_def split: option.splits)
  have c0: "get_chart (s @ [Chart (alt_Chart df)]) (length s) = Inr (alt_Chart df)"
    by (rule get_chart_fresh)
  have cd: "chart_data (alt_Chart df) = df" by (simp add: alt_Chart_def)
  have ch: "\<forall>x. chart a = Some x \<longrightarrow>
      (\<exists>lc. get_layer_chart (s @ [Chart (alt_Chart df)]) x = Inr lc \<and> 1 < length (lc_layer lc))"
    using cr by simp
  have ac: "(alt_Chart df)\<lparr>chart_data := df'\<rparr> = alt_Chart df'" by (simp add: alt_Chart_def)
  show ?thesis
    using pipeline_forward [where sel = loc and msg = "''node_subset must be a list or None.''"
        and attrs = "\<lambda>df. nodes_attrs df a" and mk = "fst" and kind = "''point''"
        and en = "\<lambda>d. [(''x'', alt_X ''x'' None), (''y'', alt_Y ''y'' None)] @ snd d"
        and ch = "chart a" and k = 1, OF src c0 cd sub at ch]
    unfolding draw_networkx_nodes_def nodes_source_def ac by blast
qed

lemma labels_from_layer:
  assumes la: "layer a = Some l" and c0: "get_chart s l = Inr c0"
    and sub: "(subset_py a = PNone \<and> df' = chart_data c0) \<or> (is_list (subset_py a) \<and> loc (chart_data c0) (list_of (subset_py a)) = Inr df')"
    and at: "labels_attrs df' a = Inr d"
    and ch: "\<forall>cr. chart a = Some cr \<longrightarrow> (\<exists>lc. get_layer_chart s cr = Inr lc \<and> 1 < length (lc_layer lc))"
  shows "\<exists>r t c. draw_networkx_labels ev a s = (Inr r, t) \<and> get_chart t r = Inr c \<and> chart_data c = df'
     \<and> chart_mark c = Some (''text'', (''baseline'', PStr ''middle'') # fst d)
     \<and> c = encode ([(''x'', alt_X ''x'' None), (''y'', alt_Y ''y'' None)] @ snd d)
           (mark ''text'' ((''baseline'', PStr ''middle'') # fst d) (c0\<lparr>chart_data := df'\<rparr>))
     \<and> (\<forall>cr. chart a = Some cr \<longrightarrow> layer_at t cr 1 = Inr r
           \<and> (\<forall>j. j \<noteq> 1 \<longrightarrow> layer_at t cr j = layer_at s cr j))"
proof -
  have src: "select_source pr 1 ev a s = (Inr (chart_data c0, l), s)" for pr
    using la c0 by (simp add: select_source_layer)
  show ?thesis
    unfolding draw_networkx_labels_def nodes_source_def
    by (rule pipeline_forward [where sel = loc and msg = "''node_subset must be a list or None.''"
        and attrs = "\<lambda>df. labels_attrs df a" and mk = "\<lambda>d. (''baseline'', PStr ''middle'') # fst d" and kind = "''text''"
        and en = "\<lambda>d. [(''x'', alt_X ''x'' None), (''y'', alt_Y ''y'' None)] @ snd d"
        and ch = "chart a" and k = 1, OF src c0 refl sub at ch])
qed

lemma labels_from_chart:
  assumes la: "layer a = None" and cr: "chart a = Some cr" and l: "layer_at s cr 1 = Inr l"
    and c0: "get_chart s l = Inr c0"
    and sub: "(subset_py a = PNone \<and> df' = chart_data c0) \<or> (is_list (subset_py a) \<and> loc (chart_data c0) (list_of (subset_py a)) = Inr df')"
    and at: "labels_attrs df' a = Inr d"
  shows "\<exists>r t c. draw_networkx_labels ev a s = (Inr r, t) \<and> get_chart t r = Inr c \<and> chart_data c = df'
     \<and> chart_mark c = Some (''text'', (''baseline'', PStr ''middle'') # fst d)
     \<and> c = encode ([(''x'', alt_X ''x'' None), (''y'', alt_Y ''y'' None)] @ snd d)
           (mark ''text'' ((''baseline'', PStr ''middle'') # fst d) (c0\<lparr>chart_data := df'\<rparr>))
     \<and> layer_at t cr 1 = Inr r
     \<and> (\<forall>j. j \<noteq> 1 \<longrightarrow> layer_at t cr j = layer_at s cr j)"
proof -
  have src: "select_source pr 1 ev a s = (Inr (chart_data c0, l), s)" for pr
    using la cr l c0 by (simp add: select_source_chart)
  have ch: "\<forall>x. chart a = Some x \<longrightarrow> (\<exists>lc. get_layer_chart s x = Inr lc \<and> 1 < length (lc_layer lc))"
    using cr l by (auto simp: layer_at_def split: sum.splits if_splits)
  show ?thesis
    using pipeline_forward [where sel = loc and msg = "''node_subset must be a list or None.''"
        and attrs = "\<lambda>df. labels_attrs df a" and mk = "\<lambda>d. (''baseline'', PStr ''middle'') # fst d" and kind = "''text''"
        and en = "\<lambda>d. [(''x'', alt_X ''x'' None), (''y'', alt_Y ''y'' None)] @ snd d"
        and ch = "chart a" and k = 1, OF src c0 refl sub at ch] cr
    unfolding draw_networkx_labels_def nodes_source_def by blast
qed

lemma labels_from_graph:
  assumes la: "layer a = None" and cr: "chart a = None" and g: "G a = Some g"
    and gr: "get_graph s g = Inr gr"
    and df: "to_pandas_nodes gr (case pos a of None \<Rightarrow> kamada_kawai_layout ev gr | Some p \<Rightarrow> p) = Inr df"
    and sub: "(subset_py a = PNone \<and> df' = df) \<or> (is_list (subset_py a) \<and> loc df (list_of (subset_py a)) = Inr df')"
    and at: "labels_attrs df' a = Inr d"
  shows "\<exists>r t c. draw_networkx_labels ev a s = (Inr r, t) \<and> get_chart t r = Inr c \<and> chart_data c = df'
     \<and> chart_mark c = Some (''text'', (''baseline'', PStr ''middle'') # fst d)
     \<and> c = encode ([(''x'', alt_X ''x'' None), (''y'', alt_Y ''y'' None)] @ snd d)
           (mark ''text'' ((''baseline'', PStr ''middle'') # fst d) (alt_Chart df'))"
proof -
  have src: "select_source
       (\<lambda>gr p. to_pandas_nodes gr p) 1 ev a s
     = (Inr (df, length s), s @ [Chart (alt_Chart df)])"
    using la cr g gr df by (simp add: select_source_def alloc_def split: option.splits)
  have c0: "get_chart (s @ [Chart (alt_Chart df)]) (length s) = Inr (alt_Chart df)"
    by (rule get_chart_fresh)
  have cd: "chart_data (alt_Chart df) = df" by (simp add: alt_Chart_def)
  have ch: "\<forall>x. chart a = Some x \<longrightarrow>
      (\<exists>lc. get_layer_chart (s @ [Chart (alt_Chart df)]) x = Inr lc \<and> 1 < length (lc_layer lc))"
    using cr by simp
  have ac: "(alt_Chart df)\<lparr>chart_data := df'\<rparr> = alt_Chart df'" by (simp add: alt_Chart_def)
  show ?thesis
    using pipeline_forward [where sel = loc and msg = "''node_subset must be a list or None.''"
        and attrs = "\<lambda>df. labels_attrs df a" and mk = "\<lambda>d. (''baseline'', PStr ''middle'') # fst d" and kind = "''text''"
        and en = "\<lambda>d. [(''x'', alt_X ''x'' None), (''y'', alt_Y ''y'' None)] @ snd d"
        and ch = "chart a" and k = 1, OF src c0 cd sub at ch]
    unfolding draw_networkx_labels_def nodes_source_def ac by blast
qed

lemma layer_at_exists:
  "layer_at s cr k = Inr x \<Longrightarrow> \<exists>lc. get_layer_chart s cr = Inr lc \<and> k < length (lc_layer lc)"
  by (auto simp: layer_at_def split: sum.splits if_splits)

text \<open>
  Claim C9.  In each of the four drawing functions the data source is chosen by a fixed
  precedence, and the data of the chosen source are the data that are drawn.  With a layer,
  the returned chart is that layer with its data restricted to the subset (if any), marked
  and encoded, whatever the graph, the positions and the chart are; a chart given as well
  has its layer 0 (edges, arrows) or 1 (nodes, labels) replaced by the returned chart, and
  keeps its other layers.  Without a layer and with a chart, the returned chart is made in
  the same way from that layer of the chart, whatever the graph and the positions are, and
  replaces that layer of the chart.  With neither, it is made from the projection of the
  graph.  This is stated for the runs in which the subset restriction and the styling
  arguments raise nothing and the chart, if any, has the layer that is replaced.  For all
  runs, failing ones included, a call with a layer, or with a chart and no layer, is the
  call with neither graph nor positions.
\<close>

theorem data_source_precedence:
  "(layer a = Some l \<and> get_chart s l = Inr cl
      \<and> ((subset_py a = PNone \<and> df' = chart_data cl) \<or> (is_list (subset_py a) \<and> loc_pair_isin (chart_data cl) (list_of (subset_py a)) = Inr df'))
      \<and> edges_attrs df' a = Inr d
      \<and> (\<forall>cr. chart a = Some cr \<longrightarrow> (\<exists>x. layer_at s cr 0 = Inr x))
    \<longrightarrow> (\<exists>r t c. draw_networkx_edges ev a s = (Inr r, t) \<and> get_chart t r = Inr c \<and> chart_data c = df'
          \<and> chart_mark c = Some (''line'', fst d)
          \<and> c = encode ([(''x'', alt_X ''x'' (Some [])), (''y'', alt_Y ''y'' (Some [])), (''detail'', shorthand ''edge''), (''order'', shorthand ''order'')] @ snd d)
                (mark ''line'' (fst d) (cl\<lparr>chart_data := df'\<rparr>))
          \<and> (\<forall>cr. chart a = Some cr \<longrightarrow> layer_at t cr 0 = Inr r
                \<and> (\<forall>j. j \<noteq> 0 \<longrightarrow> layer_at t cr j = layer_at s cr j))))
   \<and> (layer a = None \<and> chart a = Some cr \<and> layer_at s cr 0 = Inr l \<and> get_chart s l = Inr cl
      \<and> ((subset_py a = PNone \<and> df' = chart_data cl) \<or> (is_list (subset_py a) \<and> loc_pair_isin (chart_data cl) (list_of (subset_py a)) = Inr df'))
      \<and> edges_attrs df' a = Inr d
    \<longrightarrow> (\<exists>r t c. draw_networkx_edges ev a s = (Inr r, t) \<and> get_chart t r = Inr c \<and> chart_data c = df'
          \<and> chart_mark c = Some (''line'', fst d)
          \<and> c = encode ([(''x'', alt_X ''x'' (Some [])), (''y'', alt_Y ''y'' (Some [])), (''detail'', shorthand ''edge''), (''order'', shorthand ''order'')] @ snd d)
                (mark ''line'' (fst d) (cl\<lparr>chart_data := df'\<rparr>))
          \<and> layer_at t cr 0 = Inr r
          \<and> (\<forall>j. j \<noteq> 0 \<longrightarrow> layer_at t cr j = layer_at s cr j)))
   \<and> (layer a = None \<and> chart a = None \<and> G a = Some g \<and> get_graph s g = Inr gr
      \<and> to_pandas_edges ev gr (case pos a of None \<Rightarrow> kamada_kawai_layout ev gr | Some p \<Rightarrow> p)
          (effective_control_points (line_args.curved_edges a) (control_points a))
          (edges_args.loop_radius a) (edges_args.loop_angle a) (edges_args.loop_n_points a) = Inr df
      \<and> ((subset_py a = PNone \<and> df' = df) \<or> (is_list (subset_py a) \<and> loc_pair_isin df (list_of (subset_py a)) = Inr df'))
      \<and> edges_attrs df' a = Inr d
    \<longrightarrow> (\<exists>r t c. draw_networkx_edges ev a s = (Inr r, t) \<and> get_chart t r = Inr c \<and> chart_data c = df'
          \<and> chart_mark c = Some (''line'', fst d)
          \<and> c = encode ([(''x'', alt_X ''x'' (Some [])), (''y'', alt_Y ''y'' (Some [])), (''detail'', shorthand ''edge''), (''order'', shorthand ''order'')] @ snd d)
                (mark ''line'' (fst d) (alt_Chart df'))))
   \<and> draw_networkx_edges ev (a\<lparr>layer := Some l, G := go, pos := po\<rparr>) s
     = draw_networkx_edges ev (a\<lparr>layer := Some l, G := None, pos := None\<rparr>) s
   \<and> draw_networkx_edges ev (a\<lparr>layer := None, chart := Some cr, G := go, pos := po\<rparr>) s
     = draw_networkx_edges ev (a\<lparr>layer := None, chart := Some cr, G := None, pos := None\<rparr>) s
   \<and> (layer b = Some l \<and> get_chart s l = Inr cl
      \<and> ((subset_py b = PNone \<and> df' = chart_data cl) \<or> (is_list (subset_py b) \<and> loc_pair_isin (chart_data cl) (list_of (subset_py b)) = Inr df'))
      \<and> arrows_attrs df' b = Inr d
      \<and> (\<forall>cr. chart b = Some cr \<longrightarrow> (\<exists>x. layer_at s cr 0 = Inr x))
    \<longrightarrow> (\<exists>r t c. draw_networkx_arrows ev b s = (Inr r, t) \<and> get_chart t r = Inr c \<and> chart_data c = df'
          \<and> chart_mark c = Some (''line'', fst d)
          \<and> c = encode ([(''x'', alt_X ''x'' None), (''y'', alt_Y ''y'' None), (''detail'', shorthand ''edge'')] @ snd d)
                (mark ''line'' (fst d) (cl\<lparr>chart_data := df'\<rparr>))
          \<and> (\<forall>cr. chart b = Some cr \<longrightarrow> layer_at t cr 0 = Inr r
                \<and> (\<forall>j. j \<noteq> 0 \<longrightarrow> layer_at t cr j = layer_at s cr j))))
   \<and> (layer b = None \<and> chart b = Some cr \<and> layer_at s cr 0 = Inr l \<and> get_chart s l = Inr cl
      \<and> ((subset_py b = PNone \<and> df' = chart_data cl) \<or> (is_list (subset_py b) \<and> loc_pair_isin (chart_data cl) (list_of (subset_py b)) = Inr df'))
      \<and> arrows_attrs df' b = Inr d
    \<longrightarrow> (\<exists>r t c. draw_networkx_arrows ev b s = (Inr r, t) \<and> get_chart t r = Inr c \<and> chart_data c = df'
          \<and> chart_mark c = Some (''line'', fst d)
          \<and> c = encode ([(''x'', alt_X ''x'' None), (''y'', alt_Y ''y'' None), (''detail'', shorthand ''edge'')] @ snd d)
                (mark ''line'' (fst d) (cl\<lparr>chart_data := df'\<rparr>))
          \<and> layer_at t cr 0 = Inr r
          \<and> (\<forall>j. j \<noteq> 0 \<longrightarrow> layer_at t cr j = layer_at s cr j)))
   \<and> (layer b = None \<and> chart b = None \<and> G b = Some g \<and> get_graph s g = Inr gr
      \<and> to_pandas_edge_arrows ev gr (case pos b of None \<Rightarrow> kamada_kawai_layout ev gr | Some p \<Rightarrow> p)
          (length_py b) (length_is_relative b)
          (effective_control_points (line_args.curved_edges b) (control_points b)) = Inr df
      \<and> ((subset_py b = PNone \<and> df' = df) \<or> (is_list (subset_py b) \<and> loc_pair_isin df (list_of (subset_py b)) = Inr df'))
      \<and> arrows_attrs df' b = Inr d
    \<longrightarrow> (\<exists>r t c. draw_networkx_arrows ev b s = (Inr r, t) \<and> get_chart t r = Inr c \<and> chart_data c = df'
          \<and> chart_mark c = Some (''line'', fst d)
          \<and> c = encode ([(''x'', alt_X ''x'' None), (''y'', alt_Y ''y'' None), (''detail'', shorthand ''edge'')] @ snd d)
                (mark ''line'' (fst d) (alt_Chart df'))))
   \<and> draw_networkx_arrows ev (b\<lparr>layer := Some l, G := go, pos := po\<rparr>) s
     = draw_networkx_arrows ev (b\<lparr>layer := Some l, G := None, pos := None\<rparr>) s
   \<and> draw_networkx_arrows ev (b\<lparr>layer := None, chart := Some cr, G := go, pos := po\<rparr>) s
     = draw_networkx_arrows ev (b\<lparr>layer := None, chart := Some cr, G := None, pos := None\<rparr>) s
   \<and> (layer n = Some l \<and> get_chart s l = Inr cl
      \<and> ((subset_py n = PNone \<and> df' = chart_data cl) \<or> (is_list (subset_py n) \<and> loc (chart_data cl) (list_of (subset_py n)) = Inr df'))
      \<and> nodes_attrs df' n = Inr d
      \<and> (\<forall>cr. chart n = Some cr \<longrightarrow> (\<exists>x. layer_at s cr 1 = Inr x))
    \<longrightarrow> (\<exists>r t c. draw_networkx_nodes ev n s = (Inr r, t) \<and> get_chart t r = Inr c \<and> chart_data c = df'
          \<and> chart_mark c = Some (''point'', fst d)
          \<and> c = encode ([(''x'', alt_X ''x'' None), (''y'', alt_Y ''y'' None)] @ snd d)
                (mark ''point'' (fst d) (cl\<lparr>chart_data := df'\<rparr>))
          \<and> (\<forall>cr. chart n = Some cr \<longrightarrow> layer_at t cr 1 = Inr r
                \<and> (\<forall>j. j \<noteq> 1 \<longrightarrow> layer_at t cr j = layer_at s cr j))))
   \<and> (layer n = None \<and> chart n = Some cr \<and> layer_at s cr 1 = Inr l \<and> get_chart s l = Inr cl
      \<and> ((subset_py n = PNone \<and> df' = chart_data cl) \<or> (is_list (subset_py n) \<and> loc (chart_data cl) (list_of (subset_py n)) = Inr df'))
      \<and> nodes_attrs df' n = Inr d
    \<longrightarrow> (\<exists>r t c. draw_networkx_nodes ev n s = (Inr r, t) \<and> get_chart t r = Inr c \<and> chart_data c = df'
          \<and> chart_mark c = Some (''point'', fst d)
          \<and> c = encode ([(''x'', alt_X ''x'' None), (''y'', alt_Y ''y'' None)] @ snd d)
                (mark ''point'' (fst d) (cl\<lparr>chart_data := df'\<rparr>))
          \<and> layer_at t cr 1 = Inr r
          \<and> (\<forall>j. j \<noteq> 1 \<longrightarrow> layer_at t cr j = layer_at s cr j)))
   \<and> (layer n = None \<and> chart n = None \<and> G n = Some g \<and> get_graph s g = Inr gr
      \<and> to_pandas_nodes gr (case pos n of None \<Rightarrow> kamada_kawai_layout ev gr | Some p \<Rightarrow> p) = Inr df
      \<and> ((subset_py n = PNone \<and> df' = df) \<or> (is_list (subset_py n) \<and> loc df (list_of (subset_py n)) = Inr df'))
      \<and> nodes_attrs df' n = Inr d
    \<longrightarrow> (\<exists>r t c. draw_networkx_nodes ev n s = (Inr r, t) \<and> get_chart t r = Inr c \<and> chart_data c = df'
          \<and> chart_mark c = Some (''point'', fst d)
          \<and> c = encode ([(''x'', alt_X ''x'' None), (''y'', alt_Y ''y'' None)] @ snd d)
                (mark ''point'' (fst d) (alt_Chart df'))))
   \<and> draw_networkx_nodes ev (n\<lparr>layer := Some l, G := go, pos := po\<rparr>) s
     = draw_networkx_nodes ev (n\<lparr>layer := Some l, G := None, pos := None\<rparr>) s
   \<and> draw_networkx_nodes ev (n\<lparr>layer := None, chart := Some cr, G := go, pos := po\<rparr>) s
     = draw_networkx_nodes ev (n\<lparr>layer := None, chart := Some cr, G := None, pos := None\<rparr>) s
   \<and> (layer lb = Some l \<and> get_chart s l = Inr cl
      \<and> ((subset_py lb = PNone \<and> df' = chart_data cl) \<or> (is_list (subset_py lb) \<and> loc (chart_data cl) (list_of (subset_py lb)) = Inr df'))
      \<and> labels_attrs df' lb = Inr d
      \<and> (\<forall>cr. chart lb = Some cr \<longrightarrow> (\<exists>x. layer_at s cr 1 = Inr x))
    \<longrightarrow> (\<exists>r t c. draw_networkx_labels ev lb s = (Inr r, t) \<and> get_chart t r = Inr c \<and> chart_data c = df'
          \<and> chart_mark c = Some (''text'', (''baseline'', PStr ''middle'') # fst d)
          \<and> c = encode ([(''x'', alt_X ''x'' None), (''y'', alt_Y ''y'' None)] @ snd d)
                (mark ''text'' ((''baseline'', PStr ''middle'') # fst d) (cl\<lparr>chart_data := df'\<rparr>))
          \<and> (\<forall>cr. chart lb = Some cr \<longrightarrow> layer_at t cr 1 = Inr r
                \<and> (\<forall>j. j \<noteq> 1 \<longrightarrow> layer_at t cr j = layer_at s cr j))))
   \<and> (layer lb = None \<and> chart lb = Some cr \<and> layer_at s cr 1 = Inr l \<and> get_chart s l = Inr cl
      \<and> ((subset_py lb = PNone \<and> df' = chart_data cl) \<or> (is_list (subset_py lb) \<and> loc (chart_data cl) (list_of (subset_py lb)) = Inr df'))
      \<and> labels_attrs df' lb = Inr d
    \<longrightarrow> (\<exists>r t c. draw_networkx_labels ev lb s = (Inr r, t) \<and> get_chart t r = Inr c \<and> chart_data c = df'
          \<and> chart_mark c = Some (''text'', (''baseline'', PStr ''middle'') # fst d)
          \<and> c = encode ([(''x'', alt_X ''x'' None), (''y'', alt_Y ''y'' None)] @ snd d)
                (mark ''text'' ((''baseline'', PStr ''middle'') # fst d) (cl\<lparr>chart_data := df'\<rparr>))
          \<and> layer_at t cr 1 = Inr r
          \<and> (\<forall>j. j \<noteq> 1 \<longrightarrow> layer_at t cr j = layer_at s cr j)))
   \<and> (layer lb = None \<and> chart lb = None \<and> G lb = Some g \<and> get_graph s g = Inr gr
      \<and> to_pandas_nodes gr (case pos lb of None \<Rightarrow> kamada_kawai_layout ev gr | Some p \<Rightarrow> p) = Inr df
      \<and> ((subset_py lb = PNone \<and> df' = df) \<or> (is_list (subset_py lb) \<and> loc df (list_of (subset_py lb)) = Inr df'))
      \<and> labels_attrs df' lb = Inr d
    \<longrightarrow> (\<exists>r t c. draw_networkx_labels ev lb s = (Inr r, t) \<and> get_chart t r = Inr c \<and> chart_data c = df'
          \<and> chart_mark c = Some (''text'', (''baseline'', PStr ''middle'') # fst d)
          \<and> c = encode ([(''x'', alt_X ''x'' None), (''y'', alt_Y ''y'' None)] @ snd d)
                (mark ''text'' ((''baseline'', PStr ''middle'') # fst d) (alt_Chart df'))))
   \<and> draw_networkx_labels ev (lb\<lparr>layer := Some l, G := go, pos := po\<rparr>) s
     = draw_networkx_labels ev (lb\<lparr>layer := Some l, G := None, pos := None\<rparr>) s
   \<and> draw_networkx_labels ev (lb\<lparr>layer := None, chart := Some cr, G := go, pos := po\<rparr>) s
     = draw_networkx_labels ev (lb\<lparr>layer := None, chart := Some cr, G := None, pos := None\<rparr>) s"
proof -
  have lay: "(\<forall>cr. ch = Some cr \<longrightarrow> (\<exists>x. layer_at s cr k = Inr x))
      \<Longrightarrow> \<forall>cr. ch = Some cr \<longrightarrow> (\<exists>lc. get_layer_chart s cr = Inr lc \<and> k < length (lc_layer lc))" for ch k
    by (blast dest: layer_at_exists)
  show ?thesis
    apply (intro conjI impI)
    subgoal by (elim conjE, rule edges_from_layer, assumption+, erule lay)
    subgoal by (elim conjE, rule edges_from_chart, assumption+)
    subgoal by (elim conjE, rule edges_from_graph, assumption+)
    subgoal by (rule edges_precedence)
    subgoal by (rule edges_precedence)
    subgoal by (elim conjE, rule arrows_from_layer, assumption+, erule lay)
    subgoal by (elim conjE, rule arrows_from_chart, assumption+)
    subgoal by (elim conjE, rule arrows_from_graph, assumption+)
    subgoal by (rule arrows_precedence)
    subgoal by (rule arrows_precedence)
    subgoal by (elim conjE, rule nodes_from_layer, assumption+, erule lay)
    subgoal by (elim conjE, rule nodes_from_chart, assumption+)
    subgoal by (elim conjE, rule nodes_from_graph, assumption+)
    subgoal by (rule nodes_precedence)
    subgoal by (rule nodes_precedence)
    subgoal by (elim conjE, rule labels_from_layer, assumption+, erule lay)
    subgoal by (elim conjE, rule labels_from_chart, assumption+)
    subgoal by (elim conjE, rule labels_from_graph, assumption+)
    subgoal by (rule labels_precedence)
    subgoal by (rule labels_precedence)
    done
qed

lemma ex_layered:
  "get_chart ex_layered_store 0 = Inr (alt_Chart ex_edge_frame)"
  "layer_at ex_layered_store 2 0 = Inr 0"
  "layer_at ex_layered_store 2 (Suc 0) = Inr (Suc 0)"
  "get_graph ex_layered_store 3 = Inr ex_path_graph"
  by (simp_all add: ex_layered_store_def ex_store_def get_chart_def layer_at_def
      get_layer_chart_def get_graph_def)

text \<open>On \<open>ex_layered_store\<close>: the nodes drawn from layer 0 although the chart and the graph are
  given, the edges drawn from layer 0 of the chart although the graph is given, and the labels
  drawn from the graph alone.\<close>

theorem data_source_precedence_witness:
  "(\<exists>r t c. draw_networkx_nodes ex_env
        (nodes_defaults\<lparr>G := Some 3, chart := Some 2, layer := Some 0\<rparr>) ex_layered_store = (Inr r, t)
      \<and> get_chart t r = Inr c \<and> chart_data c = ex_edge_frame
      \<and> layer_at t 2 1 = Inr r \<and> layer_at t 2 0 = Inr 0)
   \<and> (\<exists>r t c. draw_networkx_edges ex_env
        (edges_defaults\<lparr>G := Some 3, chart := Some 2\<rparr>) ex_layered_store = (Inr r, t)
      \<and> get_chart t r = Inr c \<and> chart_data c = ex_edge_frame
      \<and> layer_at t 2 0 = Inr r \<and> layer_at t 2 1 = Inr 1)
   \<and> (\<exists>r t c. draw_networkx_labels ex_env
        (labels_defaults\<lparr>G := Some 3, label := PStr ''node''\<rparr>) ex_layered_store = (Inr r, t)
      \<and> get_chart t r = Inr c
      \<and> map fst (rows (chart_data c)) = [PStr ''A'', PStr ''B'', PStr ''C''])"
proof -
  let ?na = "nodes_defaults\<lparr>G := Some 3, chart := Some 2, layer := Some 0\<rparr>"
  let ?ea = "edges_defaults\<lparr>G := Some 3, chart := Some 2\<rparr>"
  let ?la = "labels_defaults\<lparr>G := Some 3, label := PStr ''node''\<rparr>"
  let ?dn = "([(''size'', PInt 400), (''strokeWidth'', PFloat 1), (''shape'', PStr ''circle''),
               (''fill'', PStr ''teal''), (''opacity'', PFloat 1)], [])"
  let ?de = "([(''strokeWidth'', PInt 1), (''color'', PStr ''grey''), (''opacity'', PFloat 1)], [])"
  let ?dl = "([(''size'', PInt 15), (''fill'', PStr ''black'')], [(''text'', shorthand ''node'')])"
  have an: "nodes_attrs ex_edge_frame ?na = Inr ?dn"
    by (simp add: nodes_attrs_def nodes_defaults_def style_defs ex_cols)
  have ae: "edges_attrs ex_edge_frame ?ea = Inr ?de"
    by (simp add: edges_attrs_def edges_defaults_def style_defs ex_cols)
  have "\<exists>df. to_pandas_nodes ex_path_graph [(''A'', (0, 0)), (''B'', (1, 1)), (''C'', (2, 4))] = Inr df
      \<and> length (rows df) = 3 \<and> column_names df = [''node'', ''x'', ''y'']
      \<and> map fst (rows df) = [PStr ''A'', PStr ''B'', PStr ''C'']"
    by (rule path_nodes_frame) simp_all
  then obtain df where df: "to_pandas_nodes ex_path_graph (kamada_kawai_layout ex_env ex_path_graph) = Inr df"
      "column_names df = [''node'', ''x'', ''y'']"
      "map fst (rows df) = [PStr ''A'', PStr ''B'', PStr ''C'']"
    unfolding ex_env_layout by auto
  have al: "labels_attrs df ?la = Inr ?dl"
    by (simp add: labels_attrs_def labels_defaults_def style_defs df(2))
  note t1 = data_source_precedence [where ev = ex_env and s = ex_layered_store and n = ?na
      and l = 0 and cl = "alt_Chart ex_edge_frame" and df' = ex_edge_frame and d = ?dn
      and a = edges_defaults and b = arrows_defaults and lb = labels_defaults
      and cr = 2 and g = 3 and gr = ex_path_graph and df = ex_edge_frame and go = None and po = None,
      THEN conjunct2, THEN conjunct2, THEN conjunct2, THEN conjunct2, THEN conjunct2, THEN conjunct2, THEN conjunct2, THEN conjunct2, THEN conjunct2, THEN conjunct2, THEN conjunct1, THEN mp]
  note t2 = data_source_precedence [where ev = ex_env and s = ex_layered_store and a = ?ea
      and l = 0 and cl = "alt_Chart ex_edge_frame" and df' = ex_edge_frame and d = ?de
      and n = nodes_defaults and b = arrows_defaults and lb = labels_defaults
      and cr = 2 and g = 3 and gr = ex_path_graph and df = ex_edge_frame and go = None and po = None,
      THEN conjunct2, THEN conjunct1, THEN mp]
  note t3 = data_source_precedence [where ev = ex_env and s = ex_layered_store and lb = ?la
      and l = 0 and cl = "alt_Chart ex_edge_frame" and df' = df and d = ?dl
      and n = nodes_defaults and b = arrows_defaults and a = edges_defaults
      and cr = 2 and g = 3 and gr = ex_path_graph and df = df and go = None and po = None,
      THEN conjunct2, THEN conjunct2, THEN conjunct2, THEN conjunct2, THEN conjunct2, THEN conjunct2, THEN conjunct2, THEN conjunct2, THEN conjunct2, THEN conjunct2, THEN conjunct2, THEN conjunct2, THEN conjunct2, THEN conjunct2, THEN conjunct2, THEN conjunct2, THEN conjunct2, THEN conjunct1, THEN mp]
  have "\<exists>r t c. draw_networkx_nodes ex_env ?na ex_layered_store = (Inr r, t)
      \<and> get_chart t r = Inr c \<and> chart_data c = ex_edge_frame
      \<and> layer_at t 2 1 = Inr r \<and> layer_at t 2 0 = Inr 0"
  proof -
    obtain r t c where r: "draw_networkx_nodes ex_env ?na ex_layered_store = (Inr r, t)"
        "get_chart t r = Inr c" "chart_data c = ex_edge_frame"
        "\<forall>cr. chart ?na = Some cr \<longrightarrow> layer_at t cr 1 = Inr r
            \<and> (\<forall>j. j \<noteq> 1 \<longrightarrow> layer_at t cr j = layer_at ex_layered_store cr j)"
      using t1 an by (auto simp: ex_layered nodes_defaults_def alt_Chart_def)
    have "chart ?na = Some 2" by simp
    with r(4) have "layer_at t 2 1 = Inr r" "layer_at t 2 0 = layer_at ex_layered_store 2 0"
      by auto
    with r(1-3) show ?thesis by (simp add: ex_layered)
  qed
  moreover have "\<exists>r t c. draw_networkx_edges ex_env ?ea ex_layered_store = (Inr r, t)
      \<and> get_chart t r = Inr c \<and> chart_data c = ex_edge_frame
      \<and> layer_at t 2 0 = Inr r \<and> layer_at t 2 1 = Inr 1"
  proof -
    obtain r t c where r: "draw_networkx_edges ex_env ?ea ex_layered_store = (Inr r, t)"
        "get_chart t r = Inr c" "chart_data c = ex_edge_frame" "layer_at t 2 0 = Inr r"
        "\<forall>j. j \<noteq> 0 \<longrightarrow> layer_at t 2 j = layer_at ex_layered_store 2 j"
      using t2 ae by (auto simp: ex_layered edges_defaults_def alt_Chart_def)
    from r(5) have "layer_at t 2 1 = layer_at ex_layered_store 2 1" by auto
    with r(1-4) show ?thesis by (simp add: ex_layered)
  qed
  moreover have "\<exists>r t c. draw_networkx_labels ex_env ?la ex_layered_store = (Inr r, t)
      \<and> get_chart t r = Inr c
      \<and> map fst (rows (chart_data c)) = [PStr ''A'', PStr ''B'', PStr ''C'']"
    using t3 al df by (auto simp: ex_layered labels_defaults_def)
  ultimately show ?thesis by simp
qed

subsection \<open>Filtering on a copy of the graph\<close>
















































end
